(* ===== verification/Prelude.thy ===== *)
theory Prelude
  imports Main "HOL-Library.Sublist"
begin

text \<open>
  Shared vocabulary of the flexsql development: the error values of
  \<^verbatim>\<open>src/grammar.go\<close> (lines 10--18) plus the one Go runtime panic the
  code can reach (indexing an empty slice) and the panic of \<^verbatim>\<open>checkFuncName\<close>, the error monad \<open>error + 'a\<close> in
  which every \<^verbatim>\<open>Stringify\<close> method returns, the Go integer types of
  \<^verbatim>\<open>src/operator.go\<close> (\<^verbatim>\<open>OperatorType\<close>, \<^verbatim>\<open>Associativity\<close> and
  precedences are all Go \<^verbatim>\<open>uint\<close>, only compared and tested for zero,
  never added, so \<open>nat\<close> is exact), and generic lemmas on sums, lists and
  association lists that the component theories share.
\<close>

section \<open>Errors\<close>

datatype error =
    ErrNoPrecedence
  | ErrNoAssociativity
  | ErrUnknownFromClauseItem
  | ErrNonAssociative
  | ErrZeroLength
  | ErrUnknownInputKey
  | ErrUnboundPlaceholder
  | PanicIndexOutOfRange
  | PanicIllegalFuncName

type_synonym 'a result = "error + 'a"

text \<open>
  Go's \<^verbatim>\<open>if err := f(); err != nil { return err }\<close>: the first error
  aborts the rest of the computation and is returned unchanged.
\<close>

definition ebind :: "'e + 'a \<Rightarrow> ('a \<Rightarrow> 'e + 'b) \<Rightarrow> 'e + 'b" where
  "ebind r f = (case r of Inl e \<Rightarrow> Inl e | Inr a \<Rightarrow> f a)"

section \<open>Go integer types\<close>

type_synonym optype = nat
type_synonym associativity = nat
type_synonym precedence = nat

named_theorems ebind_simps "rewriting rules for chains of ebind"

lemma ebind_Inl [simp, ebind_simps]: "ebind (Inl e) f = Inl e"
  by (simp add: ebind_def)

lemma ebind_Inr [simp, ebind_simps]: "ebind (Inr a) f = f a"
  by (simp add: ebind_def)

lemma ebind_eq_Inr_iff [ebind_simps]:
  "ebind r f = Inr b \<longleftrightarrow> (\<exists>a. r = Inr a \<and> f a = Inr b)"
  by (cases r) auto

lemma ebind_eq_Inl_iff [ebind_simps]:
  "ebind r f = Inl e \<longleftrightarrow> r = Inl e \<or> (\<exists>a. r = Inr a \<and> f a = Inl e)"
  by (cases r) auto

lemma ebind_assoc [ebind_simps]:
  "ebind (ebind r f) g = ebind r (\<lambda>a. ebind (f a) g)"
  by (cases r) auto

lemma ebind_cong:
  "r = r' \<Longrightarrow> (\<And>a. r' = Inr a \<Longrightarrow> f a = g a) \<Longrightarrow> ebind r f = ebind r' g"
  by (cases r) auto

text \<open>
  A property that every successful step of a chain preserves holds of the chain's
  result: the shape of all the frame and invariant proofs over \<^verbatim>\<open>Stringify\<close>.
\<close>

lemma ebind_Inr_rel:
  assumes "ebind r f = Inr b"
    and "\<And>a. r = Inr a \<Longrightarrow> R x a"
    and "\<And>a. r = Inr a \<Longrightarrow> f a = Inr b \<Longrightarrow> R a b"
    and "\<And>a. R x a \<Longrightarrow> R a b \<Longrightarrow> R x b"
  shows "R x b"
  using assms by (cases r) auto

section \<open>Sizes of nested lists\<close>

lemma size_list_elem: "x \<in> set xs \<Longrightarrow> f x \<le> size_list f xs"
  by (induction xs) auto

lemma size_list_comp_le:
  "(\<And>x. x \<in> set xs \<Longrightarrow> f (g x) \<le> f x) \<Longrightarrow> size_list (f \<circ> g) xs \<le> size_list f xs"
  by (induction xs) (simp_all add: add_mono comp_def)

lemma size_list_take_le: "size_list f (take n xs) \<le> size_list f xs"
  by (induction xs arbitrary: n) (auto simp: take_Cons split: nat.splits)

lemma size_option_map_le:
  "(\<And>a. ox = Some a \<Longrightarrow> f (g a) \<le> f a) \<Longrightarrow>
   size_option f (map_option g ox) \<le> size_option f ox"
  by (cases ox) auto

section \<open>Association lists\<close>

lemma map_of_prefix:
  "prefix xs ys \<Longrightarrow> map_of xs k = Some v \<Longrightarrow> map_of ys k = Some v"
  by (auto simp: prefix_def)

lemma map_of_append_None:
  "map_of xs k = None \<Longrightarrow> map_of (xs @ [(k, v)]) k = Some v"
  by (induction xs) auto

end
