(* ===== verification/Compiler.thy ===== *)
theory Compiler
  imports Prelude
begin

text \<open>
  The output context \<^verbatim>\<open>*Compiler\<close> that every \<^verbatim>\<open>Stringify\<close> and
  \<^verbatim>\<open>Transform\<close> method of \<^verbatim>\<open>src/\<close> receives. Its Go source is not part
  of \<^verbatim>\<open>src/\<close>; it is modelled from the interface the spec gives (section 4.6)
  and from the calls the sources make: \<^verbatim>\<open>WriteVerbatim\<close>,
  \<^verbatim>\<open>WriteIdentifier\<close>, \<^verbatim>\<open>precedence\<close>, \<^verbatim>\<open>associativity\<close>,
  \<^verbatim>\<open>insertPlaceholder\<close> and \<^verbatim>\<open>makePlaceholder\<close>. The dialect is the four
  function fields; the mutable state of one print pass is the text buffer and the
  insertion-ordered name-to-position binding table.
\<close>

record compiler =
  buffer :: string
  bindings :: "(string \<times> nat) list"
  precedence :: "optype \<Rightarrow> precedence"
  associativity :: "optype \<Rightarrow> associativity"
  quote_identifier :: "string \<Rightarrow> string"
  render_placeholder :: "string \<Rightarrow> nat \<Rightarrow> string"

definition WriteVerbatim :: "string \<Rightarrow> compiler \<Rightarrow> compiler" where
  "WriteVerbatim s c = c\<lparr>buffer := buffer c @ s\<rparr>"

definition WriteIdentifier :: "string \<Rightarrow> compiler \<Rightarrow> compiler" where
  "WriteIdentifier s c = WriteVerbatim (quote_identifier c s) c"

text \<open>Assign-or-reuse: a bound name keeps its position; a new one gets the next 1-based one.\<close>

definition insertPlaceholder :: "string \<Rightarrow> compiler \<Rightarrow> nat \<times> compiler" where
  "insertPlaceholder name c =
     (case map_of (bindings c) name of
        Some pos \<Rightarrow> (pos, c)
      | None \<Rightarrow> (let pos = Suc (length (bindings c))
                in (pos, c\<lparr>bindings := bindings c @ [(name, pos)]\<rparr>)))"

definition makePlaceholder :: "compiler \<Rightarrow> string \<Rightarrow> nat \<Rightarrow> string" where
  "makePlaceholder c name pos = render_placeholder c name pos"

section \<open>How one print pass may change the context\<close>

text \<open>
  \<open>extends c c'\<close>: \<open>c'\<close> is \<open>c\<close> after appending text and bindings; the dialect
  is untouched.
\<close>

definition extends :: "compiler \<Rightarrow> compiler \<Rightarrow> bool" where
  "extends c c' \<longleftrightarrow>
     prefix (buffer c) (buffer c') \<and> prefix (bindings c) (bindings c') \<and>
     precedence c' = precedence c \<and> associativity c' = associativity c \<and>
     quote_identifier c' = quote_identifier c \<and>
     render_placeholder c' = render_placeholder c \<and> more c' = more c"

text \<open>
  The binder's invariant: positions are \<open>1, 2, \<dots>\<close> in insertion order and no
  name is bound twice.
\<close>

definition binder_wf :: "compiler \<Rightarrow> bool" where
  "binder_wf c \<longleftrightarrow>
     map snd (bindings c) = [1..<Suc (length (bindings c))] \<and> distinct (map fst (bindings c))"

text \<open>
  The binder's abstract specification (spec 4.5): a partial map from names to
  positions and the number of positions handed out. Binding a name returns its
  position if it has one, else the next position, recorded. \<open>abs_binder\<close> reads
  the abstract binder off the insertion-ordered table of the context.
\<close>

definition bind_abs ::
  "string \<Rightarrow> (string \<rightharpoonup> nat) \<times> nat \<Rightarrow> nat \<times> ((string \<rightharpoonup> nat) \<times> nat)" where
  "bind_abs name mk =
     (case fst mk name of
        Some pos \<Rightarrow> (pos, mk)
      | None \<Rightarrow> (Suc (snd mk), ((fst mk)(name \<mapsto> Suc (snd mk)), Suc (snd mk))))"

definition abs_binder :: "compiler \<Rightarrow> (string \<rightharpoonup> nat) \<times> nat" where
  "abs_binder c = (map_of (bindings c), length (bindings c))"

named_theorems compiler_simps "field equations of the output-context operations"

lemma WriteVerbatim_fields [simp, compiler_simps]:
  "buffer (WriteVerbatim s c) = buffer c @ s"
  "bindings (WriteVerbatim s c) = bindings c"
  "precedence (WriteVerbatim s c) = precedence c"
  "associativity (WriteVerbatim s c) = associativity c"
  "quote_identifier (WriteVerbatim s c) = quote_identifier c"
  "render_placeholder (WriteVerbatim s c) = render_placeholder c"
  by (simp_all add: WriteVerbatim_def)

lemma WriteVerbatim_append [simp]:
  "WriteVerbatim t (WriteVerbatim s c) = WriteVerbatim (s @ t) c"
  by (simp add: WriteVerbatim_def)

lemma WriteVerbatim_Nil [simp]: "WriteVerbatim [] c = c"
  by (simp add: WriteVerbatim_def)

lemma extends_refl [simp, intro]: "extends c c"
  by (simp add: extends_def)

lemma extends_trans [trans]: "extends a b \<Longrightarrow> extends b c \<Longrightarrow> extends a c"
  by (auto simp: extends_def intro: prefix_order.trans)

lemma extends_WriteVerbatim [simp, intro]: "extends c (WriteVerbatim s c)"
  by (simp add: extends_def WriteVerbatim_def)

lemma extends_WriteIdentifier [simp, intro]: "extends c (WriteIdentifier s c)"
  by (simp add: WriteIdentifier_def)

lemma extends_WriteVerbatim_left [elim]:
  "extends (WriteVerbatim s c) c' \<Longrightarrow> extends c c'"
  using extends_trans extends_WriteVerbatim by blast

lemma extends_WriteVerbatim_right [intro]:
  "extends c c' \<Longrightarrow> extends c (WriteVerbatim s c')"
  using extends_trans extends_WriteVerbatim by blast

lemma extends_WriteIdentifier_right [intro]:
  "extends c c' \<Longrightarrow> extends c (WriteIdentifier s c')"
  by (simp add: WriteIdentifier_def extends_WriteVerbatim_right)

lemma insertPlaceholder_extends: "insertPlaceholder n c = (p, c') \<Longrightarrow> extends c c'"
  by (auto simp: insertPlaceholder_def extends_def Let_def split: option.splits)

lemma extends_binder_wf:
  "extends c c' \<Longrightarrow> bindings c' = bindings c \<Longrightarrow> binder_wf c = binder_wf c'"
  by (simp add: binder_wf_def)

lemma WriteVerbatim_binder_wf [simp]: "binder_wf (WriteVerbatim s c) = binder_wf c"
  by (simp add: binder_wf_def)

lemma insertPlaceholder_lookup:
  "insertPlaceholder n c = (p, c') \<Longrightarrow> map_of (bindings c') n = Some p"
  by (auto simp: insertPlaceholder_def Let_def map_add_def split: option.splits)

lemma insertPlaceholder_buffer:
  "insertPlaceholder n c = (p, c') \<Longrightarrow> buffer c' = buffer c"
  by (auto simp: insertPlaceholder_def Let_def split: option.splits)

lemma insertPlaceholder_bound:
  "map_of (bindings c) n = Some p \<Longrightarrow> insertPlaceholder n c = (p, c)"
  by (simp add: insertPlaceholder_def)

lemma extends_map_of:
  "extends c c' \<Longrightarrow> map_of (bindings c) n = Some p \<Longrightarrow> map_of (bindings c') n = Some p"
  unfolding extends_def by (auto intro: map_of_prefix)

lemma insertPlaceholder_binder_wf:
  assumes wf: "binder_wf c" and ins: "insertPlaceholder n c = (p, c')"
  shows "binder_wf c'"
proof (cases "map_of (bindings c) n")
  case None
  then have "n \<notin> set (map fst (bindings c))" by (simp add: map_of_eq_None_iff image_iff)
  with None wf ins show ?thesis by (auto simp: insertPlaceholder_def binder_wf_def)
next
  case (Some q)
  with ins show ?thesis using wf by (simp add: insertPlaceholder_def)
qed

lemma map_of_binder_wf_pos:
  "binder_wf c \<Longrightarrow> map_of (bindings c) n = Some p \<Longrightarrow> 1 \<le> p \<and> p \<le> length (bindings c)"
proof -
  assume wf: "binder_wf c" and look: "map_of (bindings c) n = Some p"
  from look have "(n, p) \<in> set (bindings c)" by (rule map_of_SomeD)
  then have "p \<in> set (map snd (bindings c))" by force
  with wf show ?thesis by (auto simp: binder_wf_def)
qed

lemma insertPlaceholder_refines:
  "map_prod id abs_binder (insertPlaceholder name c) = bind_abs name (abs_binder c)"
  by (auto simp: insertPlaceholder_def bind_abs_def abs_binder_def Let_def map_add_def
      split: option.splits intro!: ext)

end
