(* ===== verification/Ast.thy ===== *)
theory Ast
  imports Prelude
begin

text \<open>
  The node types of \<^verbatim>\<open>src/grammar.go\<close> and \<^verbatim>\<open>src/operator.go\<close>. Go's
  \<^verbatim>\<open>Node\<close> (= \<^verbatim>\<open>Expr\<close>) interface is implemented by exactly the struct
  types below, so it is one datatype with one constructor per implementing type,
  carrying that type's fields in the order the struct declares them. A field whose
  static type is itself a node type (\<^verbatim>\<open>*FromClauseItem\<close>,
  \<^verbatim>\<open>*SelectStmt\<close>, \<^verbatim>\<open>[]*LabeledColumn\<close>, \<dots>) is a \<open>node\<close>; the predicate
  \<open>well_typed\<close> of theory \<open>Transform\<close> restores the static type. A pointer
  that the code tests against \<^verbatim>\<open>nil\<close> is a \<open>node option\<close>; one it never
  tests is a plain \<open>node\<close> (a \<^verbatim>\<open>nil\<close> there is a nil dereference, not
  modelled). \<^verbatim>\<open>SQLType\<close> is a Go string type, so \<^verbatim>\<open>CastExpr.sqlType\<close>
  is a \<open>string\<close>.
\<close>

datatype node =
    SQLType string
  | CastExpr node string
  | FuncExpr string "node list" bool
  | Column string string
  | LabeledColumn node string
  | Table string string
  | LabeledTable string string string
  | FromClause node
  | JoinClause string node node node
  | LabeledSelectStmt node string
  | FromClauseItem "node option" "node option" "node option"
  | Tuple "node list"
  | CaseExpr "node list" "node list" "node option"
  | Placeholder string
  | WhereClause node
  | GroupByClause "node list"
  | HavingClause node
  | OrderbyItem node bool bool bool
  | OrderByClause "node list"
  | LimitClause node
  | OffsetClause node
  | SelectStmt "node list" "node option" "node option" "node option" "node option"
      "node option" "node option" "node option"
  | UnaryOperator optype string optype string node precedence associativity
  | BinaryOperator optype string optype string node node precedence associativity bool
  | TernaryOperator optype string string optype string string node node node
      precedence associativity

section \<open>Operator types and associativities (operator.go lines 3--44)\<close>

abbreviation OpMul :: optype where "OpMul \<equiv> 1"
abbreviation OpDiv :: optype where "OpDiv \<equiv> 2"
abbreviation OpMod :: optype where "OpMod \<equiv> 3"
abbreviation OpAdd :: optype where "OpAdd \<equiv> 4"
abbreviation OpSub :: optype where "OpSub \<equiv> 5"
abbreviation OpIsNull :: optype where "OpIsNull \<equiv> 6"
abbreviation OpIsNotNull :: optype where "OpIsNotNull \<equiv> 7"
abbreviation OpIsTrue :: optype where "OpIsTrue \<equiv> 8"
abbreviation OpIsNotTrue :: optype where "OpIsNotTrue \<equiv> 9"
abbreviation OpIsFalse :: optype where "OpIsFalse \<equiv> 10"
abbreviation OpIsNotFalse :: optype where "OpIsNotFalse \<equiv> 11"
abbreviation OpIn :: optype where "OpIn \<equiv> 12"
abbreviation OpNotIn :: optype where "OpNotIn \<equiv> 13"
abbreviation OpBetween :: optype where "OpBetween \<equiv> 14"
abbreviation OpNotBetween :: optype where "OpNotBetween \<equiv> 15"
abbreviation OpLike :: optype where "OpLike \<equiv> 16"
abbreviation OpNotLike :: optype where "OpNotLike \<equiv> 17"
abbreviation OpILike :: optype where "OpILike \<equiv> 18"
abbreviation OpNotILike :: optype where "OpNotILike \<equiv> 19"
abbreviation OpLt :: optype where "OpLt \<equiv> 20"
abbreviation OpLte :: optype where "OpLte \<equiv> 21"
abbreviation OpGt :: optype where "OpGt \<equiv> 22"
abbreviation OpGte :: optype where "OpGte \<equiv> 23"
abbreviation OpEq :: optype where "OpEq \<equiv> 24"
abbreviation OpNotEq :: optype where "OpNotEq \<equiv> 25"
abbreviation OpNot :: optype where "OpNot \<equiv> 26"
abbreviation OpAnd :: optype where "OpAnd \<equiv> 27"
abbreviation OpOr :: optype where "OpOr \<equiv> 28"

abbreviation NonAssociative :: associativity where "NonAssociative \<equiv> 1"
abbreviation LeftAssociative :: associativity where "LeftAssociative \<equiv> 2"
abbreviation RightAssociative :: associativity where "RightAssociative \<equiv> 3"

section \<open>The \<^verbatim>\<open>operator\<close> interface (operator.go lines 46--53)\<close>

text \<open>\<^verbatim>\<open>e.(operator)\<close> succeeds exactly on the three operator structs.\<close>

fun is_operator :: "node \<Rightarrow> bool" where
  "is_operator (UnaryOperator _ _ _ _ _ _ _) = True"
| "is_operator (BinaryOperator _ _ _ _ _ _ _ _ _) = True"
| "is_operator (TernaryOperator _ _ _ _ _ _ _ _ _ _ _) = True"
| "is_operator _ = False"

text \<open>
  The methods \<^verbatim>\<open>precedence()\<close>, \<^verbatim>\<open>associativity()\<close> and
  \<^verbatim>\<open>operatorType()\<close> return the struct's field; they are only called on
  operators, so their value elsewhere is an arbitrary 0.
\<close>

fun custom_precedence :: "node \<Rightarrow> precedence" where
  "custom_precedence (UnaryOperator _ _ _ _ _ p _) = p"
| "custom_precedence (BinaryOperator _ _ _ _ _ _ p _ _) = p"
| "custom_precedence (TernaryOperator _ _ _ _ _ _ _ _ _ p _) = p"
| "custom_precedence _ = 0"

fun custom_associativity :: "node \<Rightarrow> associativity" where
  "custom_associativity (UnaryOperator _ _ _ _ _ _ a) = a"
| "custom_associativity (BinaryOperator _ _ _ _ _ _ _ a _) = a"
| "custom_associativity (TernaryOperator _ _ _ _ _ _ _ _ _ _ a) = a"
| "custom_associativity _ = 0"

fun operator_type :: "node \<Rightarrow> optype" where
  "operator_type (UnaryOperator t _ _ _ _ _ _) = t"
| "operator_type (BinaryOperator t _ _ _ _ _ _ _ _) = t"
| "operator_type (TernaryOperator t _ _ _ _ _ _ _ _ _ _) = t"
| "operator_type _ = 0"

text \<open>\<^verbatim>\<open>UnaryOperator.isNot\<close>.\<close>

fun is_not :: "node \<Rightarrow> bool" where
  "is_not (UnaryOperator t _ _ _ _ _ _) = (t = OpNot)"
| "is_not _ = False"

text \<open>
  \<^verbatim>\<open>negatable()\<close> and \<^verbatim>\<open>negate()\<close> of each operator struct (operator.go
  lines 105--122, 205--220, 293--311); \<open>negatable\<close> and \<open>negate\<close> dispatch on
  the operator. A NOT is negatable and negates to its operand; any other operator
  swaps its (type, symbol) with the negated pair, keeping the operands and the
  overrides. \<^verbatim>\<open>BinaryOperator.negate\<close> builds its result without copying
  \<^verbatim>\<open>SuppressSpace\<close>, so the negation of a glued operator is spaced.
\<close>

definition unary_negatable :: "optype \<Rightarrow> optype \<Rightarrow> string \<Rightarrow> bool" where
  "unary_negatable t nt ns \<longleftrightarrow> t = OpNot \<or> (nt \<noteq> 0 \<and> ns \<noteq> [])"

definition binary_negatable :: "optype \<Rightarrow> string \<Rightarrow> bool" where
  "binary_negatable nt ns \<longleftrightarrow> nt \<noteq> 0 \<and> ns \<noteq> []"

definition ternary_negatable :: "optype \<Rightarrow> string \<Rightarrow> string \<Rightarrow> bool" where
  "ternary_negatable nt ns1 ns2 \<longleftrightarrow> nt \<noteq> 0 \<and> ns1 \<noteq> [] \<and> ns2 \<noteq> []"

definition unary_negate ::
  "optype \<Rightarrow> string \<Rightarrow> optype \<Rightarrow> string \<Rightarrow> node \<Rightarrow> precedence \<Rightarrow> associativity \<Rightarrow> node" where
  "unary_negate t s nt ns e p a = (if t = OpNot then e else UnaryOperator nt ns t s e p a)"

definition binary_negate ::
  "optype \<Rightarrow> string \<Rightarrow> optype \<Rightarrow> string \<Rightarrow> node \<Rightarrow> node \<Rightarrow> precedence \<Rightarrow> associativity \<Rightarrow>
   node" where
  "binary_negate t s nt ns l r p a = BinaryOperator nt ns t s l r p a False"

definition ternary_negate ::
  "optype \<Rightarrow> string \<Rightarrow> string \<Rightarrow> optype \<Rightarrow> string \<Rightarrow> string \<Rightarrow> node \<Rightarrow> node \<Rightarrow> node \<Rightarrow>
   precedence \<Rightarrow> associativity \<Rightarrow> node" where
  "ternary_negate t s1 s2 nt ns1 ns2 e1 e2 e3 p a = TernaryOperator nt ns1 ns2 t s1 s2 e1 e2 e3 p a"

fun negatable :: "node \<Rightarrow> bool" where
  "negatable (UnaryOperator t s nt ns e p a) = unary_negatable t nt ns"
| "negatable (BinaryOperator t s nt ns l r p a ss) = binary_negatable nt ns"
| "negatable (TernaryOperator t s1 s2 nt ns1 ns2 e1 e2 e3 p a) = ternary_negatable nt ns1 ns2"
| "negatable _ = False"

fun negate :: "node \<Rightarrow> node" where
  "negate (UnaryOperator t s nt ns e p a) = unary_negate t s nt ns e p a"
| "negate (BinaryOperator t s nt ns l r p a ss) = binary_negate t s nt ns l r p a"
| "negate (TernaryOperator t s1 s2 nt ns1 ns2 e1 e2 e3 p a) =
     ternary_negate t s1 s2 nt ns1 ns2 e1 e2 e3 p a"
| "negate n = n"

lemmas negate_methods [simp] = unary_negatable_def binary_negatable_def ternary_negatable_def
  unary_negate_def binary_negate_def ternary_negate_def

section \<open>Builders (operator.go lines 353--634)\<close>

definition Not_op :: "node \<Rightarrow> node" where
  "Not_op e = UnaryOperator OpNot ''NOT'' 0 [] e 0 0"

definition IsNull :: "node \<Rightarrow> node" where
  "IsNull e = UnaryOperator OpIsNull ''IS NULL'' OpIsNotNull ''IS NOT NULL'' e 0 0"

definition IsNotNull :: "node \<Rightarrow> node" where
  "IsNotNull e = UnaryOperator OpIsNotNull ''IS NOT NULL'' OpIsNull ''IS NULL'' e 0 0"

definition IsTrue :: "node \<Rightarrow> node" where
  "IsTrue e = UnaryOperator OpIsTrue ''IS TRUE'' OpIsNotTrue ''IS NOT TRUE'' e 0 0"

definition IsNotTrue :: "node \<Rightarrow> node" where
  "IsNotTrue e = UnaryOperator OpIsNotTrue ''IS NOT TRUE'' OpIsTrue ''IS TRUE'' e 0 0"

definition IsFalse :: "node \<Rightarrow> node" where
  "IsFalse e = UnaryOperator OpIsFalse ''IS FALSE'' OpIsNotFalse ''IS NOT FALSE'' e 0 0"

definition IsNotFalse :: "node \<Rightarrow> node" where
  "IsNotFalse e = UnaryOperator OpIsNotFalse ''IS NOT FALSE'' OpIsFalse ''IS FALSE'' e 0 0"

text \<open>Binary builders: the struct literal with only type, symbol(s) and operands set.\<close>

definition binop :: "optype \<Rightarrow> string \<Rightarrow> optype \<Rightarrow> string \<Rightarrow> node \<Rightarrow> node \<Rightarrow> node" where
  "binop t s nt ns l r = BinaryOperator t s nt ns l r 0 0 False"

definition And :: "node \<Rightarrow> node \<Rightarrow> node" where "And l r = binop OpAnd ''AND'' 0 [] l r"
definition Or :: "node \<Rightarrow> node \<Rightarrow> node" where "Or l r = binop OpOr ''OR'' 0 [] l r"
definition Add :: "node \<Rightarrow> node \<Rightarrow> node" where "Add l r = binop OpAdd ''+'' 0 [] l r"
definition Sub :: "node \<Rightarrow> node \<Rightarrow> node" where "Sub l r = binop OpSub ''-'' 0 [] l r"
definition Mul :: "node \<Rightarrow> node \<Rightarrow> node" where "Mul l r = binop OpMul ''*'' 0 [] l r"
definition Div :: "node \<Rightarrow> node \<Rightarrow> node" where "Div l r = binop OpDiv ''/'' 0 [] l r"
definition Mod :: "node \<Rightarrow> node \<Rightarrow> node" where "Mod l r = binop OpMod ''%'' 0 [] l r"
definition Lt :: "node \<Rightarrow> node \<Rightarrow> node" where "Lt l r = binop OpLt ''<'' 0 [] l r"
definition Lte :: "node \<Rightarrow> node \<Rightarrow> node" where "Lte l r = binop OpLte ''<='' 0 [] l r"
definition Gt :: "node \<Rightarrow> node \<Rightarrow> node" where "Gt l r = binop OpGt ''>'' 0 [] l r"
definition Gte :: "node \<Rightarrow> node \<Rightarrow> node" where "Gte l r = binop OpGte ''>='' 0 [] l r"
definition Eq :: "node \<Rightarrow> node \<Rightarrow> node" where
  "Eq l r = binop OpEq ''='' OpNotEq ''<>'' l r"
definition NotEq :: "node \<Rightarrow> node \<Rightarrow> node" where
  "NotEq l r = binop OpNotEq ''<>'' OpEq ''='' l r"
definition In :: "node \<Rightarrow> node \<Rightarrow> node" where
  "In l r = binop OpIn ''IN'' OpNotIn ''NOT IN'' l r"
definition NotIn :: "node \<Rightarrow> node \<Rightarrow> node" where
  "NotIn l r = binop OpNotIn ''NOT IN'' OpIn ''IN'' l r"
definition Like :: "node \<Rightarrow> node \<Rightarrow> node" where
  "Like l r = binop OpLike ''LIKE'' OpNotLike ''NOT LIKE'' l r"
definition NotLike :: "node \<Rightarrow> node \<Rightarrow> node" where
  "NotLike l r = binop OpNotLike ''NOT LIKE'' OpLike ''LIKE'' l r"
definition ILike :: "node \<Rightarrow> node \<Rightarrow> node" where
  "ILike l r = binop OpILike ''ILIKE'' OpNotILike ''NOT ILIKE'' l r"
definition NotILike :: "node \<Rightarrow> node \<Rightarrow> node" where
  "NotILike l r = binop OpNotILike ''NOT ILIKE'' OpILike ''ILIKE'' l r"

definition Between :: "node \<Rightarrow> node \<Rightarrow> node \<Rightarrow> node" where
  "Between e1 e2 e3 =
     TernaryOperator OpBetween ''BETWEEN'' ''AND'' OpNotBetween ''NOT BETWEEN'' ''AND''
       e1 e2 e3 0 0"

definition NotBetween :: "node \<Rightarrow> node \<Rightarrow> node \<Rightarrow> node" where
  "NotBetween e1 e2 e3 =
     TernaryOperator OpNotBetween ''NOT BETWEEN'' ''AND'' OpBetween ''BETWEEN'' ''AND''
       e1 e2 e3 0 0"

lemmas unary_builders = Not_op_def IsNull_def IsNotNull_def IsTrue_def IsNotTrue_def
  IsFalse_def IsNotFalse_def
lemmas binary_builders = And_def Or_def Add_def Sub_def Mul_def Div_def Mod_def Lt_def
  Lte_def Gt_def Gte_def Eq_def NotEq_def In_def NotIn_def Like_def NotLike_def ILike_def
  NotILike_def binop_def
lemmas ternary_builders = Between_def NotBetween_def
lemmas builders = unary_builders binary_builders ternary_builders

section \<open>Facts on the operator interface\<close>

lemma size_negate_le: "size (negate n) \<le> size n"
  by (cases n) auto

lemma negate_is_operator: "is_operator n \<Longrightarrow> \<not> is_not n \<Longrightarrow> is_operator (negate n)"
  by (cases n) auto

end
