(* ===== verification/Resolve.thy ===== *)
theory Resolve
  imports Compiler Ast
begin

text \<open>
  The precedence resolver of \<^verbatim>\<open>src/operator.go\<close> (lines 55--77): an
  operator's own non-zero override wins, else the dialect's table entry for its
  operator type, else an error. Zero is the "unset" sentinel on both sides, so a
  resolved precedence is never zero; a resolved associativity is any non-zero
  \<^verbatim>\<open>uint\<close>, not only one of the three named values.
\<close>

definition resolveOperatorPrecedence :: "node \<Rightarrow> compiler \<Rightarrow> precedence result" where
  "resolveOperatorPrecedence op c =
     (let customPrecedence = custom_precedence op in
      if customPrecedence \<noteq> 0 then Inr customPrecedence
      else let prec = precedence c (operator_type op) in
           if prec \<noteq> 0 then Inr prec else Inl ErrNoPrecedence)"

definition resolveOperatorAssociativity :: "node \<Rightarrow> compiler \<Rightarrow> associativity result" where
  "resolveOperatorAssociativity op c =
     (let customAssociativity = custom_associativity op in
      if customAssociativity \<noteq> 0 then Inr customAssociativity
      else let assoc = associativity c (operator_type op) in
           if assoc \<noteq> 0 then Inr assoc else Inl ErrNoAssociativity)"

text \<open>The only error each resolver can return is its own.\<close>

lemma resolveOperatorPrecedence_Inl:
  "resolveOperatorPrecedence op c = Inl e \<longleftrightarrow>
     e = ErrNoPrecedence \<and> custom_precedence op = 0 \<and> precedence c (operator_type op) = 0"
  by (auto simp: resolveOperatorPrecedence_def Let_def)

lemma resolveOperatorAssociativity_Inl:
  "resolveOperatorAssociativity op c = Inl e \<longleftrightarrow>
     e = ErrNoAssociativity \<and> custom_associativity op = 0 \<and>
     associativity c (operator_type op) = 0"
  by (auto simp: resolveOperatorAssociativity_def Let_def)

lemma resolveOperatorPrecedence_pos:
  "resolveOperatorPrecedence op c = Inr p \<Longrightarrow> 0 < p"
  by (auto simp: resolveOperatorPrecedence_def Let_def split: if_splits)

lemma resolveOperatorAssociativity_pos:
  "resolveOperatorAssociativity op c = Inr a \<Longrightarrow> 0 < a"
  by (auto simp: resolveOperatorAssociativity_def Let_def split: if_splits)

text \<open>The resolvers read only the dialect tables of the context, never the buffer.\<close>

lemma resolve_extends:
  "extends c c' \<Longrightarrow> resolveOperatorPrecedence op c' = resolveOperatorPrecedence op c"
  "extends c c' \<Longrightarrow> resolveOperatorAssociativity op c' = resolveOperatorAssociativity op c"
  by (simp_all add: extends_def resolveOperatorPrecedence_def
      resolveOperatorAssociativity_def Let_def)

lemma resolve_WriteVerbatim [simp]:
  "resolveOperatorPrecedence op (WriteVerbatim s c) = resolveOperatorPrecedence op c"
  "resolveOperatorAssociativity op (WriteVerbatim s c) = resolveOperatorAssociativity op c"
  by (simp_all add: resolveOperatorPrecedence_def resolveOperatorAssociativity_def Let_def)

text \<open>Negation keeps the overrides; only the operator type (hence the table entry) changes.\<close>

lemma custom_negate:
  "\<not> is_not n \<Longrightarrow> custom_precedence (negate n) = custom_precedence n"
  "\<not> is_not n \<Longrightarrow> custom_associativity (negate n) = custom_associativity n"
  by (cases n; simp)+

end
