(* ===== verification/TransformMethods.thy ===== *)
theory TransformMethods
  imports Ast
begin

text \<open>
  The \<^verbatim>\<open>Transform\<close> method of each grammar node and of the binary and ternary
  operators. A method that rewrites its children receives the rewrite \<open>f\<close> to
  apply to them, as the Go method calls \<^verbatim>\<open>Transform\<close> on each child field and
  type-asserts the result. A nil field is \<open>None\<close> and is skipped. The leaves, and
  \<^verbatim>\<open>LabeledColumn\<close>, return themselves and need no definition. The congruence
  rules tell the function package which children each method rewrites, so that
  \<open>transform\<close> in \<open>Transform\<close> is defined through these methods with its
  termination proof unchanged.
\<close>

definition cast_transform :: "(node \<Rightarrow> node) \<Rightarrow> node \<Rightarrow> string \<Rightarrow> node" where
  "cast_transform f expr sqlType = CastExpr (f expr) sqlType"

definition func_transform :: "(node \<Rightarrow> node) \<Rightarrow> string \<Rightarrow> node list \<Rightarrow> bool \<Rightarrow> node" where
  "func_transform f name args omit = FuncExpr name (map f args) omit"

definition from_clause_transform :: "(node \<Rightarrow> node) \<Rightarrow> node \<Rightarrow> node" where
  "from_clause_transform f item = FromClause (f item)"

definition join_transform :: "(node \<Rightarrow> node) \<Rightarrow> string \<Rightarrow> node \<Rightarrow> node \<Rightarrow> node \<Rightarrow> node" where
  "join_transform f joinType left right on = JoinClause joinType (f left) (f right) (f on)"

definition labeled_select_transform :: "(node \<Rightarrow> node) \<Rightarrow> node \<Rightarrow> string \<Rightarrow> node" where
  "labeled_select_transform f selectStmt label = LabeledSelectStmt (f selectStmt) label"

text \<open>Only the first populated alternative is rewritten (the \<^verbatim>\<open>else if\<close> chain).\<close>

definition from_clause_item_transform ::
  "(node \<Rightarrow> node) \<Rightarrow> node option \<Rightarrow> node option \<Rightarrow> node option \<Rightarrow> node" where
  "from_clause_item_transform f tableRef subquery joinClause =
     (case tableRef of
        Some t \<Rightarrow> FromClauseItem (Some (f t)) subquery joinClause
      | None \<Rightarrow> (case subquery of
           Some q \<Rightarrow> FromClauseItem tableRef (Some (f q)) joinClause
         | None \<Rightarrow> (case joinClause of
              Some j \<Rightarrow> FromClauseItem tableRef subquery (Some (f j))
            | None \<Rightarrow> FromClauseItem tableRef subquery joinClause)))"

definition tuple_transform :: "(node \<Rightarrow> node) \<Rightarrow> node list \<Rightarrow> node" where
  "tuple_transform f exprs = Tuple (map f exprs)"

definition case_transform ::
  "(node \<Rightarrow> node) \<Rightarrow> node list \<Rightarrow> node list \<Rightarrow> node option \<Rightarrow> node" where
  "case_transform f conds results elseExpr =
     CaseExpr (map f conds) (map f results) (map_option f elseExpr)"

definition where_transform :: "(node \<Rightarrow> node) \<Rightarrow> node \<Rightarrow> node" where
  "where_transform f expr = WhereClause (f expr)"

definition groupby_transform :: "(node \<Rightarrow> node) \<Rightarrow> node list \<Rightarrow> node" where
  "groupby_transform f exprs = GroupByClause (map f exprs)"

definition having_transform :: "(node \<Rightarrow> node) \<Rightarrow> node \<Rightarrow> node" where
  "having_transform f expr = HavingClause (f expr)"

definition orderby_item_transform ::
  "(node \<Rightarrow> node) \<Rightarrow> node \<Rightarrow> bool \<Rightarrow> bool \<Rightarrow> bool \<Rightarrow> node" where
  "orderby_item_transform f expr desc nullsSet nullsLast = OrderbyItem (f expr) desc nullsSet nullsLast"

definition orderby_transform :: "(node \<Rightarrow> node) \<Rightarrow> node list \<Rightarrow> node" where
  "orderby_transform f items = OrderByClause (map f items)"

definition limit_transform :: "(node \<Rightarrow> node) \<Rightarrow> node \<Rightarrow> node" where
  "limit_transform f expr = LimitClause (f expr)"

definition offset_transform :: "(node \<Rightarrow> node) \<Rightarrow> node \<Rightarrow> node" where
  "offset_transform f expr = OffsetClause (f expr)"

definition select_transform ::
  "(node \<Rightarrow> node) \<Rightarrow> node list \<Rightarrow> node option \<Rightarrow> node option \<Rightarrow> node option \<Rightarrow>
   node option \<Rightarrow> node option \<Rightarrow> node option \<Rightarrow> node option \<Rightarrow> node" where
  "select_transform f columns fromClause whereClause groupByClause havingClause orderByClause
     limitClause offsetClause =
     SelectStmt (map f columns) (map_option f fromClause) (map_option f whereClause)
       (map_option f groupByClause) (map_option f havingClause) (map_option f orderByClause)
       (map_option f limitClause) (map_option f offsetClause)"

definition binary_transform ::
  "(node \<Rightarrow> node) \<Rightarrow> optype \<Rightarrow> string \<Rightarrow> optype \<Rightarrow> string \<Rightarrow> node \<Rightarrow> node \<Rightarrow>
   precedence \<Rightarrow> associativity \<Rightarrow> bool \<Rightarrow> node" where
  "binary_transform f t s nt ns left right p a ss =
     BinaryOperator t s nt ns (f left) (f right) p a ss"

definition ternary_transform ::
  "(node \<Rightarrow> node) \<Rightarrow> optype \<Rightarrow> string \<Rightarrow> string \<Rightarrow> optype \<Rightarrow> string \<Rightarrow> string \<Rightarrow>
   node \<Rightarrow> node \<Rightarrow> node \<Rightarrow> precedence \<Rightarrow> associativity \<Rightarrow> node" where
  "ternary_transform f t s1 s2 nt ns1 ns2 e1 e2 e3 p a =
     TernaryOperator t s1 s2 nt ns1 ns2 (f e1) (f e2) (f e3) p a"

lemmas transform_methods [simp] = cast_transform_def func_transform_def
  from_clause_transform_def join_transform_def labeled_select_transform_def
  from_clause_item_transform_def tuple_transform_def case_transform_def where_transform_def
  groupby_transform_def having_transform_def orderby_item_transform_def orderby_transform_def
  limit_transform_def offset_transform_def select_transform_def binary_transform_def
  ternary_transform_def

section \<open>Congruence rules for the recursive definition\<close>

lemma transform_method_cong1 [fundef_cong]:
  "e = e' \<Longrightarrow> f e = g e' \<Longrightarrow> cast_transform f e t = cast_transform g e' t"
  "e = e' \<Longrightarrow> f e = g e' \<Longrightarrow> from_clause_transform f e = from_clause_transform g e'"
  "e = e' \<Longrightarrow> f e = g e' \<Longrightarrow> labeled_select_transform f e l = labeled_select_transform g e' l"
  "e = e' \<Longrightarrow> f e = g e' \<Longrightarrow> where_transform f e = where_transform g e'"
  "e = e' \<Longrightarrow> f e = g e' \<Longrightarrow> having_transform f e = having_transform g e'"
  "e = e' \<Longrightarrow> f e = g e' \<Longrightarrow>
   orderby_item_transform f e d ns nl = orderby_item_transform g e' d ns nl"
  "e = e' \<Longrightarrow> f e = g e' \<Longrightarrow> limit_transform f e = limit_transform g e'"
  "e = e' \<Longrightarrow> f e = g e' \<Longrightarrow> offset_transform f e = offset_transform g e'"
  by simp_all

lemma transform_method_cong_list [fundef_cong]:
  "es = es' \<Longrightarrow> (\<And>x. x \<in> set es' \<Longrightarrow> f x = g x) \<Longrightarrow>
   func_transform f name es omit = func_transform g name es' omit"
  "es = es' \<Longrightarrow> (\<And>x. x \<in> set es' \<Longrightarrow> f x = g x) \<Longrightarrow> tuple_transform f es = tuple_transform g es'"
  "es = es' \<Longrightarrow> (\<And>x. x \<in> set es' \<Longrightarrow> f x = g x) \<Longrightarrow> groupby_transform f es = groupby_transform g es'"
  "es = es' \<Longrightarrow> (\<And>x. x \<in> set es' \<Longrightarrow> f x = g x) \<Longrightarrow> orderby_transform f es = orderby_transform g es'"
  by simp_all

lemma join_transform_cong [fundef_cong]:
  "l = l' \<Longrightarrow> r = r' \<Longrightarrow> on = on' \<Longrightarrow> f l = g l \<Longrightarrow> f r = g r \<Longrightarrow> f on = g on \<Longrightarrow>
   join_transform f jt l r on = join_transform g jt l' r' on'"
  by simp

lemma binary_transform_cong [fundef_cong]:
  "l = l' \<Longrightarrow> r = r' \<Longrightarrow> f l = g l \<Longrightarrow> f r = g r \<Longrightarrow>
   binary_transform f t s nt ns l r p a ss = binary_transform g t s nt ns l' r' p a ss"
  by simp

lemma ternary_transform_cong [fundef_cong]:
  "e1 = e1' \<Longrightarrow> e2 = e2' \<Longrightarrow> e3 = e3' \<Longrightarrow> f e1 = g e1 \<Longrightarrow> f e2 = g e2 \<Longrightarrow> f e3 = g e3 \<Longrightarrow>
   ternary_transform f t s1 s2 nt ns1 ns2 e1 e2 e3 p a =
   ternary_transform g t s1 s2 nt ns1 ns2 e1' e2' e3' p a"
  by simp

lemma from_clause_item_transform_cong [fundef_cong]:
  "tr = tr' \<Longrightarrow> sq = sq' \<Longrightarrow> jc = jc' \<Longrightarrow>
   (\<And>t. tr' = Some t \<Longrightarrow> f t = g t) \<Longrightarrow>
   (\<And>q. tr' = None \<Longrightarrow> sq' = Some q \<Longrightarrow> f q = g q) \<Longrightarrow>
   (\<And>j. tr' = None \<Longrightarrow> sq' = None \<Longrightarrow> jc' = Some j \<Longrightarrow> f j = g j) \<Longrightarrow>
   from_clause_item_transform f tr sq jc = from_clause_item_transform g tr' sq' jc'"
  by (simp split: option.splits)

lemma case_transform_cong [fundef_cong]:
  "cs = cs' \<Longrightarrow> rs = rs' \<Longrightarrow> el = el' \<Longrightarrow>
   (\<And>x. x \<in> set cs' \<Longrightarrow> f x = g x) \<Longrightarrow> (\<And>x. x \<in> set rs' \<Longrightarrow> f x = g x) \<Longrightarrow>
   (\<And>x. el' = Some x \<Longrightarrow> f x = g x) \<Longrightarrow>
   case_transform f cs rs el = case_transform g cs' rs' el'"
  by (cases el') simp_all

lemma select_transform_cong [fundef_cong]:
  "cols = cols' \<Longrightarrow> fr = fr' \<Longrightarrow> wh = wh' \<Longrightarrow> gb = gb' \<Longrightarrow> hv = hv' \<Longrightarrow> ob = ob' \<Longrightarrow>
   li = li' \<Longrightarrow> off = off' \<Longrightarrow>
   (\<And>x. x \<in> set cols' \<Longrightarrow> f x = g x) \<Longrightarrow>
   (\<And>x. x \<in> set_option fr' \<union> set_option wh' \<union> set_option gb' \<union> set_option hv' \<union>
         set_option ob' \<union> set_option li' \<union> set_option off' \<Longrightarrow> f x = g x) \<Longrightarrow>
   select_transform f cols fr wh gb hv ob li off = select_transform g cols' fr' wh' gb' hv' ob' li' off'"
  by (auto intro!: option.map_cong)

end
