(* ===== verification/Transform.thy ===== *)
theory Transform
  imports TransformMethods
begin

text \<open>
  The rewrite pass: every \<^verbatim>\<open>Transform\<close> method of \<^verbatim>\<open>src/\<close>. The Go code
  mutates the node in place and returns it; since a node is single-owner until it
  is handed to \<^verbatim>\<open>Transform\<close> (spec, section 5), the model returns the
  rebuilt node instead. The \<^verbatim>\<open>*Compiler\<close> argument is never read by any
  \<^verbatim>\<open>Transform\<close> and is dropped. The only non-structural call is the NOT rule
  (operator.go lines 124--134): a NOT over a negatable operator becomes the rewrite
  of that operator's negation, which is no larger than the operator itself, so the
  recursion stops by the size of the tree.
\<close>

function (domintros) transform :: "node \<Rightarrow> node" where
  "transform (SQLType s) = SQLType s"
| "transform (CastExpr e t) = cast_transform transform e t"
| "transform (FuncExpr name args omit) = func_transform transform name args omit"
| "transform (Column tbl n) = Column tbl n"
| "transform (LabeledColumn e l) = LabeledColumn e l"
| "transform (Table s n) = Table s n"
| "transform (LabeledTable s n l) = LabeledTable s n l"
| "transform (FromClause i) = from_clause_transform transform i"
| "transform (JoinClause jt l r on) = join_transform transform jt l r on"
| "transform (LabeledSelectStmt s l) = labeled_select_transform transform s l"
| "transform (FromClauseItem tr sq jc) = from_clause_item_transform transform tr sq jc"
| "transform (Tuple es) = tuple_transform transform es"
| "transform (CaseExpr cs rs el) = case_transform transform cs rs el"
| "transform (Placeholder p) = Placeholder p"
| "transform (WhereClause e) = where_transform transform e"
| "transform (GroupByClause es) = groupby_transform transform es"
| "transform (HavingClause e) = having_transform transform e"
| "transform (OrderbyItem e d ns nl) = orderby_item_transform transform e d ns nl"
| "transform (OrderByClause items) = orderby_transform transform items"
| "transform (LimitClause e) = limit_transform transform e"
| "transform (OffsetClause e) = offset_transform transform e"
| "transform (SelectStmt cols fr wh gb hv ob li off) =
     select_transform transform cols fr wh gb hv ob li off"
| "transform (UnaryOperator t s nt ns e p a) =
     (if t = OpNot \<and> is_operator e \<and> negatable e then transform (negate e)
      else UnaryOperator t s nt ns (transform e) p a)"
| "transform (BinaryOperator t s nt ns l r p a ss) =
     binary_transform transform t s nt ns l r p a ss"
| "transform (TernaryOperator t s1 s2 nt ns1 ns2 e1 e2 e3 p a) =
     ternary_transform transform t s1 s2 nt ns1 ns2 e1 e2 e3 p a"
  by pat_completeness auto
termination
proof (relation "measure size")
  fix t s nt ns e p a
  have "size (negate e) \<le> size e" by (rule size_negate_le)
  then show "(negate e, UnaryOperator t s nt ns e p a) \<in> measure size" by simp
qed (auto simp: less_Suc_eq_le dest!: size_list_elem [where f = size])

section \<open>Canonical trees\<close>

text \<open>
  A tree is canonical when no NOT the rewrite visits sits over a negatable operator.
  The rewrite does not enter a \<^verbatim>\<open>LabeledColumn\<close> (grammar.go lines 291--293)
  and enters only the first populated alternative of a \<^verbatim>\<open>FromClauseItem\<close>,
  so those parts are not constrained.
\<close>

fun canonical :: "node \<Rightarrow> bool" where
  "canonical (SQLType s) = True"
| "canonical (CastExpr e t) = canonical e"
| "canonical (FuncExpr name args omit) = list_all canonical args"
| "canonical (Column tbl n) = True"
| "canonical (LabeledColumn e l) = True"
| "canonical (Table s n) = True"
| "canonical (LabeledTable s n l) = True"
| "canonical (FromClause i) = canonical i"
| "canonical (JoinClause jt l r on) = (canonical l \<and> canonical r \<and> canonical on)"
| "canonical (LabeledSelectStmt s l) = canonical s"
| "canonical (FromClauseItem tr sq jc) =
     (case tr of
        Some t \<Rightarrow> canonical t
      | None \<Rightarrow> (case sq of
           Some q \<Rightarrow> canonical q
         | None \<Rightarrow> (case jc of Some j \<Rightarrow> canonical j | None \<Rightarrow> True)))"
| "canonical (Tuple es) = list_all canonical es"
| "canonical (CaseExpr cs rs el) =
     (list_all canonical cs \<and> list_all canonical rs \<and> pred_option canonical el)"
| "canonical (Placeholder p) = True"
| "canonical (WhereClause e) = canonical e"
| "canonical (GroupByClause es) = list_all canonical es"
| "canonical (HavingClause e) = canonical e"
| "canonical (OrderbyItem e d ns nl) = canonical e"
| "canonical (OrderByClause items) = list_all canonical items"
| "canonical (LimitClause e) = canonical e"
| "canonical (OffsetClause e) = canonical e"
| "canonical (SelectStmt cols fr wh gb hv ob li off) =
     (list_all canonical cols \<and> pred_option canonical fr \<and> pred_option canonical wh \<and>
      pred_option canonical gb \<and> pred_option canonical hv \<and> pred_option canonical ob \<and>
      pred_option canonical li \<and> pred_option canonical off)"
| "canonical (UnaryOperator t s nt ns e p a) =
     (\<not> (t = OpNot \<and> is_operator e \<and> negatable e) \<and> canonical e)"
| "canonical (BinaryOperator t s nt ns l r p a ss) = (canonical l \<and> canonical r)"
| "canonical (TernaryOperator t s1 s2 nt ns1 ns2 e1 e2 e3 p a) =
     (canonical e1 \<and> canonical e2 \<and> canonical e3)"

section \<open>The placeholders of a tree\<close>

text \<open>The names of all \<^verbatim>\<open>Placeholder\<close> leaves, in field order.\<close>

fun placeholders :: "node \<Rightarrow> string list" where
  "placeholders (SQLType s) = []"
| "placeholders (CastExpr e t) = placeholders e"
| "placeholders (FuncExpr name args omit) = concat (map placeholders args)"
| "placeholders (Column tbl n) = []"
| "placeholders (LabeledColumn e l) = placeholders e"
| "placeholders (Table s n) = []"
| "placeholders (LabeledTable s n l) = []"
| "placeholders (FromClause i) = placeholders i"
| "placeholders (JoinClause jt l r on) = placeholders l @ placeholders r @ placeholders on"
| "placeholders (LabeledSelectStmt s l) = placeholders s"
| "placeholders (FromClauseItem tr sq jc) =
     case_option [] placeholders tr @ case_option [] placeholders sq @
     case_option [] placeholders jc"
| "placeholders (Tuple es) = concat (map placeholders es)"
| "placeholders (CaseExpr cs rs el) =
     concat (map placeholders cs) @ concat (map placeholders rs) @ case_option [] placeholders el"
| "placeholders (Placeholder p) = [p]"
| "placeholders (WhereClause e) = placeholders e"
| "placeholders (GroupByClause es) = concat (map placeholders es)"
| "placeholders (HavingClause e) = placeholders e"
| "placeholders (OrderbyItem e d ns nl) = placeholders e"
| "placeholders (OrderByClause items) = concat (map placeholders items)"
| "placeholders (LimitClause e) = placeholders e"
| "placeholders (OffsetClause e) = placeholders e"
| "placeholders (SelectStmt cols fr wh gb hv ob li off) =
     concat (map placeholders cols) @ case_option [] placeholders fr @
     case_option [] placeholders wh @ case_option [] placeholders gb @
     case_option [] placeholders hv @ case_option [] placeholders ob @
     case_option [] placeholders li @ case_option [] placeholders off"
| "placeholders (UnaryOperator t s nt ns e p a) = placeholders e"
| "placeholders (BinaryOperator t s nt ns l r p a ss) = placeholders l @ placeholders r"
| "placeholders (TernaryOperator t s1 s2 nt ns1 ns2 e1 e2 e3 p a) =
     placeholders e1 @ placeholders e2 @ placeholders e3"

section \<open>Facts on the rewrite\<close>

lemma transform_negatable_op:
  "is_operator (transform e) \<Longrightarrow> negatable (transform e) \<Longrightarrow> is_operator e \<and> negatable e"
  by (cases e) (auto split: option.splits)

lemma transform_canonical: "canonical (transform n)"
proof (induction n rule: transform.induct)
  case (23 t s nt ns e p a)
  then show ?case by (auto dest: transform_negatable_op)
qed (auto simp: list.pred_set option.pred_set split: option.splits)

lemma canonical_transform_id: "canonical n \<Longrightarrow> transform n = n"
proof (induction n rule: transform.induct)
  case (23 t s nt ns e p a)
  then show ?case by auto
qed (auto simp: list.pred_set option.pred_set map_idI split: option.splits
          intro: option.map_ident_strong)

lemma placeholders_negate: "placeholders (negate e) = placeholders e"
  by (cases e) auto

lemma transform_size_le_aux: "size (transform n) \<le> size n"
proof (induction n rule: transform.induct)
  case (23 t s nt ns e p a)
  have "size (negate e) \<le> size e" by (rule size_negate_le)
  with 23 show ?case by (auto intro: le_trans)
qed (auto intro!: add_mono size_list_comp_le size_option_map_le split: option.splits)

lemma transform_placeholders_aux: "placeholders (transform n) = placeholders n"
proof (induction n rule: transform.induct)
  case (23 t s nt ns e p a)
  then show ?case by (simp add: placeholders_negate)
qed (auto cong: map_cong split: option.splits)

section \<open>Properties of the rewrite\<close>

text \<open>
  C4: the fixed points of the rewrite are exactly the canonical trees: the rewrite
  leaves a tree unchanged if and only if no NOT it visits sits over a negatable
  operator. A NOT over a non-negatable operator (such as \<open>NOT (a AND b)\<close>) is kept
  as it is; every other NOT it visits is collapsed.
\<close>

theorem transform_fixpoint_iff: "transform n = n \<longleftrightarrow> canonical n"
  using transform_canonical canonical_transform_id by metis

theorem transform_fixpoint_iff_witness:
  "transform (Not_op (And (Column [] ''a'') (Column [] ''b''))) =
     Not_op (And (Column [] ''a'') (Column [] ''b'')) \<and>
   transform (Not_op (IsNull (Column [] ''x''))) \<noteq> Not_op (IsNull (Column [] ''x''))"
  using transform_fixpoint_iff [of "Not_op (And (Column [] ''a'') (Column [] ''b''))"]
    transform_fixpoint_iff [of "Not_op (IsNull (Column [] ''x''))"]
  by (simp add: Not_op_def And_def binop_def IsNull_def)

text \<open>
  C5: double negation. \<open>NOT (NOT P)\<close> rewrites to the rewrite of \<open>P\<close>, whether or
  not \<open>P\<close> is negatable: the inner NOT is itself negatable and negates to its operand.
\<close>

theorem transform_double_not:
  "transform (UnaryOperator OpNot s nt ns (UnaryOperator OpNot s' nt' ns' q p' a') p a) =
   transform q"
  by simp

text \<open>\<open>NOT (x IS NULL)\<close> rewrites to \<open>x IS NOT NULL\<close> over the rewritten \<open>x\<close>.\<close>

theorem transform_not_is_null: "transform (Not_op (IsNull x)) = IsNotNull (transform x)"
  by (simp add: Not_op_def IsNull_def IsNotNull_def)

text \<open>
  C17: the rewrite is idempotent: rewriting an already rewritten tree changes nothing.
\<close>

theorem transform_idempotent: "transform (transform n) = transform n"
  by (rule canonical_transform_id [OF transform_canonical])

text \<open>
  C18: the rewrite yields a canonical tree: no NOT that the pass visits is left over a
  negatable operator.
\<close>

theorem transform_yields_canonical: "canonical (transform n)"
  by (rule transform_canonical)

text \<open>
  C25: the rewrite never adds, drops or reorders a placeholder: the query binds the same
  parameters before and after.
\<close>

theorem transform_keeps_placeholders: "placeholders (transform n) = placeholders n"
  by (rule transform_placeholders_aux)

text \<open>The rewrite never makes a tree larger.\<close>

theorem transform_size_bound: "size (transform n) \<le> size n"
  by (rule transform_size_le_aux)

text \<open>
  C12: the rewrite terminates on every tree: each input is in the domain of the
  recursion, also where the NOT rule recurses on the negation instead of a subtree,
  and the tree it returns is no larger than its input.
\<close>

theorem transform_terminates: "transform_dom n \<and> size (transform n) \<le> size n"
proof -
  have "transform_dom n"
  proof (induction n rule: measure_induct_rule [where f = size])
    case (less n)
    then show ?case
      by (cases n) (auto intro!: transform.domintros
          simp: less_Suc_eq_le size_negate_le dest: size_list_elem [where f = size])
  qed
  then show ?thesis by (simp add: transform_size_le_aux)
qed

end
