(* ===== verification/Stringify.thy ===== *)
theory Stringify
  imports Compiler Resolve
begin

text \<open>
  The print pass: \<open>stringify\<close> maps a node and the output context to the updated
  context or the first error, dispatching to the \<^verbatim>\<open>Stringify\<close> method of the
  node's type (one definition per method: \<open>unary_stringify\<close>, ...,
  \<open>join_stringify\<close>, \<open>from_clause_item_stringify\<close>, \<open>orderby_item_stringify\<close>, ...; the methods of
  \<^verbatim>\<open>FuncExpr\<close>, \<^verbatim>\<open>CaseExpr\<close> and \<^verbatim>\<open>SelectStmt\<close> are written
  in place). The Go loops over slices are the mutually recursive
  helpers: \<open>stringifyCommaSeparated\<close> and \<open>stringify_rest\<close> (the
  \<^verbatim>\<open>for _, n := range nodes[1:]\<close> loop that writes a comma before each item),
  \<open>stringify_when\<close> (the WHEN/THEN loop of \<^verbatim>\<open>CaseExpr\<close>) and
  \<open>stringify_clause\<close> (an optional clause of \<^verbatim>\<open>SelectStmt\<close>, written after
  one space). The parenthesization engine of operator.go is the three predicates
  \<open>unary_need_paren\<close>, \<open>binary_need_paren\<close>, \<open>ternary_need_paren\<close>, the
  closure \<open>print_child\<close> (\<^verbatim>\<open>handleSide\<close> / \<^verbatim>\<open>handleExpr\<close>) and the
  unary closure \<open>unary_write\<close> (\<^verbatim>\<open>write\<close>).
\<close>

section \<open>Parenthesization engine\<close>

definition stringifyParen :: "(compiler \<Rightarrow> compiler result) \<Rightarrow> compiler \<Rightarrow> compiler result" where
  "stringifyParen f c = ebind (f (WriteVerbatim ''('' c)) (\<lambda>c. Inr (WriteVerbatim '')'' c))"

definition unary_need_paren :: "precedence \<Rightarrow> precedence \<Rightarrow> bool" where
  "unary_need_paren ourPrecedence theirPrecedence \<longleftrightarrow> theirPrecedence < ourPrecedence"

definition binary_need_paren ::
  "associativity \<Rightarrow> precedence \<Rightarrow> precedence \<Rightarrow> associativity \<Rightarrow> bool" where
  "binary_need_paren assoc ourPrecedence theirPrecedence targetAssoc \<longleftrightarrow>
     (assoc = NonAssociative \<and> theirPrecedence \<le> ourPrecedence) \<or>
     (assoc \<noteq> NonAssociative \<and> (theirPrecedence < ourPrecedence \<or>
        theirPrecedence = ourPrecedence \<and> assoc = targetAssoc))"

definition ternary_need_paren :: "precedence \<Rightarrow> precedence \<Rightarrow> bool" where
  "ternary_need_paren ourPrecedence theirPrecedence \<longleftrightarrow> theirPrecedence \<le> ourPrecedence"

text \<open>
  A child that is not an operator is printed as it is; an operator child has its
  precedence resolved first (an error aborts) and is wrapped when \<open>needParen\<close>
  says so.
\<close>

definition print_child ::
  "(precedence \<Rightarrow> bool) \<Rightarrow> node \<Rightarrow> (compiler \<Rightarrow> compiler result) \<Rightarrow> compiler \<Rightarrow> compiler result" where
  "print_child needParen e f c =
     (if \<not> is_operator e then f c
      else ebind (resolveOperatorPrecedence e c) (\<lambda>theirPrecedence.
             if needParen theirPrecedence then stringifyParen f c else f c))"

text \<open>
  The unary \<^verbatim>\<open>write\<close> closure: a right-associative unary operator is a prefix,
  a left-associative one a suffix; any other non-zero associativity writes no
  symbol at all.
\<close>

definition unary_write ::
  "associativity \<Rightarrow> string \<Rightarrow> (compiler \<Rightarrow> compiler result) \<Rightarrow> compiler \<Rightarrow> compiler result" where
  "unary_write assoc symbol f c =
     (let c = (if assoc = RightAssociative then WriteVerbatim (symbol @ '' '') c else c) in
      ebind (f c) (\<lambda>c. Inr (if assoc = LeftAssociative then WriteVerbatim ('' '' @ symbol) c else c)))"

text \<open>
  The three operator \<^verbatim>\<open>Stringify\<close> methods (operator.go lines 136--179,
  228--265, 320--351), each given the printers of its operands, as the Go closures
  receive them: resolve the operator's own associativity (not for a ternary) and
  precedence, then print the operands through the parenthesization engine.
\<close>

definition unary_stringify ::
  "node \<Rightarrow> string \<Rightarrow> node \<Rightarrow> (compiler \<Rightarrow> compiler result) \<Rightarrow> compiler \<Rightarrow> compiler result" where
  "unary_stringify u symbol e f c =
     ebind (resolveOperatorAssociativity u c) (\<lambda>assoc.
     if assoc = NonAssociative then Inl ErrNonAssociative else
     ebind (resolveOperatorPrecedence u c) (\<lambda>ourPrecedence.
     if \<not> is_operator e then unary_write assoc symbol f c
     else ebind (resolveOperatorPrecedence e c) (\<lambda>theirPrecedence.
       unary_write assoc symbol
         (if unary_need_paren ourPrecedence theirPrecedence then stringifyParen f else f) c)))"

definition binary_stringify ::
  "node \<Rightarrow> string \<Rightarrow> bool \<Rightarrow> node \<Rightarrow> node \<Rightarrow> (compiler \<Rightarrow> compiler result) \<Rightarrow>
   (compiler \<Rightarrow> compiler result) \<Rightarrow> compiler \<Rightarrow> compiler result" where
  "binary_stringify b symbol suppressSpace l r fl fr c =
     ebind (resolveOperatorAssociativity b c) (\<lambda>assoc.
     ebind (resolveOperatorPrecedence b c) (\<lambda>ourPrecedence.
     ebind (print_child (\<lambda>their. binary_need_paren assoc ourPrecedence their RightAssociative)
              l fl c) (\<lambda>c.
     print_child (\<lambda>their. binary_need_paren assoc ourPrecedence their LeftAssociative)
       r fr (WriteVerbatim (if suppressSpace then symbol else '' '' @ symbol @ '' '') c))))"

definition ternary_stringify ::
  "node \<Rightarrow> string \<Rightarrow> string \<Rightarrow> node \<Rightarrow> node \<Rightarrow> node \<Rightarrow> (compiler \<Rightarrow> compiler result) \<Rightarrow>
   (compiler \<Rightarrow> compiler result) \<Rightarrow> (compiler \<Rightarrow> compiler result) \<Rightarrow> compiler \<Rightarrow> compiler result" where
  "ternary_stringify tn symbol1 symbol2 e1 e2 e3 f1 f2 f3 c =
     ebind (resolveOperatorPrecedence tn c) (\<lambda>ourPrecedence.
     ebind (print_child (ternary_need_paren ourPrecedence) e1 f1 c) (\<lambda>c.
     ebind (print_child (ternary_need_paren ourPrecedence) e2 f2
              (WriteVerbatim ('' '' @ symbol1 @ '' '') c)) (\<lambda>c.
     print_child (ternary_need_paren ourPrecedence) e3 f3
       (WriteVerbatim ('' '' @ symbol2 @ '' '') c))))"

section \<open>Node printers (grammar.go)\<close>

text \<open>
  The \<^verbatim>\<open>Stringify\<close> method of each grammar node. A method that prints a child
  receives the child's printer (its \<^verbatim>\<open>Stringify\<close>, or
  \<^verbatim>\<open>stringifyCommaSeparated\<close> of a slice) already applied to the child, as the
  operator methods above do. \<open>stringify\<close> below dispatches on the node.
\<close>

type_synonym printer = "compiler \<Rightarrow> compiler result"

definition sqltype_stringify :: "string \<Rightarrow> printer" where
  "sqltype_stringify s c = Inr (WriteVerbatim s c)"

definition cast_stringify :: "printer \<Rightarrow> string \<Rightarrow> printer" where
  "cast_stringify expr sqlType c =
     ebind (expr (WriteVerbatim ''CAST('' c)) (\<lambda>c.
     ebind (sqltype_stringify sqlType (WriteVerbatim '' AS '' c)) (\<lambda>c.
       Inr (WriteVerbatim '')'' c)))"

definition from_clause_stringify :: "printer \<Rightarrow> printer" where
  "from_clause_stringify item c = item (WriteVerbatim ''FROM '' c)"

definition join_stringify :: "string \<Rightarrow> printer \<Rightarrow> printer \<Rightarrow> printer \<Rightarrow> printer" where
  "join_stringify joinType left right on c =
     ebind (left c) (\<lambda>c.
     ebind (right (WriteVerbatim ('' '' @ joinType @ '' '') c)) (\<lambda>c.
     on (WriteVerbatim '' ON '' c)))"

definition labeled_select_stringify :: "printer \<Rightarrow> string \<Rightarrow> printer" where
  "labeled_select_stringify selectStmt label c =
     ebind (selectStmt (WriteVerbatim ''('' c)) (\<lambda>c.
       Inr (WriteIdentifier label (WriteVerbatim '') '' c)))"

definition column_stringify :: "string \<Rightarrow> string \<Rightarrow> printer" where
  "column_stringify tableLabel name c =
     Inr (WriteIdentifier name
       (if tableLabel \<noteq> [] then WriteVerbatim ''.'' (WriteIdentifier tableLabel c) else c))"

definition labeled_column_stringify :: "printer \<Rightarrow> string \<Rightarrow> printer" where
  "labeled_column_stringify expr label c =
     ebind (expr c) (\<lambda>c. Inr (WriteIdentifier label (WriteVerbatim '' '' c)))"

definition table_stringify :: "string \<Rightarrow> string \<Rightarrow> printer" where
  "table_stringify schema name c =
     Inr (WriteIdentifier name
       (if schema \<noteq> [] then WriteVerbatim ''.'' (WriteIdentifier schema c) else c))"

definition labeled_table_stringify :: "string \<Rightarrow> string \<Rightarrow> string \<Rightarrow> printer" where
  "labeled_table_stringify schema name label c =
     Inr (WriteIdentifier label (WriteVerbatim '' ''
       (WriteIdentifier name
         (if schema \<noteq> [] then WriteVerbatim ''.'' (WriteIdentifier schema c) else c))))"

text \<open>
  \<^verbatim>\<open>FromClauseItem.Stringify\<close> prints the first populated alternative
  and fails with \<^verbatim>\<open>ErrUnknownFromClauseItem\<close> when all three are nil; a
  nil alternative has no printer.
\<close>

definition from_clause_item_stringify :: "printer option \<Rightarrow> printer option \<Rightarrow> printer option \<Rightarrow> printer" where
  "from_clause_item_stringify tableRef subquery joinClause c =
     (case tableRef of
        Some t \<Rightarrow> t c
      | None \<Rightarrow> (case subquery of
           Some q \<Rightarrow> q c
         | None \<Rightarrow> (case joinClause of
              Some j \<Rightarrow> j c
            | None \<Rightarrow> Inl ErrUnknownFromClauseItem)))"

definition tuple_stringify :: "printer \<Rightarrow> printer" where
  "tuple_stringify exprs c = ebind (exprs (WriteVerbatim ''('' c)) (\<lambda>c. Inr (WriteVerbatim '')'' c))"

definition placeholder_stringify :: "string \<Rightarrow> printer" where
  "placeholder_stringify p c =
     (case insertPlaceholder p c of
        (pos, c) \<Rightarrow> Inr (WriteVerbatim (makePlaceholder c p pos) c))"

definition where_stringify :: "printer \<Rightarrow> printer" where
  "where_stringify expr c = expr (WriteVerbatim ''WHERE '' c)"

definition groupby_stringify :: "printer \<Rightarrow> printer" where
  "groupby_stringify exprs c = exprs (WriteVerbatim ''GROUP BY '' c)"

definition having_stringify :: "printer \<Rightarrow> printer" where
  "having_stringify expr c = expr (WriteVerbatim ''HAVING '' c)"

definition orderby_item_stringify :: "printer \<Rightarrow> bool \<Rightarrow> bool \<Rightarrow> bool \<Rightarrow> printer" where
  "orderby_item_stringify expr desc nullsSet nullsLast c =
     ebind (expr c) (\<lambda>c.
       let c = (if desc then WriteVerbatim '' DESC'' c else c) in
       if nullsSet then
         (let c = (if desc \<and> nullsLast then WriteVerbatim '' NULLS LAST'' c else c) in
          Inr (if \<not> desc \<and> \<not> nullsLast then WriteVerbatim '' NULLS FIRST'' c else c))
       else Inr c)"

definition orderby_stringify :: "printer \<Rightarrow> printer" where
  "orderby_stringify items c = items (WriteVerbatim ''ORDER BY '' c)"

definition limit_stringify :: "printer \<Rightarrow> printer" where
  "limit_stringify expr c = expr (WriteVerbatim ''LIMIT '' c)"

definition offset_stringify :: "printer \<Rightarrow> printer" where
  "offset_stringify expr c = expr (WriteVerbatim ''OFFSET '' c)"

section \<open>The print pass\<close>

function stringify :: "node \<Rightarrow> compiler \<Rightarrow> compiler result"
  and stringifyCommaSeparated :: "node list \<Rightarrow> compiler \<Rightarrow> compiler result"
  and stringify_rest :: "node list \<Rightarrow> compiler \<Rightarrow> compiler result"
  and stringify_when :: "node list \<Rightarrow> node list \<Rightarrow> compiler \<Rightarrow> compiler result"
  and stringify_clause :: "node option \<Rightarrow> compiler \<Rightarrow> compiler result"
where
  "stringify (SQLType s) c = sqltype_stringify s c"
| "stringify (CastExpr e t) c = cast_stringify (stringify e) t c"
| "stringify (FuncExpr name args omit) c =
     (let c = WriteVerbatim name c in
      case args of
        [] \<Rightarrow> (if omit then Inr c else Inr (WriteVerbatim ''()'' c))
      | a # rest \<Rightarrow>
          ebind (stringify a (WriteVerbatim ''('' c)) (\<lambda>c.
          ebind (stringify_rest rest c) (\<lambda>c. Inr (WriteVerbatim '')'' c))))"
| "stringify (Column tbl n) c = column_stringify tbl n c"
| "stringify (LabeledColumn e l) c = labeled_column_stringify (stringify e) l c"
| "stringify (Table s n) c = table_stringify s n c"
| "stringify (LabeledTable s n l) c = labeled_table_stringify s n l c"
| "stringify (FromClause i) c = from_clause_stringify (stringify i) c"
| "stringify (JoinClause jt l r on) c =
     join_stringify jt (stringify l) (stringify r) (stringify on) c"
| "stringify (LabeledSelectStmt s l) c = labeled_select_stringify (stringify s) l c"
| "stringify (FromClauseItem tr sq jc) c =
     from_clause_item_stringify (map_option stringify tr) (map_option stringify sq)
       (map_option stringify jc) c"
| "stringify (Tuple es) c = tuple_stringify (stringifyCommaSeparated es) c"
| "stringify (CaseExpr cs rs el) c =
     ebind (stringify_when cs rs (WriteVerbatim ''CASE'' c)) (\<lambda>c.
     ebind (case el of None \<Rightarrow> Inr c | Some e \<Rightarrow> stringify e (WriteVerbatim '' ELSE '' c))
       (\<lambda>c. Inr (WriteVerbatim '' END'' c)))"
| "stringify (Placeholder p) c = placeholder_stringify p c"
| "stringify (WhereClause e) c = where_stringify (stringify e) c"
| "stringify (GroupByClause es) c = groupby_stringify (stringifyCommaSeparated es) c"
| "stringify (HavingClause e) c = having_stringify (stringify e) c"
| "stringify (OrderbyItem e desc nullsSet nullsLast) c =
     orderby_item_stringify (stringify e) desc nullsSet nullsLast c"
| "stringify (OrderByClause items) c = orderby_stringify (stringifyCommaSeparated items) c"
| "stringify (LimitClause e) c = limit_stringify (stringify e) c"
| "stringify (OffsetClause e) c = offset_stringify (stringify e) c"
| "stringify (SelectStmt cols fr wh gb hv ob li off) c =
     (let c = WriteVerbatim ''SELECT '' c in
      case cols of
        [] \<Rightarrow> Inl PanicIndexOutOfRange
      | col # rest \<Rightarrow>
          ebind (stringify col c) (\<lambda>c.
          ebind (stringify_rest rest c) (\<lambda>c.
          ebind (stringify_clause fr c) (\<lambda>c.
          ebind (stringify_clause wh c) (\<lambda>c.
          ebind (stringify_clause gb c) (\<lambda>c.
          ebind (stringify_clause hv c) (\<lambda>c.
          ebind (stringify_clause ob c) (\<lambda>c.
          ebind (stringify_clause li c) (\<lambda>c.
          stringify_clause off c)))))))))"
| "stringify (UnaryOperator t s nt ns e p a) c =
     unary_stringify (UnaryOperator t s nt ns e p a) s e (stringify e) c"
| "stringify (BinaryOperator t s nt ns l r p a ss) c =
     binary_stringify (BinaryOperator t s nt ns l r p a ss) s ss l r (stringify l) (stringify r) c"
| "stringify (TernaryOperator t s1 s2 nt ns1 ns2 e1 e2 e3 p a) c =
     ternary_stringify (TernaryOperator t s1 s2 nt ns1 ns2 e1 e2 e3 p a) s1 s2 e1 e2 e3
       (stringify e1) (stringify e2) (stringify e3) c"
| "stringifyCommaSeparated [] c = Inr c"
| "stringifyCommaSeparated (n # ns) c = ebind (stringify n c) (stringify_rest ns)"
| "stringify_rest [] c = Inr c"
| "stringify_rest (n # ns) c = ebind (stringify n (WriteVerbatim '','' c)) (stringify_rest ns)"
| "stringify_when [] rs c = Inr c"
| "stringify_when (x # xs) [] c =
     ebind (stringify x (WriteVerbatim '' WHEN '' c)) (\<lambda>c. Inl PanicIndexOutOfRange)"
| "stringify_when (x # xs) (r # rs) c =
     ebind (stringify x (WriteVerbatim '' WHEN '' c)) (\<lambda>c.
     ebind (stringify r (WriteVerbatim '' THEN '' c)) (stringify_when xs rs))"
| "stringify_clause None c = Inr c"
| "stringify_clause (Some n) c = stringify n (WriteVerbatim '' '' c)"
  by pat_completeness auto
termination
  by (relation "measure (\<lambda>x. case x of
        Inl (Inl (n, c)) \<Rightarrow> size n
      | Inl (Inr (ns, c)) \<Rightarrow> size_list size ns
      | Inr (Inl (ns, c)) \<Rightarrow> size_list size ns
      | Inr (Inr (Inl (cs, rs, c))) \<Rightarrow> size_list size cs + size_list size rs
      | Inr (Inr (Inr (on, c))) \<Rightarrow> size_option size on)") auto

lemmas node_printers [simp] = sqltype_stringify_def cast_stringify_def from_clause_stringify_def
  from_clause_item_stringify_def comp_apply join_stringify_def labeled_select_stringify_def column_stringify_def
  labeled_column_stringify_def table_stringify_def labeled_table_stringify_def
  tuple_stringify_def placeholder_stringify_def where_stringify_def groupby_stringify_def
  having_stringify_def orderby_item_stringify_def orderby_stringify_def limit_stringify_def
  offset_stringify_def

end
