(* ===== verification/Dialect.thy ===== *)
theory Dialect
  imports Stringify Transform
begin

text \<open>
  An example output context: a \<^verbatim>\<open>?\<close>-style dialect whose precedence and
  associativity tables follow the usual SQL ordering (OR below AND below NOT
  below the IS tests below comparisons below BETWEEN/IN/LIKE below additive below
  multiplicative operators), identifiers unquoted. The spec's end-to-end
  examples are stated against it, and it is the concrete input at which the
  general theorems are instantiated. \<open>eval_simps\<close> is the rewrite set under
  which \<open>simp\<close> computes a print pass on it.
\<close>

definition example_precedence :: "optype \<Rightarrow> precedence" where
  "example_precedence t =
     (if t = OpOr then 1 else if t = OpAnd then 2 else if t = OpNot then 3
      else if t \<in> {OpIsNull, OpIsNotNull, OpIsTrue, OpIsNotTrue, OpIsFalse, OpIsNotFalse} then 4
      else if t \<in> {OpEq, OpNotEq, OpLt, OpLte, OpGt, OpGte} then 5
      else if t \<in> {OpBetween, OpNotBetween, OpIn, OpNotIn, OpLike, OpNotLike, OpILike, OpNotILike}
        then 6
      else if t \<in> {OpAdd, OpSub} then 7
      else if t \<in> {OpMul, OpDiv, OpMod} then 8 else 0)"

definition example_associativity :: "optype \<Rightarrow> associativity" where
  "example_associativity t =
     (if t = OpNot then RightAssociative
      else if t \<in> {OpIsNull, OpIsNotNull, OpIsTrue, OpIsNotTrue, OpIsFalse, OpIsNotFalse}
        then LeftAssociative
      else if t \<in> {OpEq, OpNotEq, OpLt, OpLte, OpGt, OpGte, OpBetween, OpNotBetween,
                   OpIn, OpNotIn, OpLike, OpNotLike, OpILike, OpNotILike} then NonAssociative
      else if t \<in> {OpAnd, OpOr, OpAdd, OpSub, OpMul, OpDiv, OpMod} then LeftAssociative
      else 0)"

definition qmark :: compiler where
  "qmark = \<lparr>buffer = [], bindings = [], precedence = example_precedence,
            associativity = example_associativity, quote_identifier = id,
            render_placeholder = (\<lambda>name pos. ''?'')\<rparr>"

lemmas eval_simps =
  builders qmark_def example_precedence_def example_associativity_def
  resolveOperatorPrecedence_def resolveOperatorAssociativity_def
  print_child_def stringifyParen_def unary_write_def unary_need_paren_def
  binary_need_paren_def ternary_need_paren_def unary_stringify_def binary_stringify_def
  ternary_stringify_def WriteIdentifier_def WriteVerbatim_def insertPlaceholder_def
  makePlaceholder_def

end
