(* ===== verification/Frame.thy ===== *)
theory Frame
  imports Dialect
begin

text \<open>
  The frame of a print pass. Every \<^verbatim>\<open>Stringify\<close> method of
  \<^verbatim>\<open>src/operator.go\<close> and \<^verbatim>\<open>src/grammar.go\<close> writes to the context only
  through \<^verbatim>\<open>WriteVerbatim\<close>, \<^verbatim>\<open>WriteIdentifier\<close> and
  \<^verbatim>\<open>insertPlaceholder\<close>, so a successful pass only appends text and
  bindings, never touches the dialect, and keeps the binder's invariant. The
  relation \<open>grows\<close> packs both facts; \<open>appends f\<close> says that a printer \<open>f\<close>
  keeps every context that has grown from some \<open>c\<close> grown from \<open>c\<close>
  (the upward-closed form composes without a transitivity step), and
  \<open>post r P\<close> is the weakest-precondition reading of one result. The
  printers of \<^theory_text>\<open>Stringify\<close> are shown to be \<open>appends\<close> one combinator
  at a time, then \<^term>\<open>stringify\<close> by structural induction.
\<close>

definition grows :: "compiler \<Rightarrow> compiler \<Rightarrow> bool" where
  "grows c c' \<longleftrightarrow> extends c c' \<and> (binder_wf c \<longrightarrow> binder_wf c')"

definition post :: "'a result \<Rightarrow> ('a \<Rightarrow> bool) \<Rightarrow> bool" where
  "post r P \<longleftrightarrow> (\<forall>a. r = Inr a \<longrightarrow> P a)"

definition appends :: "(compiler \<Rightarrow> compiler result) \<Rightarrow> bool" where
  "appends f \<longleftrightarrow> (\<forall>c c0. grows c c0 \<longrightarrow> post (f c0) (grows c))"

section \<open>The relation and the result predicate\<close>

lemma grows_refl: "grows c c"
  by (simp add: grows_def)

lemma grows_WriteVerbatim_right [intro!]: "grows c c' \<Longrightarrow> grows c (WriteVerbatim s c')"
  by (auto simp: grows_def)

lemma grows_WriteIdentifier_right [intro!]: "grows c c' \<Longrightarrow> grows c (WriteIdentifier s c')"
  by (auto simp: grows_def WriteIdentifier_def)

lemma grows_insertPlaceholder [intro]:
  "insertPlaceholder n c0 = (p, c1) \<Longrightarrow> grows c c0 \<Longrightarrow> grows c c1"
  unfolding grows_def
  by (blast intro: extends_trans insertPlaceholder_extends insertPlaceholder_binder_wf)

lemma post_simps [simp]:
  "post (Inl e) P"
  "post (Inr a) P = P a"
  "post (ebind r g) P = post r (\<lambda>a. post (g a) P)"
  by (auto simp: post_def ebind_eq_Inr_iff)

lemma post_resolve [intro!]:
  "(\<And>a. P a) \<Longrightarrow> post (resolveOperatorPrecedence e c) P"
  "(\<And>a. P a) \<Longrightarrow> post (resolveOperatorAssociativity e c) P"
  by (simp_all add: post_def)

lemma appendsI: "(\<And>c c0. grows c c0 \<Longrightarrow> post (f c0) (grows c)) \<Longrightarrow> appends f"
  by (simp add: appends_def)

text \<open>Calling an appending printer: its result has grown, whatever it is.\<close>

lemma post_call:
  "appends f \<Longrightarrow> grows c c0 \<Longrightarrow> (\<And>c1. grows c c1 \<Longrightarrow> P c1) \<Longrightarrow> post (f c0) P"
  by (auto simp: appends_def post_def)

lemma appends_run: "appends f \<Longrightarrow> f c = Inr c' \<Longrightarrow> grows c c'"
  using post_call [of f c c "grows c"] by (simp add: grows_refl post_def)

section \<open>The combinators of the parenthesization engine\<close>

lemma stringifyParen_appends [intro]: "appends f \<Longrightarrow> appends (stringifyParen f)"
  unfolding stringifyParen_def by (rule appendsI) (auto intro!: post_call)

lemma print_child_appends [intro]: "appends f \<Longrightarrow> appends (print_child need e f)"
  unfolding print_child_def by (rule appendsI) (auto split: if_splits intro!: post_call)

lemma unary_write_appends [intro]: "appends f \<Longrightarrow> appends (unary_write a s f)"
  unfolding unary_write_def by (rule appendsI) (auto simp: Let_def intro!: post_call)

lemma unary_stringify_appends [intro]: "appends f \<Longrightarrow> appends (unary_stringify u s e f)"
  unfolding unary_stringify_def by (rule appendsI) (auto intro!: post_call)

lemma binary_stringify_appends [intro]:
  "appends fl \<Longrightarrow> appends fr \<Longrightarrow> appends (binary_stringify b s ss l r fl fr)"
  unfolding binary_stringify_def by (rule appendsI) (auto intro!: post_call)

lemma ternary_stringify_appends [intro]:
  "appends f1 \<Longrightarrow> appends f2 \<Longrightarrow> appends f3 \<Longrightarrow>
   appends (ternary_stringify tn s1 s2 e1 e2 e3 f1 f2 f3)"
  unfolding ternary_stringify_def by (rule appendsI) (auto intro!: post_call)

section \<open>The print pass\<close>

lemma stringify_rest_appends [intro]:
  "(\<And>x. x \<in> set xs \<Longrightarrow> appends (stringify x)) \<Longrightarrow> appends (stringify_rest xs)"
  by (induction xs) (rule appendsI; auto intro!: post_call)+

lemma stringifyCommaSeparated_appends [intro]:
  "(\<And>x. x \<in> set xs \<Longrightarrow> appends (stringify x)) \<Longrightarrow> appends (stringifyCommaSeparated xs)"
  by (cases xs) (rule appendsI; auto intro!: post_call)+

lemma stringify_when_appends [intro]:
  "(\<And>x. x \<in> set cs \<Longrightarrow> appends (stringify x)) \<Longrightarrow>
   (\<And>x. x \<in> set rs \<Longrightarrow> appends (stringify x)) \<Longrightarrow> appends (stringify_when cs rs)"
proof (induction cs arbitrary: rs)
  case (Cons x xs)
  then show ?case by (cases rs) (rule appendsI; auto intro!: post_call)+
qed (rule appendsI, simp)

lemma stringify_clause_appends [intro]:
  "(\<And>x. ox = Some x \<Longrightarrow> appends (stringify x)) \<Longrightarrow> appends (stringify_clause ox)"
  by (cases ox) (rule appendsI; auto intro!: post_call)+

lemma stringify_appends: "appends (stringify n)"
proof (induction n)
  case (UnaryOperator t s nt ns e p a)
  have "stringify (UnaryOperator t s nt ns e p a) =
    unary_stringify (UnaryOperator t s nt ns e p a) s e (stringify e)"
    by (intro ext) simp
  with UnaryOperator show ?case by auto
next
  case (BinaryOperator t s nt ns l r p a ss)
  have "stringify (BinaryOperator t s nt ns l r p a ss) =
    binary_stringify (BinaryOperator t s nt ns l r p a ss) s ss l r (stringify l) (stringify r)"
    by (intro ext) simp
  with BinaryOperator show ?case by auto
next
  case (TernaryOperator t s1 s2 nt ns1 ns2 e1 e2 e3 p a)
  have "stringify (TernaryOperator t s1 s2 nt ns1 ns2 e1 e2 e3 p a) =
    ternary_stringify (TernaryOperator t s1 s2 nt ns1 ns2 e1 e2 e3 p a) s1 s2 e1 e2 e3
      (stringify e1) (stringify e2) (stringify e3)"
    by (intro ext) simp
  with TernaryOperator show ?case by auto
qed (rule appendsI; auto simp: Let_def split: list.splits option.splits prod.splits
       intro!: post_call)+

lemma stringify_grows: "stringify n c = Inr c' \<Longrightarrow> grows c c'"
  by (rule appends_run [OF stringify_appends])

lemma stringify_Placeholder_Inr:
  "stringify (Placeholder x) c = Inr c1 \<Longrightarrow>
   \<exists>p c0. insertPlaceholder x c = (p, c0) \<and> c1 = WriteVerbatim (render_placeholder c x p) c0"
  by (auto simp: makePlaceholder_def insertPlaceholder_def Let_def split: prod.splits option.splits)

section \<open>Properties of a print pass\<close>

text \<open>
  C6: a successful print pass only appends: the text buffer and the binding table of
  the context before are prefixes of those after, and the dialect is unchanged.
\<close>

theorem stringify_only_appends:
  assumes "stringify n c = Inr c'"
  shows "prefix (buffer c) (buffer c') \<and> prefix (bindings c) (bindings c') \<and>
    precedence c' = precedence c \<and> associativity c' = associativity c \<and>
    quote_identifier c' = quote_identifier c \<and> render_placeholder c' = render_placeholder c"
  using stringify_grows [OF assms] by (simp add: grows_def extends_def)

theorem stringify_only_appends_witness:
  "stringify (Eq (Column [] ''a'') (Placeholder ''x'')) qmark =
     Inr (qmark\<lparr>buffer := ''a = ?'', bindings := [(''x'', 1)]\<rparr>) \<and>
   prefix (buffer qmark) ''a = ?'' \<and> prefix (bindings qmark) [(''x'', 1)]"
  using stringify_only_appends [of "Eq (Column [] ''a'') (Placeholder ''x'')" qmark
      "qmark\<lparr>buffer := ''a = ?'', bindings := [(''x'', 1)]\<rparr>"]
  by (simp add: eval_simps)

text \<open>
  C7: a print pass keeps the binder's invariant: if the positions of the binding
  table are \<open>1, 2, \<dots>\<close> in order with no name bound twice, they still are after.
\<close>

theorem stringify_binder_wf:
  assumes "binder_wf c" and "stringify n c = Inr c'"
  shows "binder_wf c'"
  using stringify_grows [OF assms(2)] assms(1) by (simp add: grows_def)

theorem stringify_binder_wf_witness:
  "binder_wf qmark \<and>
   stringify (Eq (Placeholder ''y'') (Placeholder ''x'')) qmark =
     Inr (qmark\<lparr>buffer := ''? = ?'', bindings := [(''y'', 1), (''x'', 2)]\<rparr>) \<and>
   binder_wf (qmark\<lparr>buffer := ''? = ?'', bindings := [(''y'', 1), (''x'', 2)]\<rparr>)"
  using stringify_binder_wf [of qmark "Eq (Placeholder ''y'') (Placeholder ''x'')"
      "qmark\<lparr>buffer := ''? = ?'', bindings := [(''y'', 1), (''x'', 2)]\<rparr>"]
  by (simp add: eval_simps binder_wf_def)

text \<open>
  C8: two placeholder leaves with the same name in one print pass, whatever is
  printed between them, resolve to the same position and are rendered as the same
  text.
\<close>

theorem placeholder_same_name_same_text:
  assumes first: "stringify (Placeholder x) c = Inr c1"
    and between: "stringify n c1 = Inr c2"
    and second: "stringify (Placeholder x) c2 = Inr c3"
  shows "\<exists>p. map_of (bindings c3) x = Some p \<and>
    buffer c1 = buffer c @ render_placeholder c x p \<and>
    buffer c3 = buffer c2 @ render_placeholder c x p"
proof -
  from stringify_Placeholder_Inr [OF first] obtain p c0 where
    ins: "insertPlaceholder x c = (p, c0)" and c1: "c1 = WriteVerbatim (render_placeholder c x p) c0"
    by blast
  from ins have ext0: "extends c c0" by (rule insertPlaceholder_extends)
  from ins have "map_of (bindings c1) x = Some p" by (simp add: c1 insertPlaceholder_lookup)
  moreover from stringify_grows [OF between] have ext12: "extends c1 c2" by (simp add: grows_def)
  ultimately have bound: "map_of (bindings c2) x = Some p" by (rule extends_map_of [rotated])
  from ext12 ext0 have same: "render_placeholder c2 = render_placeholder c"
    by (simp add: c1 extends_def)
  from stringify_Placeholder_Inr [OF second] insertPlaceholder_bound [OF bound]
  have c3: "c3 = WriteVerbatim (render_placeholder c x p) c2" by (auto simp: same)
  from bound c3 c1 ext0 insertPlaceholder_buffer [OF ins] show ?thesis by (simp add: extends_def)
qed

theorem placeholder_same_name_same_text_witness:
  "stringify (Placeholder ''x'') qmark = Inr (qmark\<lparr>buffer := ''?'', bindings := [(''x'', 1)]\<rparr>) \<and>
   stringify (Placeholder ''y'') (qmark\<lparr>buffer := ''?'', bindings := [(''x'', 1)]\<rparr>) =
     Inr (qmark\<lparr>buffer := ''??'', bindings := [(''x'', 1), (''y'', 2)]\<rparr>) \<and>
   stringify (Placeholder ''x'') (qmark\<lparr>buffer := ''??'', bindings := [(''x'', 1), (''y'', 2)]\<rparr>) =
     Inr (qmark\<lparr>buffer := ''???'', bindings := [(''x'', 1), (''y'', 2)]\<rparr>) \<and>
   map_of [(''x'', 1::nat), (''y'', 2)] ''x'' = Some 1"
  using placeholder_same_name_same_text [of "''x''" qmark
      "qmark\<lparr>buffer := ''?'', bindings := [(''x'', 1)]\<rparr>" "Placeholder ''y''"
      "qmark\<lparr>buffer := ''??'', bindings := [(''x'', 1), (''y'', 2)]\<rparr>"
      "qmark\<lparr>buffer := ''???'', bindings := [(''x'', 1), (''y'', 2)]\<rparr>"]
  by (simp add: eval_simps)

text \<open>
  C10: printing a placeholder refines the abstract binder of spec 4.5
  (\<open>bind_abs\<close>): the binding table afterwards is, read abstractly, the abstract
  binder after binding the name, and the text appended is the dialect's rendering of
  the name at the position the abstract binder hands out.
\<close>

theorem Placeholder_refines:
  "\<exists>c'. stringify (Placeholder name) c = Inr c' \<and>
     abs_binder c' = snd (bind_abs name (abs_binder c)) \<and>
     buffer c' = buffer c @ render_placeholder c name (fst (bind_abs name (abs_binder c)))"
proof -
  obtain p c0 where ins: "insertPlaceholder name c = (p, c0)" by fastforce
  from insertPlaceholder_refines [of name c] ins
  have "bind_abs name (abs_binder c) = (p, abs_binder c0)" by simp
  moreover from ins have "render_placeholder c0 = render_placeholder c"
    using insertPlaceholder_extends by (auto simp: extends_def)
  ultimately show ?thesis
    using ins insertPlaceholder_buffer [OF ins]
    by (simp add: makePlaceholder_def abs_binder_def WriteVerbatim_def)
qed

end
