(* ===== verification/Paren.thy ===== *)
theory Paren
  imports Frame
begin

text \<open>
  The parenthesization engine against the spec (section 4.3): for each arity, what
  a successful print of an operator writes, with the wrapping condition of each
  operand written out as the spec states it, not through the model's
  \<open>*_need_paren\<close> predicates. The operands' own printers appear as they are
  called, plain (\<^term>\<open>stringify e\<close>) or wrapped (\<^term>\<open>stringifyParen (stringify e)\<close>),
  so the theorems fix the text around each operand and leave the operand's own text
  to the induction. The context in which an operand's precedence is resolved is
  immaterial (the resolvers read only the dialect, \<^theory_text>\<open>Resolve\<close>), which is
  what lets the right operand's condition be stated at the starting context.
\<close>

lemma print_child_op:
  "is_operator e \<Longrightarrow> resolveOperatorPrecedence e c = Inr th \<Longrightarrow>
   print_child need e f c = (if need th then stringifyParen f else f) c"
  by (simp add: print_child_def)

lemma stringify_print_child_extends:
  "print_child need e (stringify e) c = Inr c' \<Longrightarrow> extends c c'"
  using appends_run [OF print_child_appends [OF stringify_appends]] by (simp add: grows_def)

lemma resolve_after:
  "extends c c' \<Longrightarrow> resolveOperatorPrecedence e c = Inr th \<Longrightarrow>
   resolveOperatorPrecedence e (WriteVerbatim s c') = Inr th"
  by (simp add: resolve_extends(1))

section \<open>The operand rules of the three arities\<close>

text \<open>
  C1: binary parenthesization (spec 4.3). A binary operator prints its left operand,
  its symbol (with a space on each side unless space suppression is set) and its right
  operand; an operator operand is wrapped exactly when
  \<open>(assoc = NonAssociative \<and> their \<le> our) \<or> (assoc \<noteq> NonAssociative \<and> (their < our \<or>
  their = our \<and> assoc = target))\<close>, with target Right for the left operand and
  Left for the right one.
\<close>

theorem binary_operand_parens:
  assumes run: "stringify (BinaryOperator t s nt ns l r p a ss) c = Inr c'"
    and ra: "resolveOperatorAssociativity (BinaryOperator t s nt ns l r p a ss) c = Inr assoc"
    and rp: "resolveOperatorPrecedence (BinaryOperator t s nt ns l r p a ss) c = Inr our"
    and lop: "is_operator l" and rl: "resolveOperatorPrecedence l c = Inr thl"
    and rop: "is_operator r" and rr: "resolveOperatorPrecedence r c = Inr thr"
  shows "\<exists>cm.
    (if (assoc = NonAssociative \<and> thl \<le> our) \<or>
        (assoc \<noteq> NonAssociative \<and> (thl < our \<or> thl = our \<and> assoc = RightAssociative))
     then stringifyParen (stringify l) else stringify l) c = Inr cm \<and>
    (if (assoc = NonAssociative \<and> thr \<le> our) \<or>
        (assoc \<noteq> NonAssociative \<and> (thr < our \<or> thr = our \<and> assoc = LeftAssociative))
     then stringifyParen (stringify r) else stringify r)
      (WriteVerbatim (if ss then s else '' '' @ s @ '' '') cm) = Inr c'"
proof -
  let ?sep = "if ss then s else '' '' @ s @ '' ''"
  from run obtain cm where
    L: "print_child (\<lambda>th. binary_need_paren assoc our th RightAssociative) l (stringify l) c = Inr cm"
    and R: "print_child (\<lambda>th. binary_need_paren assoc our th LeftAssociative) r (stringify r)
              (WriteVerbatim ?sep cm) = Inr c'"
    by (auto simp: binary_stringify_def ebind_eq_Inr_iff ra rp)
  from L have x: "resolveOperatorPrecedence r (WriteVerbatim ?sep cm) = Inr thr"
    by (intro resolve_after [OF _ rr] stringify_print_child_extends)
  from L have L': "(if binary_need_paren assoc our thl RightAssociative
      then stringifyParen (stringify l) else stringify l) c = Inr cm"
    by (simp only: print_child_op [OF lop rl])
  from R have R': "(if binary_need_paren assoc our thr LeftAssociative
      then stringifyParen (stringify r) else stringify r) (WriteVerbatim ?sep cm) = Inr c'"
    by (simp only: print_child_op [OF rop x])
  from L' R' show ?thesis unfolding binary_need_paren_def by blast
qed

theorem binary_operand_parens_witness:
  "stringify (Sub (Sub (Column [] ''a'') (Column [] ''b'')) (Sub (Column [] ''c'') (Column [] ''d''))) qmark =
     Inr (qmark\<lparr>buffer := ''a - b - (c - d)''\<rparr>) \<and>
   (\<exists>cm. stringify (Sub (Column [] ''a'') (Column [] ''b'')) qmark = Inr cm \<and>
     stringifyParen (stringify (Sub (Column [] ''c'') (Column [] ''d''))) (WriteVerbatim '' - '' cm) =
       Inr (qmark\<lparr>buffer := ''a - b - (c - d)''\<rparr>))"
  using binary_operand_parens [of OpSub "''-''" 0 "[]" "Sub (Column [] ''a'') (Column [] ''b'')"
      "Sub (Column [] ''c'') (Column [] ''d'')" 0 0 False qmark "qmark\<lparr>buffer := ''a - b - (c - d)''\<rparr>"
      LeftAssociative 7 7 7]
  by (simp add: eval_simps)

text \<open>
  C2: unary parenthesization (spec 4.3). A unary operator is never NonAssociative
  when it prints; a Right-associative one writes \<open>SYMBOL operand\<close>, a
  Left-associative one \<open>operand SYMBOL\<close>, and an operator operand is wrapped exactly
  when its precedence is strictly below the unary's own (a tie is not wrapped).
\<close>

theorem unary_operand_parens:
  assumes run: "stringify (UnaryOperator t s nt ns e p a) c = Inr c'"
    and ra: "resolveOperatorAssociativity (UnaryOperator t s nt ns e p a) c = Inr assoc"
    and rp: "resolveOperatorPrecedence (UnaryOperator t s nt ns e p a) c = Inr our"
    and eop: "is_operator e" and re: "resolveOperatorPrecedence e c = Inr te"
  shows "assoc \<noteq> NonAssociative \<and>
    (\<exists>ce. (if te < our then stringifyParen (stringify e) else stringify e)
            (if assoc = RightAssociative then WriteVerbatim (s @ '' '') c else c) = Inr ce \<and>
          c' = (if assoc = LeftAssociative then WriteVerbatim ('' '' @ s) ce else ce))"
  using run by (auto simp: unary_stringify_def unary_write_def unary_need_paren_def Let_def
      ra rp eop re ebind_eq_Inr_iff split: if_splits)

theorem unary_operand_parens_witness:
  "stringify (Not_op (Or (Column [] ''a'') (Column [] ''b''))) qmark =
     Inr (qmark\<lparr>buffer := ''NOT (a OR b)''\<rparr>) \<and>
   stringifyParen (stringify (Or (Column [] ''a'') (Column [] ''b''))) (WriteVerbatim ''NOT '' qmark) =
     Inr (qmark\<lparr>buffer := ''NOT (a OR b)''\<rparr>)"
  using unary_operand_parens [of OpNot "''NOT''" 0 "[]" "Or (Column [] ''a'') (Column [] ''b'')" 0 0
      qmark "qmark\<lparr>buffer := ''NOT (a OR b)''\<rparr>" RightAssociative 3 1]
  by (simp add: eval_simps)

text \<open>
  C3: ternary parenthesization (spec 4.3). A ternary operator prints
  \<open>child1 SYMBOL1 child2 SYMBOL2 child3\<close> and wraps every operator child whose
  precedence is less than or equal to its own: a tie always forces parentheses.
\<close>

theorem ternary_operand_parens:
  assumes run: "stringify (TernaryOperator t s1 s2 nt ns1 ns2 e1 e2 e3 p a) c = Inr c'"
    and rp: "resolveOperatorPrecedence (TernaryOperator t s1 s2 nt ns1 ns2 e1 e2 e3 p a) c = Inr our"
    and ops: "is_operator e1" "is_operator e2" "is_operator e3"
    and r1: "resolveOperatorPrecedence e1 c = Inr t1"
    and r2: "resolveOperatorPrecedence e2 c = Inr t2"
    and r3: "resolveOperatorPrecedence e3 c = Inr t3"
  shows "\<exists>c1 c2.
    (if t1 \<le> our then stringifyParen (stringify e1) else stringify e1) c = Inr c1 \<and>
    (if t2 \<le> our then stringifyParen (stringify e2) else stringify e2)
      (WriteVerbatim ('' '' @ s1 @ '' '') c1) = Inr c2 \<and>
    (if t3 \<le> our then stringifyParen (stringify e3) else stringify e3)
      (WriteVerbatim ('' '' @ s2 @ '' '') c2) = Inr c'"
proof -
  from run obtain c1 c2 where
    P1: "print_child (ternary_need_paren our) e1 (stringify e1) c = Inr c1"
    and P2: "print_child (ternary_need_paren our) e2 (stringify e2) (WriteVerbatim ('' '' @ s1 @ '' '') c1) = Inr c2"
    and P3: "print_child (ternary_need_paren our) e3 (stringify e3) (WriteVerbatim ('' '' @ s2 @ '' '') c2) = Inr c'"
    by (auto simp: ternary_stringify_def ebind_eq_Inr_iff rp)
  from P1 have x2: "resolveOperatorPrecedence e2 (WriteVerbatim ('' '' @ s1 @ '' '') c1) = Inr t2"
    by (intro resolve_after [OF _ r2] stringify_print_child_extends)
  from P1 P2 have "extends c c2"
    by (blast intro: extends_trans extends_WriteVerbatim_right stringify_print_child_extends)
  then have x3: "resolveOperatorPrecedence e3 (WriteVerbatim ('' '' @ s2 @ '' '') c2) = Inr t3"
    by (rule resolve_after [OF _ r3])
  from P1 P2 P3 show ?thesis
    unfolding print_child_op [OF ops(1) r1] print_child_op [OF ops(2) x2]
      print_child_op [OF ops(3) x3] ternary_need_paren_def by blast
qed

theorem ternary_operand_parens_witness:
  "stringify (Between (Add (Column [] ''x'') (Column [] ''y''))
      (Between (Column [] ''a'') (Column [] ''b'') (Column [] ''c'')) (Or (Column [] ''d'') (Column [] ''e''))) qmark =
     Inr (qmark\<lparr>buffer := ''x + y BETWEEN (a BETWEEN b AND c) AND (d OR e)''\<rparr>)"
  using ternary_operand_parens [of OpBetween "''BETWEEN''" "''AND''" OpNotBetween "''NOT BETWEEN''" "''AND''"
      "Add (Column [] ''x'') (Column [] ''y'')" "Between (Column [] ''a'') (Column [] ''b'') (Column [] ''c'')"
      "Or (Column [] ''d'') (Column [] ''e'')" 0 0 qmark
      "qmark\<lparr>buffer := ''x + y BETWEEN (a BETWEEN b AND c) AND (d OR e)''\<rparr>" 6 7 6 1]
  by (simp add: eval_simps)

text \<open>
  An operand that is not an operator is never wrapped: a binary operator over two
  leaves prints them bare around its symbol.
\<close>

theorem binary_leaf_operands:
  assumes run: "stringify (BinaryOperator t s nt ns l r p a ss) c = Inr c'"
    and "\<not> is_operator l" and "\<not> is_operator r"
  shows "\<exists>cm. stringify l c = Inr cm \<and>
    stringify r (WriteVerbatim (if ss then s else '' '' @ s @ '' '') cm) = Inr c'"
  using run assms by (auto simp: binary_stringify_def print_child_def ebind_eq_Inr_iff)

theorem binary_leaf_operands_witness:
  "stringify (Eq (Column [] ''a'') (Column [] ''b'')) qmark = Inr (qmark\<lparr>buffer := ''a = b''\<rparr>)"
  using binary_leaf_operands [of OpEq "''=''" OpNotEq "''<>''" "Column [] ''a''" "Column [] ''b''" 0 0 False
      qmark "qmark\<lparr>buffer := ''a = b''\<rparr>"]
  by (simp add: eval_simps)

text \<open>
  C19: a unary operator whose resolved associativity is NonAssociative fails with
  \<open>ErrNonAssociative\<close> before printing anything.
\<close>

theorem unary_nonassociative_error:
  assumes "resolveOperatorAssociativity (UnaryOperator t s nt ns e p a) c = Inr NonAssociative"
  shows "stringify (UnaryOperator t s nt ns e p a) c = Inl ErrNonAssociative"
  using assms by (simp add: unary_stringify_def)

theorem unary_nonassociative_error_witness:
  "stringify (UnaryOperator OpNot ''NOT'' 0 [] (Column [] ''x'') 0 NonAssociative) qmark =
     Inl ErrNonAssociative"
  using unary_nonassociative_error [of OpNot "''NOT''" 0 "[]" "Column [] ''x''" 0 NonAssociative qmark]
  by (simp add: eval_simps)

end
