(* ===== verification/Placeholders.thy ===== *)
theory Placeholders
  imports Dialect
begin

text \<open>
  The placeholder helpers of \<^verbatim>\<open>src/grammar.go\<close> (lines 472--504) and
  \<^verbatim>\<open>MakeTuple\<close> (lines 391--398). \<^verbatim>\<open>strconv.Itoa\<close>, which the helpers call
  to number the generated names, is a Go library function: it is modelled from its
  documented behaviour (decimal digits, a leading \<^verbatim>\<open>-\<close> for negatives) as
  \<open>Itoa\<close>, with its inverse \<open>Atoi\<close> on the strings it produces. Go's
  \<^verbatim>\<open>int\<close> is unbounded here: the only arithmetic is \<^verbatim>\<open>i+1\<close> with
  \<^verbatim>\<open>i < length\<close>, which cannot overflow. The Go parameters \<^verbatim>\<open>prefix\<close> and
  \<^verbatim>\<open>length\<close> are \<open>pfx\<close> and \<open>len\<close> and the local
  \<^verbatim>\<open>placeholders\<close> is \<open>phs\<close> (the names are HOL constants).
\<close>

section \<open>Decimal numerals\<close>

fun string_of_nat :: "nat \<Rightarrow> string" where
  "string_of_nat n =
     (if n < 10 then [char_of (48 + n)]
      else string_of_nat (n div 10) @ [char_of (48 + n mod 10)])"

definition Itoa :: "int \<Rightarrow> string" where
  "Itoa i = (if i < 0 then ''-'' @ string_of_nat (nat (- i)) else string_of_nat (nat i))"

definition is_digit :: "char \<Rightarrow> bool" where
  "is_digit ch \<longleftrightarrow> (48::nat) \<le> of_char ch \<and> of_char ch < (58::nat)"

definition digits_value :: "string \<Rightarrow> nat" where
  "digits_value s = foldl (\<lambda>acc ch. 10 * acc + (of_char ch - 48)) 0 s"

text \<open>The reader of \<^verbatim>\<open>strconv.Atoi\<close> restricted to the shape \<open>Itoa\<close> prints.\<close>

definition Atoi :: "string \<Rightarrow> int option" where
  "Atoi s =
     (case s of
        [] \<Rightarrow> None
      | ch # rest \<Rightarrow>
          if ch = CHR ''-'' then
            (if rest \<noteq> [] \<and> list_all is_digit rest then Some (- int (digits_value rest)) else None)
          else if list_all is_digit s then Some (int (digits_value s)) else None)"

section \<open>The helpers\<close>

definition MakeTuple :: "node \<Rightarrow> node list \<Rightarrow> node" where
  "MakeTuple first rest = Tuple (first # rest)"

definition generatePlaceholders :: "string \<Rightarrow> int \<Rightarrow> string list result" where
  "generatePlaceholders pfx len =
     (if len \<le> 0 then Inl ErrZeroLength
      else Inr (map (\<lambda>i. pfx @ Itoa (int i + 1)) [0..<nat len]))"

definition makePlaceholderTuple :: "string list \<Rightarrow> node result" where
  "makePlaceholderTuple phs =
     (case phs of
        [] \<Rightarrow> Inl ErrZeroLength
      | p # rest \<Rightarrow> Inr (MakeTuple (Placeholder p) (map Placeholder rest)))"

definition PlaceholderTuple :: "string \<Rightarrow> int \<Rightarrow> (string list \<times> node) result" where
  "PlaceholderTuple pfx len =
     ebind (generatePlaceholders pfx len) (\<lambda>phs.
     ebind (makePlaceholderTuple phs) (\<lambda>tuple.
     Inr (phs, tuple)))"

declare string_of_nat.simps [simp del]

section \<open>Facts on numerals\<close>

lemma char_of_digit: "d < 10 \<Longrightarrow> of_char (char_of (48 + d) :: char) = 48 + (d::nat)"
  by (simp add: of_char_of)

lemma is_digit_char_of: "d < 10 \<Longrightarrow> is_digit (char_of (48 + (d::nat)))"
  by (simp add: is_digit_def char_of_digit)

lemma string_of_nat_digits: "list_all is_digit (string_of_nat n)"
proof (induction n rule: string_of_nat.induct)
  case (1 n)
  then show ?case
    by (subst string_of_nat.simps) (auto intro: is_digit_char_of)
qed

lemma string_of_nat_nonempty: "string_of_nat n \<noteq> []"
  by (subst string_of_nat.simps) simp

lemma digits_value_snoc: "digits_value (s @ [ch]) = 10 * digits_value s + (of_char ch - 48)"
  by (simp add: digits_value_def)

lemma digits_value_string_of_nat: "digits_value (string_of_nat n) = n"
proof (induction n rule: string_of_nat.induct)
  case (1 n)
  show ?case
  proof (cases "n < 10")
    case True
    then show ?thesis
      by (subst string_of_nat.simps) (simp add: digits_value_def char_of_digit)
  next
    case False
    then have "digits_value (string_of_nat n) =
        10 * digits_value (string_of_nat (n div 10)) + n mod 10"
      by (subst string_of_nat.simps) (simp add: digits_value_snoc char_of_digit)
    with 1 False show ?thesis by simp
  qed
qed

lemma string_of_nat_head: "hd (string_of_nat n) \<noteq> CHR ''-''"
  using string_of_nat_digits [of n] string_of_nat_nonempty [of n]
  by (cases "string_of_nat n") (auto simp: is_digit_def)

lemma Atoi_Itoa: "Atoi (Itoa i) = Some i"
proof (cases "i < 0")
  case True
  then show ?thesis
    using string_of_nat_digits [of "nat (- i)"] string_of_nat_nonempty [of "nat (- i)"]
    by (simp add: Itoa_def Atoi_def digits_value_string_of_nat)
next
  case False
  obtain ch rest where s: "string_of_nat (nat i) = ch # rest"
    using string_of_nat_nonempty by (cases "string_of_nat (nat i)") auto
  have "ch \<noteq> CHR ''-''" using string_of_nat_head [of "nat i"] s by simp
  with False s show ?thesis
    using string_of_nat_digits [of "nat i"] digits_value_string_of_nat [of "nat i"]
    by (simp add: Itoa_def Atoi_def)
qed

lemma stringify_Placeholder_fresh:
  "map_of (bindings c) n = None \<Longrightarrow>
   stringify (Placeholder n) c =
     Inr (c\<lparr>buffer := buffer c @ render_placeholder c n (Suc (length (bindings c))),
            bindings := bindings c @ [(n, Suc (length (bindings c)))]\<rparr>)"
  by (simp add: insertPlaceholder_def makePlaceholder_def WriteVerbatim_def)

lemma stringify_rest_Cons:
  "stringify_rest (x # xs) c = ebind (stringify x (WriteVerbatim '','' c)) (stringify_rest xs)"
  by simp

lemma stringify_rest_fresh:
  "distinct ns \<Longrightarrow> (\<forall>n\<in>set ns. map_of (bindings c) n = None) \<Longrightarrow>
   stringify_rest (map Placeholder ns) c =
     Inr (c\<lparr>buffer := buffer c @ concat (map (\<lambda>(n, i). '','' @ render_placeholder c n i)
              (zip ns [Suc (length (bindings c))..<Suc (length (bindings c) + length ns)])),
            bindings := bindings c @ zip ns [Suc (length (bindings c))..<Suc (length (bindings c) + length ns)]\<rparr>)"
proof (induction ns arbitrary: c)
  case Nil
  then show ?case by simp
next
  case (Cons n ns)
  let ?k = "length (bindings c)"
  let ?c1 = "c\<lparr>buffer := buffer c @ '','' @ render_placeholder c n (Suc ?k),
                bindings := bindings c @ [(n, Suc ?k)]\<rparr>"
  have first: "stringify (Placeholder n) (WriteVerbatim '','' c) = Inr ?c1"
    using Cons.prems by (simp add: insertPlaceholder_def makePlaceholder_def WriteVerbatim_def)
  have "\<forall>m\<in>set ns. map_of (bindings ?c1) m = None" using Cons.prems by auto
  with Cons.prems Cons.IH [of ?c1] have rest: "stringify_rest (map Placeholder ns) ?c1 =
     Inr (?c1\<lparr>buffer := buffer ?c1 @ concat (map (\<lambda>(n, i). '','' @ render_placeholder c n i)
              (zip ns [Suc (Suc ?k)..<Suc (Suc ?k + length ns)])),
            bindings := bindings ?c1 @ zip ns [Suc (Suc ?k)..<Suc (Suc ?k + length ns)]\<rparr>)"
    by simp
  have upt: "[Suc ?k..<Suc (Suc (?k + length ns))] = Suc ?k # [Suc (Suc ?k)..<Suc (Suc (?k + length ns))]"
    by (simp add: upt_conv_Cons del: upt_Suc)
  have step: "stringify_rest (map Placeholder (n # ns)) c = stringify_rest (map Placeholder ns) ?c1"
    by (simp only: list.map stringify_rest_Cons first ebind_Inr)
  show ?case unfolding step rest by (simp add: upt del: upt_Suc)
qed

lemma generatePlaceholders_Inr:
  "0 < len \<Longrightarrow> generatePlaceholders pfx len = Inr (map (\<lambda>i. pfx @ Itoa (int i + 1)) [0..<nat len])"
  by (simp add: generatePlaceholders_def)

lemma generated_names_distinct: "distinct (map (\<lambda>i. pfx @ Itoa (int i + 1)) [0..<n])"
proof -
  have "inj_on (\<lambda>i. pfx @ Itoa (int i + 1)) {0..<n}"
    by (rule inj_onI) (metis Atoi_Itoa same_append_eq add_right_cancel of_nat_eq_iff option.inject)
  then show ?thesis by (simp add: distinct_map)
qed

lemma stringify_fresh_tuple:
  assumes "distinct (p # ns)" and "\<forall>n\<in>set (p # ns). map_of (bindings c) n = None"
  shows "stringify (Tuple (map Placeholder (p # ns))) c =
     Inr (c\<lparr>buffer := buffer c @ ''('' @
              tl (concat (map (\<lambda>(n, i). '','' @ render_placeholder c n i)
                (zip (p # ns) [Suc (length (bindings c))..<Suc (length (bindings c) + length (p # ns))]))) @ '')'',
            bindings := bindings c @ zip (p # ns) [Suc (length (bindings c))..<Suc (length (bindings c) + length (p # ns))]\<rparr>)"
proof -
  let ?k = "length (bindings c)"
  let ?c1 = "c\<lparr>buffer := buffer c @ ''('' @ render_placeholder c p (Suc ?k),
                bindings := bindings c @ [(p, Suc ?k)]\<rparr>"
  have first: "stringify (Placeholder p) (WriteVerbatim ''('' c) = Inr ?c1"
    using assms by (simp add: insertPlaceholder_def makePlaceholder_def WriteVerbatim_def)
  have "\<forall>m\<in>set ns. map_of (bindings ?c1) m = None" using assms by auto
  with assms stringify_rest_fresh [of ns ?c1] have rest: "stringify_rest (map Placeholder ns) ?c1 =
     Inr (?c1\<lparr>buffer := buffer ?c1 @ concat (map (\<lambda>(n, i). '','' @ render_placeholder c n i)
              (zip ns [Suc (Suc ?k)..<Suc (Suc (?k + length ns))])),
            bindings := bindings ?c1 @ zip ns [Suc (Suc ?k)..<Suc (Suc (?k + length ns))]\<rparr>)"
    by simp
  have step: "stringify (Tuple (map Placeholder (p # ns))) c =
      ebind (stringify_rest (map Placeholder ns) ?c1) (\<lambda>c. Inr (WriteVerbatim '')'' c))"
    by (simp only: list.map stringify.simps(12) tuple_stringify_def stringifyCommaSeparated.simps(2) first ebind_Inr)
  have upt: "[Suc ?k..<Suc (Suc (?k + length ns))] = Suc ?k # [Suc (Suc ?k)..<Suc (Suc (?k + length ns))]"
    by (simp add: upt_conv_Cons del: upt_Suc)
  show ?thesis unfolding step rest by (simp add: upt WriteVerbatim_def del: upt_Suc)
qed

section \<open>Properties of the helpers\<close>

text \<open>
  C20: a request for zero or a negative number of placeholders fails with the zero-length error, in \<^verbatim>\<open>generatePlaceholders\<close> and in \<^verbatim>\<open>PlaceholderTuple\<close>; no empty list is produced (spec 4.5 and section 8).
\<close>

theorem generatePlaceholders_nonpositive:
  assumes "len \<le> 0"
  shows "generatePlaceholders pfx len = Inl ErrZeroLength \<and> PlaceholderTuple pfx len = Inl ErrZeroLength"
  using assms by (simp add: PlaceholderTuple_def generatePlaceholders_def)

theorem generatePlaceholders_nonpositive_witness:
  "generatePlaceholders ''p'' 0 = Inl ErrZeroLength \<and> generatePlaceholders ''p'' (- 1) = Inl ErrZeroLength \<and>
   PlaceholderTuple ''p'' 0 = Inl ErrZeroLength \<and> PlaceholderTuple ''p'' (- 1) = Inl ErrZeroLength"
  using generatePlaceholders_nonpositive [of 0 "''p''"] generatePlaceholders_nonpositive [of "- 1" "''p''"]
  by simp

text \<open>
  C21: for a positive count \<open>n\<close>, \<^verbatim>\<open>generatePlaceholders\<close> returns exactly \<open>n\<close> pairwise distinct names, the \<open>i\<close>-th being the prefix followed by the decimal numeral of \<open>i + 1\<close>.
\<close>

theorem generatePlaceholders_names:
  assumes "0 < len"
  shows "\<exists>phs. generatePlaceholders pfx len = Inr phs \<and> length phs = nat len \<and> distinct phs \<and>
    (\<forall>i < nat len. phs ! i = pfx @ Itoa (int i + 1))"
  using assms generated_names_distinct by (simp add: generatePlaceholders_Inr)

theorem generatePlaceholders_names_witness:
  "generatePlaceholders ''p'' 3 = Inr [''p1'', ''p2'', ''p3''] \<and> distinct [''p1'', ''p2'', ''p3'']"
  using generatePlaceholders_names [of 3 "''p''"]
  by (simp add: generatePlaceholders_def Itoa_def string_of_nat.simps upt_rec char_of_def bit_0)

text \<open>
  C22: a tuple built by \<^verbatim>\<open>PlaceholderTuple\<close> and printed on a context with no bindings yet prints as a parenthesized comma-separated list of the rendered placeholders and binds the generated names to positions \<open>1, \<dots>, n\<close> in order.
\<close>

theorem PlaceholderTuple_prints:
  assumes gen: "PlaceholderTuple pfx len = Inr (phs, tuple)" and fresh: "bindings c = []"
  shows "length phs = nat len \<and>
    stringify tuple c =
     Inr (c\<lparr>buffer := buffer c @ ''('' @
              tl (concat (map (\<lambda>(n, i). '','' @ render_placeholder c n i) (zip phs [1..<Suc (length phs)]))) @ '')'',
            bindings := zip phs [1..<Suc (length phs)]\<rparr>)"
proof -
  from gen have len: "0 < len" by (auto simp: PlaceholderTuple_def generatePlaceholders_def split: if_splits)
  then have phs: "phs = map (\<lambda>i. pfx @ Itoa (int i + 1)) [0..<nat len]"
    using gen by (auto simp: PlaceholderTuple_def generatePlaceholders_Inr makePlaceholderTuple_def
        split: list.splits)
  then have "distinct phs" by (simp add: generated_names_distinct)
  from len phs have "phs \<noteq> []" by simp
  then obtain p ns where pns: "phs = p # ns" by (cases phs) auto
  with gen phs have tuple: "tuple = Tuple (map Placeholder (p # ns))"
    by (auto simp: PlaceholderTuple_def generatePlaceholders_Inr len makePlaceholderTuple_def MakeTuple_def)
  have n: "length phs = nat len" using phs by simp
  show ?thesis
    using stringify_fresh_tuple [of p ns c] \<open>distinct phs\<close> fresh n by (simp add: pns tuple del: upt_Suc)
qed

theorem PlaceholderTuple_prints_witness:
  "PlaceholderTuple ''p'' 2 = Inr ([''p1'', ''p2''], Tuple [Placeholder ''p1'', Placeholder ''p2'']) \<and>
   stringify (Tuple [Placeholder ''p1'', Placeholder ''p2'']) qmark =
     Inr (qmark\<lparr>buffer := ''(?,?)'', bindings := [(''p1'', 1), (''p2'', 2)]\<rparr>)"
  using PlaceholderTuple_prints [of "''p''" 2 "[''p1'', ''p2'']" "Tuple [Placeholder ''p1'', Placeholder ''p2'']" qmark]
  by (simp add: PlaceholderTuple_def generatePlaceholders_def makePlaceholderTuple_def MakeTuple_def
      Itoa_def string_of_nat.simps upt_rec char_of_def bit_0 qmark_def)

end
