(* ===== verification/Printable.thy ===== *)
theory Printable
  imports Frame
begin

text \<open>
  When a print pass succeeds. A print pass fails only where the Go code returns an
  error or panics: an operator whose precedence or associativity the resolver cannot
  find, a unary operator resolved NonAssociative, a \<^verbatim>\<open>FromClauseItem\<close> with no
  alternative, a CASE with more conditions than results, a SELECT without columns.
  None of these depends on the text or the bindings written so far, only on the
  dialect, which a pass never changes (\<^theory_text>\<open>Frame\<close>). \<open>printable d n\<close> decides
  success from the tree and the dialect part \<open>dialect_of c\<close> of the context, and
  \<open>isOK\<close> is the success test of a result (as in the error monad of the
  Certification_Monads library).
\<close>

definition isOK :: "'e + 'a \<Rightarrow> bool" where
  "isOK m \<longleftrightarrow> (case m of Inl e \<Rightarrow> False | Inr x \<Rightarrow> True)"

definition dialect_of :: "compiler \<Rightarrow> compiler" where
  "dialect_of c = c\<lparr>buffer := [], bindings := []\<rparr>"

definition operand_ok :: "compiler \<Rightarrow> node \<Rightarrow> bool" where
  "operand_ok d e \<longleftrightarrow> \<not> is_operator e \<or> isOK (resolveOperatorPrecedence e d)"

function printable :: "compiler \<Rightarrow> node \<Rightarrow> bool" where
  "printable d (SQLType s) = True"
| "printable d (CastExpr e t) = printable d e"
| "printable d (FuncExpr name args omit) = list_all (printable d) args"
| "printable d (Column tbl n) = True"
| "printable d (LabeledColumn e l) = printable d e"
| "printable d (Table s n) = True"
| "printable d (LabeledTable s n l) = True"
| "printable d (FromClause i) = printable d i"
| "printable d (JoinClause jt l r on) = (printable d l \<and> printable d r \<and> printable d on)"
| "printable d (LabeledSelectStmt s l) = printable d s"
| "printable d (FromClauseItem tr sq jc) =
     (case tr of
        Some t \<Rightarrow> printable d t
      | None \<Rightarrow> (case sq of
           Some q \<Rightarrow> printable d q
         | None \<Rightarrow> (case jc of Some j \<Rightarrow> printable d j | None \<Rightarrow> False)))"
| "printable d (Tuple es) = list_all (printable d) es"
| "printable d (CaseExpr cs rs el) =
     ((length cs \<le> length rs \<and> list_all (printable d) cs \<and>
       list_all (printable d) (take (length cs) rs)) \<and> pred_option (printable d) el)"
| "printable d (Placeholder p) = True"
| "printable d (WhereClause e) = printable d e"
| "printable d (GroupByClause es) = list_all (printable d) es"
| "printable d (HavingClause e) = printable d e"
| "printable d (OrderbyItem e desc nullsSet nullsLast) = printable d e"
| "printable d (OrderByClause items) = list_all (printable d) items"
| "printable d (LimitClause e) = printable d e"
| "printable d (OffsetClause e) = printable d e"
| "printable d (SelectStmt cols fr wh gb hv ob li off) =
     (cols \<noteq> [] \<and> list_all (printable d) cols \<and> pred_option (printable d) fr \<and>
      pred_option (printable d) wh \<and> pred_option (printable d) gb \<and>
      pred_option (printable d) hv \<and> pred_option (printable d) ob \<and>
      pred_option (printable d) li \<and> pred_option (printable d) off)"
| "printable d (UnaryOperator t s nt ns e p a) =
     ((case resolveOperatorAssociativity (UnaryOperator t s nt ns e p a) d of
         Inl err \<Rightarrow> False | Inr assoc \<Rightarrow> assoc \<noteq> NonAssociative) \<and>
      isOK (resolveOperatorPrecedence (UnaryOperator t s nt ns e p a) d) \<and>
      operand_ok d e \<and> printable d e)"
| "printable d (BinaryOperator t s nt ns l r p a ss) =
     (isOK (resolveOperatorAssociativity (BinaryOperator t s nt ns l r p a ss) d) \<and>
      isOK (resolveOperatorPrecedence (BinaryOperator t s nt ns l r p a ss) d) \<and>
      operand_ok d l \<and> operand_ok d r \<and> printable d l \<and> printable d r)"
| "printable d (TernaryOperator t s1 s2 nt ns1 ns2 e1 e2 e3 p a) =
     (isOK (resolveOperatorPrecedence (TernaryOperator t s1 s2 nt ns1 ns2 e1 e2 e3 p a) d) \<and>
      operand_ok d e1 \<and> operand_ok d e2 \<and> operand_ok d e3 \<and>
      printable d e1 \<and> printable d e2 \<and> printable d e3)"
  by pat_completeness auto
termination
  by (relation "measure (\<lambda>(d, n). size n)")
     (auto simp: less_Suc_eq_le dest!: size_list_elem [where f = size]
        dest: order_trans [OF _ size_list_take_le])

definition print_errors :: "error set" where
  "print_errors = {ErrNoPrecedence, ErrNoAssociativity, ErrNonAssociative, ErrUnknownFromClauseItem,
                   PanicIndexOutOfRange}"

definition err_in :: "'a result \<Rightarrow> bool" where
  "err_in r \<longleftrightarrow> (\<forall>e. r = Inl e \<longrightarrow> e \<in> print_errors)"

section \<open>Success of results\<close>

lemma isOK_simps [simp]:
  "isOK (Inl e) = False"
  "isOK (Inr a) = True"
  by (simp_all add: isOK_def)

text \<open>
  Sequencing: a chain succeeds when its first step succeeds and every continuation
  of a success does. The two rules keep the chain's shape, so that they apply by
  \<open>intro\<close> step by step along a Go function body.
\<close>

lemma isOK_seq:
  "isOK m = P \<Longrightarrow> (\<And>a. m = Inr a \<Longrightarrow> isOK (g a) = Q) \<Longrightarrow> isOK (ebind m g) = (P \<and> Q)"
  by (cases m) auto

lemma isOK_seq_last:
  "isOK m = P \<Longrightarrow> (\<And>a. m = Inr a \<Longrightarrow> isOK (g a)) \<Longrightarrow> isOK (ebind m g) = P"
  by (cases m) auto

lemma isOK_case_prod [simp]:
  "isOK (case x of (a, b) \<Rightarrow> f a b) = (case x of (a, b) \<Rightarrow> isOK (f a b))"
  by (cases x) simp

section \<open>The dialect part of a context\<close>

lemma dialect_of_simps [simp]:
  "dialect_of (WriteVerbatim s c) = dialect_of c"
  "dialect_of (WriteIdentifier s c) = dialect_of c"
  "dialect_of (dialect_of c) = dialect_of c"
  by (simp_all add: dialect_of_def WriteIdentifier_def WriteVerbatim_def)

lemma resolve_dialect_of [simp]:
  "resolveOperatorPrecedence e (dialect_of c) = resolveOperatorPrecedence e c"
  "resolveOperatorAssociativity e (dialect_of c) = resolveOperatorAssociativity e c"
  by (simp_all add: dialect_of_def resolveOperatorPrecedence_def resolveOperatorAssociativity_def
      Let_def)

lemma extends_dialect_of: "extends c c' \<Longrightarrow> dialect_of c' = dialect_of c"
  by (simp add: extends_def dialect_of_def)

lemma insertPlaceholder_dialect_of:
  "insertPlaceholder n c = (p, c') \<Longrightarrow> dialect_of c' = dialect_of c"
  by (rule extends_dialect_of [OF insertPlaceholder_extends])

lemma appends_dialect_of: "appends f \<Longrightarrow> f c = Inr c' \<Longrightarrow> dialect_of c' = dialect_of c"
  by (drule (1) appends_run) (auto simp: grows_def intro: extends_dialect_of)

lemma printers_dialect_of [dest]:
  "stringify n c = Inr c' \<Longrightarrow> dialect_of c' = dialect_of c"
  "stringify_rest xs c = Inr c' \<Longrightarrow> dialect_of c' = dialect_of c"
  "stringifyCommaSeparated xs c = Inr c' \<Longrightarrow> dialect_of c' = dialect_of c"
  "stringify_when cs rs c = Inr c' \<Longrightarrow> dialect_of c' = dialect_of c"
  "stringify_clause ox c = Inr c' \<Longrightarrow> dialect_of c' = dialect_of c"
  "print_child need e (stringify e) c = Inr c' \<Longrightarrow> dialect_of c' = dialect_of c"
  by (erule appends_dialect_of [rotated]; blast intro: stringify_appends)+

section \<open>Success and failure of the print pass\<close>

lemma stringify_rest_ok:
  "(\<And>x c. x \<in> set xs \<Longrightarrow> isOK (stringify x c) = printable (dialect_of c) x) \<Longrightarrow>
   isOK (stringify_rest xs c) = list_all (printable (dialect_of c)) xs"
proof (induction xs arbitrary: c)
  case (Cons x xs)
  show ?case by (simp only: stringify_rest.simps list.pred_inject) (intro isOK_seq; auto simp: Cons)
qed simp

lemma stringifyCommaSeparated_ok:
  "(\<And>x c. x \<in> set xs \<Longrightarrow> isOK (stringify x c) = printable (dialect_of c) x) \<Longrightarrow>
   isOK (stringifyCommaSeparated xs c) = list_all (printable (dialect_of c)) xs"
proof (cases xs)
  case (Cons x ys)
  assume h: "\<And>x c. x \<in> set xs \<Longrightarrow> isOK (stringify x c) = printable (dialect_of c) x"
  show ?thesis unfolding Cons
    by (simp only: stringifyCommaSeparated.simps list.pred_inject)
       (intro isOK_seq; auto simp: h Cons stringify_rest_ok)
qed simp

lemma stringify_when_ok:
  "(\<And>x c. x \<in> set cs \<Longrightarrow> isOK (stringify x c) = printable (dialect_of c) x) \<Longrightarrow>
   (\<And>x c. x \<in> set rs \<Longrightarrow> isOK (stringify x c) = printable (dialect_of c) x) \<Longrightarrow>
   isOK (stringify_when cs rs c) =
     (length cs \<le> length rs \<and> list_all (printable (dialect_of c)) cs \<and>
      list_all (printable (dialect_of c)) (take (length cs) rs))"
proof (induction cs arbitrary: rs c)
  case (Cons x xs)
  show ?case
  proof (cases rs)
    case Nil
    have "isOK (stringify_when (x # xs) rs c) = (printable (dialect_of c) x \<and> False)"
      unfolding Nil stringify_when.simps by (intro isOK_seq; simp add: Cons.prems)
    then show ?thesis by (simp add: Nil)
  next
    case (Cons r rs')
    have "isOK (stringify_when (x # xs) rs c) =
      (printable (dialect_of c) x \<and> printable (dialect_of c) r \<and>
       (length xs \<le> length rs' \<and> list_all (printable (dialect_of c)) xs \<and>
        list_all (printable (dialect_of c)) (take (length xs) rs')))"
      unfolding Cons stringify_when.simps
      by (intro isOK_seq; auto simp: Cons.prems Cons.IH Cons dest!: printers_dialect_of)
    then show ?thesis by (auto simp: Cons)
  qed
qed simp

lemma stringify_clause_ok:
  "(\<And>x c. ox = Some x \<Longrightarrow> isOK (stringify x c) = printable (dialect_of c) x) \<Longrightarrow>
   isOK (stringify_clause ox c) = pred_option (printable (dialect_of c)) ox"
  by (cases ox) auto

lemma stringifyParen_ok:
  "(\<And>c. isOK (f c) = printable (dialect_of c) e) \<Longrightarrow>
   isOK (stringifyParen f c) = printable (dialect_of c) e"
  unfolding stringifyParen_def by (intro isOK_seq_last) auto

lemma print_child_ok:
  assumes h: "\<And>c. isOK (f c) = printable (dialect_of c) e"
  shows "isOK (print_child need e f c) = (operand_ok (dialect_of c) e \<and> printable (dialect_of c) e)"
proof (cases "is_operator e")
  case True
  then show ?thesis
    by (cases "resolveOperatorPrecedence e c")
       (simp_all add: print_child_def operand_ok_def isOK_def stringifyParen_ok [OF h, unfolded isOK_def] h [unfolded isOK_def])
qed (simp add: print_child_def operand_ok_def h)


lemma unary_write_ok:
  "(\<And>c. isOK (f c) = P (dialect_of c)) \<Longrightarrow> isOK (unary_write a s f c) = P (dialect_of c)"
  unfolding unary_write_def Let_def by (intro isOK_seq_last) auto

lemma unary_stringify_ok:
  assumes h: "\<And>c. isOK (stringify e c) = printable (dialect_of c) e"
  shows "isOK (unary_stringify u s e (stringify e) c) =
    ((case resolveOperatorAssociativity u c of Inl err \<Rightarrow> False | Inr assoc \<Rightarrow> assoc \<noteq> NonAssociative) \<and>
     isOK (resolveOperatorPrecedence u c) \<and> operand_ok (dialect_of c) e \<and> printable (dialect_of c) e)"
proof -
  have w: "isOK (unary_write a s g c) = printable (dialect_of c) e"
    if "g = stringify e \<or> g = stringifyParen (stringify e)" for a g
    using that unary_write_ok [where P = "\<lambda>d. printable d e", OF h]
      unary_write_ok [where P = "\<lambda>d. printable d e", OF stringifyParen_ok [OF h]] by auto
  show ?thesis
    by (cases "resolveOperatorAssociativity u c"; cases "resolveOperatorPrecedence u c";
        cases "resolveOperatorPrecedence e c")
       (auto simp: unary_stringify_def operand_ok_def w)
qed

lemma binary_stringify_ok:
  assumes hl: "\<And>c. isOK (stringify l c) = printable (dialect_of c) l"
    and hr: "\<And>c. isOK (stringify r c) = printable (dialect_of c) r"
  shows "isOK (binary_stringify b s ss l r (stringify l) (stringify r) c) =
    (isOK (resolveOperatorAssociativity b c) \<and> isOK (resolveOperatorPrecedence b c) \<and>
     operand_ok (dialect_of c) l \<and> operand_ok (dialect_of c) r \<and>
     printable (dialect_of c) l \<and> printable (dialect_of c) r)"
proof -
  have "isOK (binary_stringify b s ss l r (stringify l) (stringify r) c) =
    (isOK (resolveOperatorAssociativity b c) \<and> isOK (resolveOperatorPrecedence b c) \<and>
     (operand_ok (dialect_of c) l \<and> printable (dialect_of c) l) \<and>
     (operand_ok (dialect_of c) r \<and> printable (dialect_of c) r))"
    unfolding binary_stringify_def
    by (intro isOK_seq; auto simp: print_child_ok hl hr dest!: printers_dialect_of)
  then show ?thesis by auto
qed

lemma ternary_stringify_ok:
  assumes h1: "\<And>c. isOK (stringify e1 c) = printable (dialect_of c) e1"
    and h2: "\<And>c. isOK (stringify e2 c) = printable (dialect_of c) e2"
    and h3: "\<And>c. isOK (stringify e3 c) = printable (dialect_of c) e3"
  shows "isOK (ternary_stringify tn s1 s2 e1 e2 e3 (stringify e1) (stringify e2) (stringify e3) c) =
    (isOK (resolveOperatorPrecedence tn c) \<and>
     operand_ok (dialect_of c) e1 \<and> operand_ok (dialect_of c) e2 \<and> operand_ok (dialect_of c) e3 \<and>
     printable (dialect_of c) e1 \<and> printable (dialect_of c) e2 \<and> printable (dialect_of c) e3)"
proof -
  have "isOK (ternary_stringify tn s1 s2 e1 e2 e3 (stringify e1) (stringify e2) (stringify e3) c) =
    (isOK (resolveOperatorPrecedence tn c) \<and>
     (operand_ok (dialect_of c) e1 \<and> printable (dialect_of c) e1) \<and>
     (operand_ok (dialect_of c) e2 \<and> printable (dialect_of c) e2) \<and>
     (operand_ok (dialect_of c) e3 \<and> printable (dialect_of c) e3))"
    unfolding ternary_stringify_def
    by (intro isOK_seq; auto simp: print_child_ok h1 h2 h3 dest!: printers_dialect_of)
  then show ?thesis by auto
qed

lemma stringify_ok: "isOK (stringify n c) = printable (dialect_of c) n"
proof (induction n arbitrary: c)
  case (FuncExpr name args omit)
  show ?case
  proof (cases args)
    case (Cons a rest)
    have "isOK (stringify (FuncExpr name args omit) c) =
      (printable (dialect_of c) a \<and> list_all (printable (dialect_of c)) rest)"
      unfolding Cons by (simp only: stringify.simps node_printers Let_def list.case)
        (intro isOK_seq isOK_seq_last; auto simp: FuncExpr.IH Cons stringify_rest_ok
          dest!: printers_dialect_of)
    then show ?thesis by (simp add: Cons)
  qed (simp add: Let_def)
next
  case (FromClauseItem tr sq jc)
  then show ?case by (auto split: option.splits)
next
  case (CaseExpr cs rs el)
  then show ?case
    by (cases el; simp only: stringify.simps node_printers printable.simps option.case)
       (intro isOK_seq isOK_seq_last; auto simp: stringify_when_ok dest!: printers_dialect_of)+
next
  case (OrderbyItem e desc nullsSet nullsLast)
  then show ?case
    by (simp only: stringify.simps node_printers printable.simps) (intro isOK_seq_last; simp add: Let_def)
next
  case (SelectStmt cols fr wh gb hv ob li off)
  show ?case
  proof (cases cols)
    case (Cons col rest)
    have "isOK (stringify (SelectStmt cols fr wh gb hv ob li off) c) =
      (printable (dialect_of c) col \<and> list_all (printable (dialect_of c)) rest \<and>
       pred_option (printable (dialect_of c)) fr \<and> pred_option (printable (dialect_of c)) wh \<and>
       pred_option (printable (dialect_of c)) gb \<and> pred_option (printable (dialect_of c)) hv \<and>
       pred_option (printable (dialect_of c)) ob \<and> pred_option (printable (dialect_of c)) li \<and>
       pred_option (printable (dialect_of c)) off)"
      unfolding Cons by (simp only: stringify.simps node_printers Let_def list.case)
        (intro isOK_seq isOK_seq_last; auto simp: SelectStmt.IH Cons stringify_rest_ok stringify_clause_ok
          dest!: printers_dialect_of)
    then show ?thesis by (simp add: Cons)
  qed (simp add: Let_def)
next
  case (UnaryOperator t s nt ns e p a)
  then show ?case by (simp add: unary_stringify_ok)
next
  case (BinaryOperator t s nt ns l r p a ss)
  then show ?case by (simp add: binary_stringify_ok)
next
  case (TernaryOperator t s1 s2 nt ns1 ns2 e1 e2 e3 p a)
  then show ?case by (simp add: ternary_stringify_ok)
qed ((simp only: stringify.simps node_printers printable.simps)?, (intro isOK_seq isOK_seq_last)?;
     auto simp: stringifyCommaSeparated_ok dest!: printers_dialect_of)+


lemma err_in_simps [simp]:
  "err_in (Inl e) = (e \<in> print_errors)"
  "err_in (Inr a) = True"
  "err_in (ebind m g) = (err_in m \<and> post m (\<lambda>a. err_in (g a)))"
  by (auto simp: err_in_def post_def ebind_def split: sum.splits)

lemma post_allI: "(\<And>a. P a) \<Longrightarrow> post m P"
  by (simp add: post_def)

lemma err_in_resolve [simp]:
  "err_in (resolveOperatorPrecedence e c)"
  "err_in (resolveOperatorAssociativity e c)"
  by (auto simp: err_in_def resolveOperatorPrecedence_Inl resolveOperatorAssociativity_Inl print_errors_def)

lemma err_in_combinators:
  "(\<And>c. err_in (f c)) \<Longrightarrow> err_in (stringifyParen f c)"
  "(\<And>c. err_in (f c)) \<Longrightarrow> err_in (print_child need e f c)"
  "(\<And>c. err_in (f c)) \<Longrightarrow> err_in (unary_write a s f c)"
  by (auto simp: stringifyParen_def print_child_def unary_write_def Let_def intro!: post_allI)

lemma stringify_err_in:
  "err_in (stringify n c)"
  "err_in (stringifyCommaSeparated ns c)"
  "err_in (stringify_rest ns c)"
  "err_in (stringify_when cs rs c)"
  "err_in (stringify_clause on c)"
proof (induction n c and ns c and ns c and cs rs c and on c
    rule: stringify_stringifyCommaSeparated_stringify_rest_stringify_when_stringify_clause.induct)
  case (23 t s nt ns e p a c)
  then show ?case
    by (auto simp: unary_stringify_def print_errors_def intro!: post_allI err_in_combinators)
next
  case (24 t s nt ns l r p a ss c)
  then show ?case by (auto simp: binary_stringify_def intro!: post_allI err_in_combinators)
next
  case (25 t s1 s2 nt ns1 ns2 e1 e2 e3 p a c)
  then show ?case by (auto simp: ternary_stringify_def intro!: post_allI err_in_combinators)
qed (auto simp: Let_def print_errors_def intro!: post_allI split: option.splits list.splits prod.splits)

section \<open>Properties\<close>

text \<open>
  C9: a print pass succeeds exactly when the tree is printable in the dialect of the
  context: every operator it reaches resolves its precedence (and its associativity,
  not NonAssociative for a unary one), every operator operand resolves its
  precedence, every \<^verbatim>\<open>FromClauseItem\<close> has an alternative, every CASE has a
  result for each condition and every SELECT has a column.
\<close>

theorem stringify_succeeds_iff:
  "(\<exists>c'. stringify n c = Inr c') \<longleftrightarrow> printable (dialect_of c) n"
  using stringify_ok [of n c] by (auto simp: isOK_def split: sum.splits)

theorem stringify_succeeds_iff_witness:
  "(\<exists>c'. stringify (Sub (Column [] ''a'') (Column [] ''b'')) qmark = Inr c') \<and>
   printable (dialect_of qmark) (Sub (Column [] ''a'') (Column [] ''b'')) \<and>
   \<not> (\<exists>c'. stringify (Eq (Column [] ''a'') (Eq (Column [] ''b'') (Column [] ''c'')))
          (qmark\<lparr>precedence := (\<lambda>t. 0)\<rparr>) = Inr c') \<and>
   \<not> printable (dialect_of (qmark\<lparr>precedence := (\<lambda>t. 0)\<rparr>))
       (Eq (Column [] ''a'') (Eq (Column [] ''b'') (Column [] ''c'')))"
  using stringify_succeeds_iff [of "Sub (Column [] ''a'') (Column [] ''b'')" qmark]
    stringify_succeeds_iff [of "Eq (Column [] ''a'') (Eq (Column [] ''b'') (Column [] ''c''))"
      "qmark\<lparr>precedence := (\<lambda>t. 0)\<rparr>"]
  by (simp add: eval_simps dialect_of_def operand_ok_def isOK_def)

end
