(* ===== verification/Builders.thy ===== *)
theory Builders
  imports Placeholders
begin

text \<open>
  The constructor functions of \<^verbatim>\<open>src/grammar.go\<close> that application code
  composes into a tree: the SQL type constants and \<^verbatim>\<open>Decimal\<close>,
  \<^verbatim>\<open>Cast\<close>, the function-call builders \<^verbatim>\<open>Func\<close>/\<^verbatim>\<open>Func0\<close> with the
  name check \<^verbatim>\<open>checkFuncName\<close>, the join builders, the CASE builder methods
  \<^verbatim>\<open>Case\<close>/\<^verbatim>\<open>When\<close>/\<^verbatim>\<open>Else\<close>, \<^verbatim>\<open>GroupBy\<close> and the ORDER BY builders.
  A Go \<^verbatim>\<open>SQLType\<close> is a string; it is a \<open>string\<close> here and becomes the node
  \<open>SQLType s\<close> where it is printed on its own. The construction-time panic of
  \<^verbatim>\<open>checkFuncName\<close> is the value \<open>Inl PanicIllegalFuncName\<close>; \<^verbatim>\<open>Func\<close>,
  which returns a closure in Go, returns that closure inside the result.
  \<^verbatim>\<open>fmt.Sprintf("%v")\<close> on a Go \<^verbatim>\<open>int\<close> is the decimal text \<open>Itoa\<close>.
  The methods \<^verbatim>\<open>When\<close>, \<^verbatim>\<open>Else\<close> and the \<^verbatim>\<open>OrderByItem\<close>
  accessors are defined only on the node kind Go's static types allow as receiver.
\<close>

section \<open>SQL types (grammar.go lines 40--53)\<close>

definition Smallint :: string where "Smallint = ''SMALLINT''"
definition Integer :: string where "Integer = ''INTEGER''"
definition Bigint :: string where "Bigint = ''BIGINT''"
definition Boolean :: string where "Boolean = ''BOOLEAN''"
definition Real :: string where "Real = ''REAL''"
definition DoublePrecision :: string where "DoublePrecision = ''DOUBLE PRECISION''"
definition Text :: string where "Text = ''TEXT''"
definition Timestamp :: string where "Timestamp = ''TIMESTAMP''"

definition Decimal :: "int \<Rightarrow> int \<Rightarrow> string" where
  "Decimal precision scale = ''DECIMAL('' @ Itoa precision @ '','' @ Itoa scale @ '')''"

definition Cast :: "node \<Rightarrow> string \<Rightarrow> node" where
  "Cast expr sqlType = CastExpr expr sqlType"

section \<open>Function calls (grammar.go lines 20 and 92--115)\<close>

text \<open>
  \<^verbatim>\<open>funcNameRegexp\<close> is \<^verbatim>\<open>^[a-zA-Z][a-zA-Z0-9_.]*$\<close>; without the
  multi-line flag Go's \<^verbatim>\<open>$\<close> matches only at the end of the text, so the
  match is a whole-string test: an ASCII letter followed by letters, digits,
  underscores and dots.
\<close>

definition is_letter :: "char \<Rightarrow> bool" where
  "is_letter ch \<longleftrightarrow>
     ((65::nat) \<le> of_char ch \<and> of_char ch \<le> (90::nat)) \<or>
     ((97::nat) \<le> of_char ch \<and> of_char ch \<le> (122::nat))"

definition is_name_char :: "char \<Rightarrow> bool" where
  "is_name_char ch \<longleftrightarrow> is_letter ch \<or> is_digit ch \<or> ch = CHR ''_'' \<or> ch = CHR ''.''"

definition funcNameRegexp :: "string \<Rightarrow> bool" where
  "funcNameRegexp s =
     (case s of [] \<Rightarrow> False | ch # rest \<Rightarrow> is_letter ch \<and> list_all is_name_char rest)"

definition checkFuncName :: "string \<Rightarrow> unit result" where
  "checkFuncName name =
     (if funcNameRegexp name then Inr () else Inl PanicIllegalFuncName)"

definition Func :: "string \<Rightarrow> (node list \<Rightarrow> node) result" where
  "Func name = ebind (checkFuncName name) (\<lambda>_. Inr (\<lambda>args. FuncExpr name args False))"

definition Func0 :: "string \<Rightarrow> node result" where
  "Func0 name = ebind (checkFuncName name) (\<lambda>_. Inr (FuncExpr name [] True))"

section \<open>Joins (grammar.go lines 212--246)\<close>

definition Join :: "node \<Rightarrow> node \<Rightarrow> node \<Rightarrow> node" where
  "Join left right on = JoinClause ''JOIN'' left right on"

definition LeftJoin :: "node \<Rightarrow> node \<Rightarrow> node \<Rightarrow> node" where
  "LeftJoin left right on = JoinClause ''LEFT JOIN'' left right on"

definition RightJoin :: "node \<Rightarrow> node \<Rightarrow> node \<Rightarrow> node" where
  "RightJoin left right on = JoinClause ''RIGHT JOIN'' left right on"

definition FullJoin :: "node \<Rightarrow> node \<Rightarrow> node \<Rightarrow> node" where
  "FullJoin left right on = JoinClause ''FULL JOIN'' left right on"

section \<open>CASE (grammar.go lines 406--422)\<close>

text \<open>A fresh \<^verbatim>\<open>CaseExpr\<close> has a nil \<^verbatim>\<open>else_\<close>, the value \<open>None\<close>.\<close>

definition Case :: "node \<Rightarrow> node \<Rightarrow> node" where
  "Case cond result = CaseExpr [cond] [result] None"

fun When :: "node \<Rightarrow> node \<Rightarrow> node \<Rightarrow> node" where
  "When (CaseExpr conds results el) cond result =
     CaseExpr (conds @ [cond]) (results @ [result]) el"

fun Else :: "node \<Rightarrow> node \<Rightarrow> node" where
  "Else (CaseExpr conds results el) elseExpr = CaseExpr conds results (Some elseExpr)"

section \<open>GROUP BY and ORDER BY (grammar.go lines 536--543 and 575--674)\<close>

definition GroupBy :: "node \<Rightarrow> node list \<Rightarrow> node" where
  "GroupBy first rest = GroupByClause (first # rest)"

definition Desc :: "node \<Rightarrow> node" where
  "Desc expr = OrderbyItem expr True False False"

definition Asc :: "node \<Rightarrow> node" where
  "Asc expr = OrderbyItem expr False False False"

text \<open>
  The \<^verbatim>\<open>OrderByItem\<close> interface methods, implemented only by
  \<^verbatim>\<open>orderbyItem\<close>.
\<close>

fun Expr :: "node \<Rightarrow> node" where
  "Expr (OrderbyItem e desc nullsSet nullsLast) = e"

fun IsDesc :: "node \<Rightarrow> bool" where
  "IsDesc (OrderbyItem e desc nullsSet nullsLast) = desc"

fun HasNullsSet :: "node \<Rightarrow> bool" where
  "HasNullsSet (OrderbyItem e desc nullsSet nullsLast) = nullsSet"

fun IsNullsLast :: "node \<Rightarrow> bool" where
  "IsNullsLast (OrderbyItem e desc nullsSet nullsLast) = nullsLast"

definition NullsLast :: "node \<Rightarrow> node" where
  "NullsLast item = OrderbyItem (Expr item) (IsDesc item) True True"

definition NullsFirst :: "node \<Rightarrow> node" where
  "NullsFirst item = OrderbyItem (Expr item) (IsDesc item) True False"

definition OrderBy :: "node \<Rightarrow> node list \<Rightarrow> node" where
  "OrderBy first rest = OrderByClause (first # rest)"

lemmas statement_builders = Cast_def Join_def LeftJoin_def RightJoin_def FullJoin_def
  Case_def GroupBy_def Desc_def Asc_def NullsLast_def NullsFirst_def OrderBy_def

lemmas func_name_simps = Func_def Func0_def checkFuncName_def funcNameRegexp_def
  is_name_char_def is_letter_def is_digit_def

end
