(* ===== verification/Typing.thy ===== *)
theory Typing
  imports Builders Printable
begin

text \<open>
  Go's static types of the node fields, which the untyped \<open>node\<close> datatype
  does not carry: a \<^verbatim>\<open>FromClause\<close> holds a \<^verbatim>\<open>*FromClauseItem\<close>, a join's
  sides are \<^verbatim>\<open>*FromClauseItem\<close>s, the alternatives of a
  \<^verbatim>\<open>FromClauseItem\<close> are a \<^verbatim>\<open>*LabeledTable\<close>, a \<^verbatim>\<open>*LabeledSelectStmt\<close>
  and a \<^verbatim>\<open>*JoinClause\<close>, a \<^verbatim>\<open>LabeledSelectStmt\<close> holds a
  \<^verbatim>\<open>*SelectStmt\<close>, the columns of a \<^verbatim>\<open>SelectStmt\<close> are
  \<^verbatim>\<open>*LabeledColumn\<close>s and each clause field has its clause type, an
  \<^verbatim>\<open>OrderByClause\<close> holds \<^verbatim>\<open>OrderByItem\<close>s; every \<^verbatim>\<open>Expr\<close> field may
  hold any node. \<open>kind_of\<close> is the dynamic type a Go type assertion tests.
  The lemmas show that the rewrite keeps these types, so none of the type
  assertions in the \<^verbatim>\<open>Transform\<close> methods can panic, and state what the
  builders of \<^verbatim>\<open>Builders\<close> produce and how they print.
\<close>

datatype kind =
    KSQLType | KCastExpr | KFuncExpr | KColumn | KLabeledColumn | KTable | KLabeledTable
  | KFromClause | KJoinClause | KLabeledSelectStmt | KFromClauseItem | KTuple | KCaseExpr
  | KPlaceholder | KWhereClause | KGroupByClause | KHavingClause | KOrderbyItem
  | KOrderByClause | KLimitClause | KOffsetClause | KSelectStmt
  | KUnaryOperator | KBinaryOperator | KTernaryOperator

fun kind_of :: "node \<Rightarrow> kind" where
  "kind_of (SQLType _) = KSQLType"
| "kind_of (CastExpr _ _) = KCastExpr"
| "kind_of (FuncExpr _ _ _) = KFuncExpr"
| "kind_of (Column _ _) = KColumn"
| "kind_of (LabeledColumn _ _) = KLabeledColumn"
| "kind_of (Table _ _) = KTable"
| "kind_of (LabeledTable _ _ _) = KLabeledTable"
| "kind_of (FromClause _) = KFromClause"
| "kind_of (JoinClause _ _ _ _) = KJoinClause"
| "kind_of (LabeledSelectStmt _ _) = KLabeledSelectStmt"
| "kind_of (FromClauseItem _ _ _) = KFromClauseItem"
| "kind_of (Tuple _) = KTuple"
| "kind_of (CaseExpr _ _ _) = KCaseExpr"
| "kind_of (Placeholder _) = KPlaceholder"
| "kind_of (WhereClause _) = KWhereClause"
| "kind_of (GroupByClause _) = KGroupByClause"
| "kind_of (HavingClause _) = KHavingClause"
| "kind_of (OrderbyItem _ _ _ _) = KOrderbyItem"
| "kind_of (OrderByClause _) = KOrderByClause"
| "kind_of (LimitClause _) = KLimitClause"
| "kind_of (OffsetClause _) = KOffsetClause"
| "kind_of (SelectStmt _ _ _ _ _ _ _ _) = KSelectStmt"
| "kind_of (UnaryOperator _ _ _ _ _ _ _) = KUnaryOperator"
| "kind_of (BinaryOperator _ _ _ _ _ _ _ _ _) = KBinaryOperator"
| "kind_of (TernaryOperator _ _ _ _ _ _ _ _ _ _ _) = KTernaryOperator"

fun well_typed :: "node \<Rightarrow> bool" where
  "well_typed (SQLType s) = True"
| "well_typed (CastExpr e t) = well_typed e"
| "well_typed (FuncExpr name args omit) = list_all well_typed args"
| "well_typed (Column tbl n) = True"
| "well_typed (LabeledColumn e l) = well_typed e"
| "well_typed (Table s n) = True"
| "well_typed (LabeledTable s n l) = True"
| "well_typed (FromClause i) = (kind_of i = KFromClauseItem \<and> well_typed i)"
| "well_typed (JoinClause jt l r on) =
     (kind_of l = KFromClauseItem \<and> well_typed l \<and>
      kind_of r = KFromClauseItem \<and> well_typed r \<and> well_typed on)"
| "well_typed (LabeledSelectStmt s l) = (kind_of s = KSelectStmt \<and> well_typed s)"
| "well_typed (FromClauseItem tr sq jc) =
     (pred_option (\<lambda>t. kind_of t = KLabeledTable \<and> well_typed t) tr \<and>
      pred_option (\<lambda>q. kind_of q = KLabeledSelectStmt \<and> well_typed q) sq \<and>
      pred_option (\<lambda>j. kind_of j = KJoinClause \<and> well_typed j) jc)"
| "well_typed (Tuple es) = list_all well_typed es"
| "well_typed (CaseExpr cs rs el) =
     (list_all well_typed cs \<and> list_all well_typed rs \<and> pred_option well_typed el)"
| "well_typed (Placeholder p) = True"
| "well_typed (WhereClause e) = well_typed e"
| "well_typed (GroupByClause es) = list_all well_typed es"
| "well_typed (HavingClause e) = well_typed e"
| "well_typed (OrderbyItem e d ns nl) = well_typed e"
| "well_typed (OrderByClause items) =
     list_all (\<lambda>i. kind_of i = KOrderbyItem \<and> well_typed i) items"
| "well_typed (LimitClause e) = well_typed e"
| "well_typed (OffsetClause e) = well_typed e"
| "well_typed (SelectStmt cols fr wh gb hv ob li off) =
     (list_all (\<lambda>x. kind_of x = KLabeledColumn \<and> well_typed x) cols \<and>
      pred_option (\<lambda>x. kind_of x = KFromClause \<and> well_typed x) fr \<and>
      pred_option (\<lambda>x. kind_of x = KWhereClause \<and> well_typed x) wh \<and>
      pred_option (\<lambda>x. kind_of x = KGroupByClause \<and> well_typed x) gb \<and>
      pred_option (\<lambda>x. kind_of x = KHavingClause \<and> well_typed x) hv \<and>
      pred_option (\<lambda>x. kind_of x = KOrderByClause \<and> well_typed x) ob \<and>
      pred_option (\<lambda>x. kind_of x = KLimitClause \<and> well_typed x) li \<and>
      pred_option (\<lambda>x. kind_of x = KOffsetClause \<and> well_typed x) off)"
| "well_typed (UnaryOperator t s nt ns e p a) = well_typed e"
| "well_typed (BinaryOperator t s nt ns l r p a ss) = (well_typed l \<and> well_typed r)"
| "well_typed (TernaryOperator t s1 s2 nt ns1 ns2 e1 e2 e3 p a) =
     (well_typed e1 \<and> well_typed e2 \<and> well_typed e3)"

section \<open>The rewrite keeps the static types\<close>

lemma well_typed_negate: "well_typed e \<Longrightarrow> well_typed (negate e)"
  by (cases e) auto

section \<open>What the builders produce\<close>

lemma stringify_Inr_iff: "(\<exists>c'. stringify n c = Inr c') \<longleftrightarrow> printable (dialect_of c) n"
  using stringify_ok [of n c] by (auto simp: isOK_def split: sum.splits)

lemma Itoa_chars: "list_all (\<lambda>ch. is_digit ch \<or> ch = CHR ''-'') (Itoa i)"
  using string_of_nat_digits by (auto simp: Itoa_def list_all_iff)

lemma comma_notin_Itoa: "CHR '','' \<notin> set (Itoa i)"
  using Itoa_chars [of i] by (auto simp: list_all_iff is_digit_def)

section \<open>Properties\<close>

text \<open>
  C11: the rewrite keeps Go's static types: a well-typed tree rewrites to a well-typed
  tree, and every node that is not an operator keeps its dynamic type, so each type
  assertion \<^verbatim>\<open>.(*FromClause)\<close>, \<^verbatim>\<open>.(*LabeledColumn)\<close>,
  \<^verbatim>\<open>.(OrderByItem)\<close>, ... in the \<^verbatim>\<open>Transform\<close> methods succeeds.
\<close>

theorem transform_well_typed:
  assumes "well_typed n"
  shows "well_typed (transform n) \<and>
    (kind_of n \<notin> {KUnaryOperator, KBinaryOperator, KTernaryOperator} \<longrightarrow>
     kind_of (transform n) = kind_of n)"
proof -
  have kind: "kind_of (transform m) = kind_of m"
    if "kind_of m \<notin> {KUnaryOperator, KBinaryOperator, KTernaryOperator}" for m
    using that by (cases m) (auto split: option.splits)
  have "well_typed (transform n)" if "well_typed n"
    using that
    by (induction n rule: transform.induct)
       (auto simp: well_typed_negate list_all_iff kind pred_option_def split: option.splits)
  then show ?thesis using assms by (simp add: kind)
qed

theorem transform_well_typed_witness:
  "well_typed (SelectStmt [LabeledColumn (Column [] ''a'') ''x'']
      (Some (FromClause (FromClauseItem (Some (LabeledTable [] ''t'' ''t'')) None None)))
      (Some (WhereClause (Not_op (IsNull (Column [] ''a''))))) None None
      (Some (OrderBy (Desc (Column [] ''a'')) [])) None None) \<and> well_typed (transform (SelectStmt [LabeledColumn (Column [] ''a'') ''x'']
      (Some (FromClause (FromClauseItem (Some (LabeledTable [] ''t'' ''t'')) None None)))
      (Some (WhereClause (Not_op (IsNull (Column [] ''a''))))) None None
      (Some (OrderBy (Desc (Column [] ''a'')) [])) None None)) \<and> kind_of (transform (SelectStmt [LabeledColumn (Column [] ''a'') ''x'']
      (Some (FromClause (FromClauseItem (Some (LabeledTable [] ''t'' ''t'')) None None)))
      (Some (WhereClause (Not_op (IsNull (Column [] ''a''))))) None None
      (Some (OrderBy (Desc (Column [] ''a'')) [])) None None)) = KSelectStmt"
  using transform_well_typed [of "SelectStmt [LabeledColumn (Column [] ''a'') ''x'']
      (Some (FromClause (FromClauseItem (Some (LabeledTable [] ''t'' ''t'')) None None)))
      (Some (WhereClause (Not_op (IsNull (Column [] ''a''))))) None None
      (Some (OrderBy (Desc (Column [] ''a'')) [])) None None"]
  by (simp add: statement_builders builders)

text \<open>
  C13: a CASE assembled with \<^verbatim>\<open>Case\<close> and a sequence of \<^verbatim>\<open>When\<close> calls,
  with or without \<^verbatim>\<open>Else\<close>, prints exactly when all its parts print: the
  builders keep conditions and results of equal length, so the index panic of
  \<^verbatim>\<open>CaseExpr.Stringify\<close> is unreachable from them.
\<close>

theorem Case_builder_prints:
  "((\<exists>c'. stringify (foldl (\<lambda>ce (cond, res). When ce cond res) (Case c0 r0) ws) c = Inr c')
      \<longleftrightarrow> list_all (printable (dialect_of c)) (c0 # r0 # map fst ws @ map snd ws)) \<and>
   ((\<exists>c'. stringify (Else (foldl (\<lambda>ce (cond, res). When ce cond res) (Case c0 r0) ws) e) c
            = Inr c')
      \<longleftrightarrow> list_all (printable (dialect_of c)) (e # c0 # r0 # map fst ws @ map snd ws))"
proof -
  have built: "foldl (\<lambda>ce (cond, res). When ce cond res) (CaseExpr cs rs el) ws' =
      CaseExpr (cs @ map fst ws') (rs @ map snd ws') el" for cs rs el ws'
    by (induction ws' arbitrary: cs rs) auto
  show ?thesis unfolding Case_def built stringify_Inr_iff by auto
qed

theorem Case_builder_prints_witness:
  "(\<exists>c'. stringify (foldl (\<lambda>ce (cond, res). When ce cond res)
      (Case (Column [] ''a'') (Placeholder ''p'')) [(Column [] ''b'', Placeholder ''q'')]) qmark
      = Inr c') \<and>
   list_all (printable (dialect_of qmark))
     [Column [] ''a'', Placeholder ''p'', Column [] ''b'', Placeholder ''q'']"
  using Case_builder_prints [of "Column [] ''a''" "Placeholder ''p''"
      "[(Column [] ''b'', Placeholder ''q'')]" qmark]
  by simp

text \<open>
  C23: how the ORDER BY builders print. \<^verbatim>\<open>NullsFirst\<close> on a descending
  item and \<^verbatim>\<open>NullsLast\<close> on an ascending one print nothing for the NULLS
  order (it is PostgreSQL's default for that direction); the other two combinations
  print \<^verbatim>\<open>NULLS LAST\<close> and \<^verbatim>\<open>NULLS FIRST\<close>.
\<close>

theorem orderby_nulls_printing:
  "stringify (NullsFirst (Desc e)) c = stringify (Desc e) c \<and>
   stringify (NullsLast (Asc e)) c = stringify (Asc e) c \<and>
   stringify (NullsLast (Desc e)) c =
     ebind (stringify (Desc e) c) (\<lambda>c. Inr (WriteVerbatim '' NULLS LAST'' c)) \<and>
   stringify (NullsFirst (Asc e)) c =
     ebind (stringify (Asc e) c) (\<lambda>c. Inr (WriteVerbatim '' NULLS FIRST'' c))"
  by (cases "stringify e c") (simp_all add: Desc_def Asc_def NullsLast_def NullsFirst_def)

theorem orderby_nulls_printing_witness:
  "stringify (NullsFirst (Desc (Column [] ''a''))) qmark = stringify (Desc (Column [] ''a'')) qmark \<and>
   stringify (Desc (Column [] ''a'')) qmark = Inr (qmark\<lparr>buffer := ''a DESC''\<rparr>)"
  using orderby_nulls_printing [of "Column [] ''a''" qmark]
  by (simp add: Desc_def NullsFirst_def eval_simps)

text \<open>
  C14: a function name that \<^verbatim>\<open>Func\<close> accepts starts with a letter and holds
  no blank, parenthesis, comma, semicolon, quote, comment or operator character, so
  the name written verbatim by \<^verbatim>\<open>FuncExpr.Stringify\<close> cannot end the call
  or inject SQL; the closure returned builds the call with parentheses.
\<close>

theorem Func_name_safe:
  "Func name = Inr f \<Longrightarrow>
   f = (\<lambda>args. FuncExpr name args False) \<and> name \<noteq> [] \<and> is_letter (hd name) \<and>
   set name \<inter> set '' (),;-*/+=<>|'' = {} \<and> CHR 0x27 \<notin> set name \<and> CHR 0x22 \<notin> set name"
  by (cases name)
     (auto simp: Func_def checkFuncName_def funcNameRegexp_def is_name_char_def is_letter_def
        is_digit_def list_all_iff split: if_splits)

theorem Func_name_safe_witness:
  "Func ''count'' = Inr (\<lambda>args. FuncExpr ''count'' args False) \<and> is_letter (hd ''count'') \<and>
   Func ''count(*)'' = Inl PanicIllegalFuncName \<and> Func0 ''1now'' = Inl PanicIllegalFuncName"
  using Func_name_safe [of "''count''" "\<lambda>args. FuncExpr ''count'' args False"]
  by (simp add: func_name_simps)

text \<open>
  C24: the text of \<^verbatim>\<open>Decimal(p, s)\<close> carries both numbers back: it is
  \<^verbatim>\<open>DECIMAL(\<close> a \<^verbatim>\<open>,\<close> b \<^verbatim>\<open>)\<close> where a holds no comma, so the split
  is unique, and a and b parse back to p and s.
\<close>

theorem Decimal_roundtrip:
  "\<exists>a b. Decimal p s = ''DECIMAL('' @ a @ '','' @ b @ '')'' \<and>
     CHR '','' \<notin> set a \<and> Atoi a = Some p \<and> Atoi b = Some s"
  by (rule exI [of _ "Itoa p"], rule exI [of _ "Itoa s"])
     (simp add: Decimal_def comma_notin_Itoa Atoi_Itoa)

end
