(* ===== verification/Bounds.thy ===== *)
theory Bounds
  imports Printable
begin

text \<open>
  Bounds on the binder: the names a print pass binds (\<open>names_of\<close>) are those the
  context held before and the placeholder names of the tree printed. \<open>within S c r\<close>
  says a successful result \<open>r\<close> from context \<open>c\<close> binds no name outside
  \<open>names_of c \<union> S\<close>; its introduction rules follow the combinators of the print
  pass, and the induction over the mutually recursive print pass mirrors
  \<open>stringify_err_in\<close>. With the well-formed binder of \<open>Frame\<close> this bounds the
  number of bindings and every position.
\<close>

definition names_of :: "compiler \<Rightarrow> string set" where
  "names_of c = fst ` set (bindings c)"

definition within :: "string set \<Rightarrow> compiler \<Rightarrow> compiler result \<Rightarrow> bool" where
  "within S c r \<longleftrightarrow> (\<forall>c'. r = Inr c' \<longrightarrow> names_of c' \<subseteq> names_of c \<union> S)"

lemma within_simps [simp]:
  "within S c (Inl e)"
  "within S c (Inr c') \<longleftrightarrow> names_of c' \<subseteq> names_of c \<union> S"
  "within S (WriteVerbatim s c) r \<longleftrightarrow> within S c r"
  "within S (WriteIdentifier s c) r \<longleftrightarrow> within S c r"
  by (auto simp: within_def names_of_def WriteIdentifier_def)

lemma names_of_write [simp]:
  "names_of (WriteVerbatim s c) = names_of c"
  "names_of (WriteIdentifier s c) = names_of c"
  by (simp_all add: names_of_def WriteIdentifier_def)

lemma within_seq:
  "within S c m \<Longrightarrow> (\<And>c1. m = Inr c1 \<Longrightarrow> within S c1 (g c1)) \<Longrightarrow> within S c (ebind m g)"
  by (cases m) (fastforce simp: within_def)+

lemma within_resolve:
  "(\<And>p. resolveOperatorPrecedence e d = Inr p \<Longrightarrow> within S c (g p)) \<Longrightarrow>
   within S c (ebind (resolveOperatorPrecedence e d) g)"
  "(\<And>a. resolveOperatorAssociativity e d = Inr a \<Longrightarrow> within S c (g a)) \<Longrightarrow>
   within S c (ebind (resolveOperatorAssociativity e d) g)"
   apply (cases "resolveOperatorPrecedence e d"; simp)
  by (cases "resolveOperatorAssociativity e d"; simp)

lemma within_combinators:
  "(\<And>c c0. names_of c = names_of c0 \<Longrightarrow> within S c0 (f c)) \<Longrightarrow>
   names_of c = names_of c0 \<Longrightarrow> within S c0 (stringifyParen f c)"
  "(\<And>c c0. names_of c = names_of c0 \<Longrightarrow> within S c0 (f c)) \<Longrightarrow>
   names_of c = names_of c0 \<Longrightarrow> within S c0 (print_child need e f c)"
  "(\<And>c c0. names_of c = names_of c0 \<Longrightarrow> within S c0 (f c)) \<Longrightarrow>
   names_of c = names_of c0 \<Longrightarrow> within S c0 (unary_write a s f c)"
  by (auto simp: stringifyParen_def print_child_def unary_write_def Let_def
      intro!: within_seq within_resolve)

lemma within_placeholder:
  "p \<in> S \<Longrightarrow> names_of c = names_of c0 \<Longrightarrow>
   within S c0 (case insertPlaceholder p c of (pos, c) \<Rightarrow> Inr (WriteVerbatim (makePlaceholder c p pos) c))"
  by (auto simp: names_of_def insertPlaceholder_def Let_def split: option.splits)

lemma set_case_option_placeholders [simp]:
  "set (case_option [] placeholders on) = (\<Union>x\<in>set_option on. set (placeholders x))"
  by (cases on) auto

lemma stringify_within:
  "\<forall>S c0. set (placeholders n) \<subseteq> S \<longrightarrow> names_of c = names_of c0 \<longrightarrow> within S c0 (stringify n c)"
  "\<forall>S c0. (\<Union>x\<in>set ns. set (placeholders x)) \<subseteq> S \<longrightarrow> names_of c = names_of c0 \<longrightarrow>
     within S c0 (stringifyCommaSeparated ns c)"
  "\<forall>S c0. (\<Union>x\<in>set ns. set (placeholders x)) \<subseteq> S \<longrightarrow> names_of c = names_of c0 \<longrightarrow>
     within S c0 (stringify_rest ns c)"
  "\<forall>S c0. (\<Union>x\<in>set cs \<union> set rs. set (placeholders x)) \<subseteq> S \<longrightarrow>
     names_of c = names_of c0 \<longrightarrow> within S c0 (stringify_when cs rs c)"
  "\<forall>S c0. (\<Union>x\<in>set_option on. set (placeholders x)) \<subseteq> S \<longrightarrow>
     names_of c = names_of c0 \<longrightarrow> within S c0 (stringify_clause on c)"
proof (induction n c and ns c and ns c and cs rs c and on c
    rule: stringify_stringifyCommaSeparated_stringify_rest_stringify_when_stringify_clause.induct)
  case (22 cols fr wh gb hv ob li off c)
  show ?case
  proof (cases cols)
    case (Cons col rest)
    note ih = "22.IH" [OF refl Cons]
    show ?thesis
      by (simp add: Cons Let_def) (auto intro!: within_seq simp: ih)
  qed simp
next
  case (23 t s nt ns e p a c)
  then show ?case
    by (auto simp: unary_stringify_def intro!: within_seq within_resolve within_combinators)
next
  case (24 t s nt ns l r p a ss c)
  then show ?case
    by (auto simp: binary_stringify_def intro!: within_seq within_resolve within_combinators)
next
  case (25 t s1 s2 nt ns1 ns2 e1 e2 e3 p a c)
  then show ?case
    by (auto simp: ternary_stringify_def intro!: within_seq within_resolve within_combinators)
qed (auto simp: Let_def intro!: within_seq within_placeholder split: option.splits list.splits)

lemma binder_wf_length:
  "binder_wf c \<Longrightarrow> length (bindings c) = card (names_of c)"
proof -
  assume "binder_wf c"
  then have "distinct (map fst (bindings c))" by (simp add: binder_wf_def)
  then have "card (set (map fst (bindings c))) = length (map fst (bindings c))"
    by (rule distinct_card)
  then show ?thesis by (simp add: names_of_def)
qed

lemma binder_wf_positions:
  "binder_wf c \<Longrightarrow> (name, pos) \<in> set (bindings c) \<Longrightarrow> 1 \<le> pos \<and> pos \<le> length (bindings c)"
proof -
  assume wf: "binder_wf c" and mem: "(name, pos) \<in> set (bindings c)"
  from mem have "pos \<in> set (map snd (bindings c))" by force
  with wf have "pos \<in> set [1..<Suc (length (bindings c))]" by (simp only: binder_wf_def)
  then show ?thesis by auto
qed

section \<open>Properties\<close>

text \<open>
  C16: bounds on the parameter positions of a print pass. Started from a well-formed
  binder, a pass binds only names of placeholders in the tree, binds at most as many
  new positions as the tree has distinct placeholder names, and every position it
  holds lies between 1 and the old number of bindings plus that count.
\<close>

theorem stringify_binding_bound:
  assumes run: "stringify n c = Inr c'" and wf: "binder_wf c"
  shows "names_of c' \<subseteq> names_of c \<union> set (placeholders n) \<and>
    length (bindings c') \<le> length (bindings c) + card (set (placeholders n)) \<and>
    (\<forall>(name, pos) \<in> set (bindings c').
       1 \<le> pos \<and> pos \<le> length (bindings c) + card (set (placeholders n)))"
proof -
  have names: "names_of c' \<subseteq> names_of c \<union> set (placeholders n)"
    using stringify_within(1) [of n c] run by (simp add: within_def)
  have wf': "binder_wf c'" using stringify_grows [OF run] wf by (simp add: grows_def)
  have "card (names_of c') \<le> card (names_of c \<union> set (placeholders n))"
    using names by (rule card_mono [rotated]) (simp add: names_of_def)
  also have "\<dots> \<le> card (names_of c) + card (set (placeholders n))" by (rule card_Un_le)
  finally have len: "length (bindings c') \<le> length (bindings c) + card (set (placeholders n))"
    using binder_wf_length [OF wf] binder_wf_length [OF wf'] by simp
  have "1 \<le> pos \<and> pos \<le> length (bindings c) + card (set (placeholders n))"
    if "(name, pos) \<in> set (bindings c')" for name pos
    using binder_wf_positions [OF wf' that] len by simp
  then show ?thesis using names len by blast
qed


theorem stringify_binding_bound_witness:
  "stringify (Eq (Placeholder ''x'') (Placeholder ''x'')) qmark =
     Inr (qmark\<lparr>buffer := ''? = ?'', bindings := [(''x'', 1)]\<rparr>) \<and> binder_wf qmark \<and>
   length [(''x'', 1::nat)] \<le> 0 + card (set (placeholders (Eq (Placeholder ''x'') (Placeholder ''x''))))"
  using stringify_binding_bound [of "Eq (Placeholder ''x'') (Placeholder ''x'')" qmark
      "qmark\<lparr>buffer := ''? = ?'', bindings := [(''x'', 1)]\<rparr>"]
  by (simp add: eval_simps binder_wf_def)

end
