(* ===== verification/Compose.thy ===== *)
theory Compose
  imports Typing Bounds
begin

text \<open>
  Composition of the rewrite and the print pass. A dialect is complete when its
  tables give every operator type of operator.go (1 to 28) a precedence and an
  associativity, and no unary type is NonAssociative; \<^verbatim>\<open>qmark\<close> is one.
  A tree is \<open>resolvable\<close> when its operators use those types as the builders do
  (unary types for unary operators, a negated type that is unset or again such a type)
  and no unary operator overrides its associativity to NonAssociative. Then the
  operator checks of \<open>printable\<close> all pass, and the rewrite, which swaps operator
  types for their negations, keeps a printable tree printable. The theorems of
  the root theory show what goes wrong in a dialect that is not complete.
\<close>

definition unary_types :: "optype list" where
  "unary_types = [OpIsNull, OpIsNotNull, OpIsTrue, OpIsNotTrue, OpIsFalse, OpIsNotFalse, OpNot]"

definition complete_dialect :: "compiler \<Rightarrow> bool" where
  "complete_dialect d \<longleftrightarrow>
     list_all (\<lambda>t. precedence d t \<noteq> 0 \<and> associativity d t \<noteq> 0) [1..<29] \<and>
     list_all (\<lambda>t. associativity d t \<noteq> NonAssociative) unary_types"

definition op_type :: "optype \<Rightarrow> bool" where
  "op_type t \<longleftrightarrow> 0 < t \<and> t < 29"

fun resolvable :: "node \<Rightarrow> bool" where
  "resolvable (SQLType s) = True"
| "resolvable (CastExpr e t) = resolvable e"
| "resolvable (FuncExpr name args omit) = list_all resolvable args"
| "resolvable (Column tbl n) = True"
| "resolvable (LabeledColumn e l) = resolvable e"
| "resolvable (Table s n) = True"
| "resolvable (LabeledTable s n l) = True"
| "resolvable (FromClause i) = resolvable i"
| "resolvable (JoinClause jt l r on) = (resolvable l \<and> resolvable r \<and> resolvable on)"
| "resolvable (LabeledSelectStmt s l) = resolvable s"
| "resolvable (FromClauseItem tr sq jc) =
     (pred_option resolvable tr \<and> pred_option resolvable sq \<and> pred_option resolvable jc)"
| "resolvable (Tuple es) = list_all resolvable es"
| "resolvable (CaseExpr cs rs el) =
     (list_all resolvable cs \<and> list_all resolvable rs \<and> pred_option resolvable el)"
| "resolvable (Placeholder p) = True"
| "resolvable (WhereClause e) = resolvable e"
| "resolvable (GroupByClause es) = list_all resolvable es"
| "resolvable (HavingClause e) = resolvable e"
| "resolvable (OrderbyItem e d ns nl) = resolvable e"
| "resolvable (OrderByClause items) = list_all resolvable items"
| "resolvable (LimitClause e) = resolvable e"
| "resolvable (OffsetClause e) = resolvable e"
| "resolvable (SelectStmt cols fr wh gb hv ob li off) =
     (list_all resolvable cols \<and> pred_option resolvable fr \<and> pred_option resolvable wh \<and>
      pred_option resolvable gb \<and> pred_option resolvable hv \<and> pred_option resolvable ob \<and>
      pred_option resolvable li \<and> pred_option resolvable off)"
| "resolvable (UnaryOperator t s nt ns e p a) =
     (t \<in> set unary_types \<and> (nt = 0 \<or> nt \<in> set unary_types) \<and> a \<noteq> NonAssociative \<and>
      resolvable e)"
| "resolvable (BinaryOperator t s nt ns l r p a ss) =
     (op_type t \<and> (nt = 0 \<or> op_type nt) \<and> resolvable l \<and> resolvable r)"
| "resolvable (TernaryOperator t s1 s2 nt ns1 ns2 e1 e2 e3 p a) =
     (op_type t \<and> (nt = 0 \<or> op_type nt) \<and> resolvable e1 \<and> resolvable e2 \<and> resolvable e3)"

lemma unary_op_type: "t \<in> set unary_types \<Longrightarrow> op_type t"
  by (auto simp: unary_types_def op_type_def)

lemma complete_dialectD:
  assumes "complete_dialect d"
  shows "op_type t \<Longrightarrow> precedence d t \<noteq> 0"
    and "op_type t \<Longrightarrow> associativity d t \<noteq> 0"
    and "t \<in> set unary_types \<Longrightarrow> associativity d t \<noteq> NonAssociative"
  using assms by (auto simp: complete_dialect_def op_type_def list_all_iff)

lemma resolve_complete:
  assumes "complete_dialect d" and "is_operator e" and "resolvable e"
  shows "isOK (resolveOperatorPrecedence e d)" and "isOK (resolveOperatorAssociativity e d)"
  using assms
  by (cases e; auto simp: resolveOperatorPrecedence_def resolveOperatorAssociativity_def
      Let_def isOK_def dest: unary_op_type complete_dialectD)+

lemma operand_ok_complete:
  "complete_dialect d \<Longrightarrow> resolvable e \<Longrightarrow> operand_ok d e"
  by (auto simp: operand_ok_def dest: resolve_complete)

lemma printable_ops_complete:
  assumes "complete_dialect d"
  shows "resolvable (UnaryOperator t s nt ns e p a) \<Longrightarrow>
      printable d (UnaryOperator t s nt ns e p a) = printable d e"
    and "resolvable (BinaryOperator t s nt ns l r p a ss) \<Longrightarrow>
      printable d (BinaryOperator t s nt ns l r p a ss) = (printable d l \<and> printable d r)"
    and "resolvable (TernaryOperator t s1 s2 nt ns1 ns2 e1 e2 e3 p a) \<Longrightarrow>
      printable d (TernaryOperator t s1 s2 nt ns1 ns2 e1 e2 e3 p a) =
      (printable d e1 \<and> printable d e2 \<and> printable d e3)"
  using assms resolve_complete [OF assms] operand_ok_complete [OF assms]
    complete_dialectD [OF assms] unary_op_type
  by (auto simp: resolveOperatorAssociativity_def Let_def split: if_splits)

lemma negate_complete:
  assumes d: "complete_dialect d" and "is_operator e" and "negatable e" and "resolvable e"
    and "printable d e"
  shows "resolvable (negate e) \<and> printable d (negate e)"
  using assms
  by (cases e) (auto simp: printable_ops_complete [OF d]
      simp del: printable.simps(23) printable.simps(24) printable.simps(25))

lemma negate_resolvable:
  "is_operator e \<Longrightarrow> negatable e \<Longrightarrow> resolvable e \<Longrightarrow> resolvable (negate e)"
  by (cases e) auto

lemma transform_resolvable: "resolvable n \<Longrightarrow> resolvable (transform n)"
  by (induction n rule: transform.induct)
     (auto simp: negate_resolvable list_all_iff pred_option_def split: option.splits)

lemma transform_complete:
  assumes d: "complete_dialect d"
  shows "resolvable n \<Longrightarrow> printable d n \<Longrightarrow> printable d (transform n)"
proof (induction n rule: transform.induct)
  case (23 t s nt ns e p a)
  then show ?case
    using negate_complete [OF d, of e] transform_resolvable [of e]
    by (auto simp: printable_ops_complete [OF d] transform_resolvable
        simp del: printable.simps(23) negate.simps)
next
  case (24 t s nt ns l r p a ss)
  then show ?case
    by (auto simp: printable_ops_complete [OF d] transform_resolvable
        simp del: printable.simps(23) printable.simps(24) printable.simps(25))
next
  case (25 t s1 s2 nt ns1 ns2 e1 e2 e3 p a)
  then show ?case
    by (auto simp: printable_ops_complete [OF d] transform_resolvable
        simp del: printable.simps(23) printable.simps(24) printable.simps(25))
next
  case (13 cs rs el)
  have "printable d (transform x)" if "x \<in> set (take (length cs) rs)" for x
  proof -
    from that have "x \<in> set rs" by (rule in_set_takeD)
    moreover from that 13(4,5) have "printable d x" "resolvable x"
      by (auto simp: list_all_iff dest: in_set_takeD)
    ultimately show ?thesis using 13(2) by blast
  qed
  with 13 show ?case by (auto simp: list_all_iff pred_option_def take_map)
qed (auto simp: list_all_iff pred_option_def split: option.splits)

lemma qmark_complete: "complete_dialect (dialect_of qmark)"
  by (simp add: complete_dialect_def unary_types_def qmark_def dialect_of_def
      example_precedence_def example_associativity_def upt_rec)

section \<open>Properties\<close>

text \<open>
  C15: in a complete dialect, rewriting never breaks a query that prints: if a tree
  whose operators use the builders' types prints, its rewrite prints as well.
\<close>

theorem rewrite_keeps_printing:
  assumes "complete_dialect (dialect_of c)" and "resolvable n"
    and "\<exists>c'. stringify n c = Inr c'"
  shows "\<exists>c'. stringify (transform n) c = Inr c'"
  using assms transform_complete [of "dialect_of c" n] by (simp add: stringify_Inr_iff)

theorem rewrite_keeps_printing_witness:
  "complete_dialect (dialect_of qmark) \<and>
   resolvable (Not_op (Eq (Column [] ''a'') (Column [] ''b''))) \<and>
   stringify (Not_op (Eq (Column [] ''a'') (Column [] ''b''))) qmark =
     Inr (qmark\<lparr>buffer := ''NOT a = b''\<rparr>) \<and>
   (\<exists>c'. stringify (transform (Not_op (Eq (Column [] ''a'') (Column [] ''b'')))) qmark = Inr c')"
  using rewrite_keeps_printing [of qmark "Not_op (Eq (Column [] ''a'') (Column [] ''b''))"]
    qmark_complete
  by (simp add: eval_simps unary_types_def op_type_def)

end
