(* ===== verification/Findings.thy ===== *)
theory Findings
  imports Compose
begin

text \<open>
  Behaviour of the code that the spec does not state or states otherwise, each proved
  in general rather than on one input: a resolved associativity outside the three
  named values, the \<^verbatim>\<open>SuppressSpace\<close> flag under negation, operators of one
  precedence with opposite associativities, the identity \<^verbatim>\<open>LabeledColumn.Transform\<close>,
  and dialects that lack a negated operator. The shared step is that the resolvers
  read only the operator's own fields and the dialect, never its operands.
\<close>

section \<open>Helpers\<close>

lemma labeled_columns_transform:
  "list_all (\<lambda>x. kind_of x = KLabeledColumn \<and> well_typed x) cols \<Longrightarrow> map transform cols = cols"
  by (induction cols) (auto elim: kind_of.elims)

lemma size_binary_neq:
  "BinaryOperator t s nt ns l r p a ss \<noteq> l" "BinaryOperator t s nt ns l r p a ss \<noteq> r"
  by (auto dest: arg_cong [where f = size])

section \<open>Properties\<close>

text \<open>
  C27: the resolver accepts any non-zero associativity, not only Left, Right and
  NonAssociative (the spec says other values fall back to the dialect table). A unary
  operator resolved to such a value passes the NonAssociative check and then prints
  its operand alone: its symbol is never written, on either side.
\<close>

theorem unary_unnamed_associativity_prints_operand:
  assumes assoc: "resolveOperatorAssociativity (UnaryOperator t s nt ns e p a) c = Inr x"
    and other: "x \<notin> {NonAssociative, LeftAssociative, RightAssociative}"
    and leaf: "\<not> is_operator e"
  shows "stringify (UnaryOperator t s nt ns e p a) c =
    ebind (resolveOperatorPrecedence (UnaryOperator t s nt ns e p a) c) (\<lambda>_. stringify e c)"
  using assms by (simp add: unary_stringify_def unary_write_def ebind_def split: sum.split)

theorem unary_unnamed_associativity_prints_operand_witness:
  "resolveOperatorAssociativity (UnaryOperator OpNot ''NOT'' 0 [] (Column [] ''x'') 0 7) qmark = Inr 7 \<and>
   stringify (UnaryOperator OpNot ''NOT'' 0 [] (Column [] ''x'') 0 7) qmark =
     Inr (qmark\<lparr>buffer := ''x''\<rparr>)"
  using unary_unnamed_associativity_prints_operand
      [of OpNot "''NOT''" 0 "[]" "Column [] ''x''" 0 7 qmark 7]
  by (simp add: eval_simps)

text \<open>
  C28: \<^verbatim>\<open>BinaryOperator.negate\<close> does not copy \<^verbatim>\<open>SuppressSpace\<close>. For every
  negatable binary operator and all operands, the rewrite of NOT over the glued operator
  is the same tree as the rewrite of NOT over its spaced twin, so the negated symbol is
  always printed with spaces around it.
\<close>

theorem negation_forgets_suppress_space:
  assumes "binary_negatable nt ns"
  shows "transform (Not_op (BinaryOperator t s nt ns l r p a True)) =
         transform (Not_op (BinaryOperator t s nt ns l r p a False))"
  using assms by (simp add: Not_op_def)

theorem negation_forgets_suppress_space_witness:
  "binary_negatable OpNotLike ''!~~'' \<and>
   stringify (BinaryOperator OpLike ''~~'' OpNotLike ''!~~'' (Column [] ''a'') (Column [] ''b'') 0 0 True) qmark =
     Inr (qmark\<lparr>buffer := ''a~~b''\<rparr>) \<and>
   stringify (transform (Not_op (BinaryOperator OpLike ''~~'' OpNotLike ''!~~''
       (Column [] ''a'') (Column [] ''b'') 0 0 True))) qmark =
   stringify (transform (Not_op (BinaryOperator OpLike ''~~'' OpNotLike ''!~~''
       (Column [] ''a'') (Column [] ''b'') 0 0 False))) qmark \<and>
   stringify (transform (Not_op (BinaryOperator OpLike ''~~'' OpNotLike ''!~~''
       (Column [] ''a'') (Column [] ''b'') 0 0 True))) qmark =
     Inr (qmark\<lparr>buffer := ''a !~~ b''\<rparr>)"
  using negation_forgets_suppress_space [of OpNotLike "''!~~''" OpLike "''~~''"
      "Column [] ''a''" "Column [] ''b''" 0 0]
  by (simp add: eval_simps)


text \<open>
  C29: two binary operators of equal precedence and opposite associativities. The
  spec's tie-break assumes one associativity per precedence level; with a
  left-associative \<open>op1\<close> and a right-associative \<open>op2\<close> of the same precedence,
  \<open>(x op2 y) op1 z\<close> and \<open>x op2 (y op1 z)\<close> are different trees that print the
  same text, whatever the dialect, the symbols and the leaves.
\<close>

theorem mixed_associativity_ambiguous:
  assumes p1: "resolveOperatorPrecedence (BinaryOperator t1 s1 nt1 ns1 x y p1 a1 ss1) c = Inr q"
    and p2: "resolveOperatorPrecedence (BinaryOperator t2 s2 nt2 ns2 x y p2 a2 ss2) c = Inr q"
    and a1: "resolveOperatorAssociativity (BinaryOperator t1 s1 nt1 ns1 x y p1 a1 ss1) c =
               Inr LeftAssociative"
    and a2: "resolveOperatorAssociativity (BinaryOperator t2 s2 nt2 ns2 x y p2 a2 ss2) c =
               Inr RightAssociative"
    and leaves: "\<not> is_operator x" "\<not> is_operator y" "\<not> is_operator z"
  shows "BinaryOperator t1 s1 nt1 ns1 (BinaryOperator t2 s2 nt2 ns2 x y p2 a2 ss2) z p1 a1 ss1 \<noteq>
           BinaryOperator t2 s2 nt2 ns2 x (BinaryOperator t1 s1 nt1 ns1 y z p1 a1 ss1) p2 a2 ss2 \<and>
         stringify (BinaryOperator t1 s1 nt1 ns1 (BinaryOperator t2 s2 nt2 ns2 x y p2 a2 ss2) z p1 a1 ss1) c =
         stringify (BinaryOperator t2 s2 nt2 ns2 x (BinaryOperator t1 s1 nt1 ns1 y z p1 a1 ss1) p2 a2 ss2) c"
proof -
  let ?B1 = "\<lambda>l r. BinaryOperator t1 s1 nt1 ns1 l r p1 a1 ss1"
  let ?B2 = "\<lambda>l r. BinaryOperator t2 s2 nt2 ns2 l r p2 a2 ss2"
  let ?sep1 = "if ss1 then s1 else '' '' @ s1 @ '' ''"
  let ?sep2 = "if ss2 then s2 else '' '' @ s2 @ '' ''"
  have r: "resolveOperatorPrecedence (?B1 l r) c' = Inr q \<and>
      resolveOperatorPrecedence (?B2 l r) c' = Inr q \<and>
      resolveOperatorAssociativity (?B1 l r) c' = Inr LeftAssociative \<and>
      resolveOperatorAssociativity (?B2 l r) c' = Inr RightAssociative"
    if "extends c c'" for l r c'
    using that p1 p2 a1 a2
    by (auto simp: resolveOperatorPrecedence_def resolveOperatorAssociativity_def extends_def Let_def
        split: if_splits)
  have rc: "resolveOperatorPrecedence (?B1 l r) c = Inr q \<and>
      resolveOperatorPrecedence (?B2 l r) c = Inr q \<and>
      resolveOperatorAssociativity (?B1 l r) c = Inr LeftAssociative \<and>
      resolveOperatorAssociativity (?B2 l r) c = Inr RightAssociative" for l r
    by (rule r) (simp add: extends_def)
  have L: "stringify (?B1 (?B2 x y) z) c =
      ebind (stringify x c) (\<lambda>a. ebind (stringify y (WriteVerbatim ?sep2 a))
        (\<lambda>b. stringify z (WriteVerbatim ?sep1 b)))"
    using leaves rc by (simp add: binary_stringify_def print_child_def binary_need_paren_def
        ebind_assoc split del: if_split)
  have R: "stringify (?B2 x (?B1 y z)) c =
      ebind (stringify x c) (\<lambda>a. ebind (stringify y (WriteVerbatim ?sep2 a))
        (\<lambda>b. stringify z (WriteVerbatim ?sep1 b)))"
  proof -
    have "stringify (?B2 x (?B1 y z)) c = ebind (stringify x c) (\<lambda>a.
        print_child (\<lambda>their. binary_need_paren RightAssociative q their LeftAssociative)
          (?B1 y z) (stringify (?B1 y z)) (WriteVerbatim ?sep2 a))"
      using leaves rc by (simp add: binary_stringify_def print_child_def split del: if_split)
    also have "\<dots> = ebind (stringify x c) (\<lambda>a. ebind (stringify y (WriteVerbatim ?sep2 a))
        (\<lambda>b. stringify z (WriteVerbatim ?sep1 b)))"
    proof (rule ebind_cong [OF refl])
      fix a assume "stringify x c = Inr a"
      then have "extends c (WriteVerbatim ?sep2 a)"
        using stringify_grows by (auto simp: grows_def)
      from r [OF this] show "print_child (\<lambda>their. binary_need_paren RightAssociative q their LeftAssociative)
          (?B1 y z) (stringify (?B1 y z)) (WriteVerbatim ?sep2 a) =
        ebind (stringify y (WriteVerbatim ?sep2 a)) (\<lambda>b. stringify z (WriteVerbatim ?sep1 b))"
        using leaves by (simp add: binary_stringify_def print_child_def binary_need_paren_def
            split del: if_split)
    qed
    finally show ?thesis .
  qed
  show ?thesis using L R by (simp add: size_binary_neq)
qed

theorem mixed_associativity_ambiguous_witness:
  "BinaryOperator OpAdd ''+'' 0 [] (BinaryOperator 29 ''#'' 0 [] (Column [] ''x'') (Column [] ''y'') 7 RightAssociative False)
     (Column [] ''z'') 0 0 False \<noteq>
   BinaryOperator 29 ''#'' 0 [] (Column [] ''x'') (BinaryOperator OpAdd ''+'' 0 [] (Column [] ''y'') (Column [] ''z'') 0 0 False)
     7 RightAssociative False \<and>
   stringify (BinaryOperator OpAdd ''+'' 0 [] (BinaryOperator 29 ''#'' 0 [] (Column [] ''x'') (Column [] ''y'') 7 RightAssociative False)
     (Column [] ''z'') 0 0 False) qmark = Inr (qmark\<lparr>buffer := ''x # y + z''\<rparr>) \<and>
   stringify (BinaryOperator 29 ''#'' 0 [] (Column [] ''x'') (BinaryOperator OpAdd ''+'' 0 [] (Column [] ''y'') (Column [] ''z'') 0 0 False)
     7 RightAssociative False) qmark = Inr (qmark\<lparr>buffer := ''x # y + z''\<rparr>)"
  using mixed_associativity_ambiguous [of OpAdd "''+''" 0 "[]" "Column [] ''x''" "Column [] ''y''"
      0 0 False qmark 7 29 "''#''" 0 "[]" 7 RightAssociative False "Column [] ''z''"]
  by (simp add: eval_simps)

text \<open>
  C30: \<^verbatim>\<open>LabeledColumn.Transform\<close> returns the node unchanged, so the column list
  of a well-typed SELECT (every column a \<^verbatim>\<open>*LabeledColumn\<close>) comes out of the
  rewrite exactly as it went in, NOTs over negatable operators included; only the
  clauses are rewritten. The spec says the rewrite canonicalizes children bottom-up.
\<close>

theorem select_columns_not_rewritten:
  assumes "well_typed (SelectStmt cols fr wh gb hv ob li off)"
  shows "transform (SelectStmt cols fr wh gb hv ob li off) =
    SelectStmt cols (map_option transform fr) (map_option transform wh) (map_option transform gb)
      (map_option transform hv) (map_option transform ob) (map_option transform li)
      (map_option transform off)"
  using assms labeled_columns_transform [of cols] by simp

theorem select_columns_not_rewritten_witness:
  "well_typed (SelectStmt [LabeledColumn (Not_op (IsNull (Column [] ''x''))) ''y''] None
      (Some (WhereClause (Not_op (IsNull (Column [] ''x''))))) None None None None None) \<and>
   stringify (transform (SelectStmt [LabeledColumn (Not_op (IsNull (Column [] ''x''))) ''y''] None
      (Some (WhereClause (Not_op (IsNull (Column [] ''x''))))) None None None None None)) qmark =
     Inr (qmark\<lparr>buffer := ''SELECT NOT x IS NULL y WHERE x IS NOT NULL''\<rparr>)"
  using select_columns_not_rewritten [of "[LabeledColumn (Not_op (IsNull (Column [] ''x''))) ''y'']"
      None "Some (WhereClause (Not_op (IsNull (Column [] ''x''))))" None None None None None]
  by (simp add: eval_simps)

text \<open>
  C31: the rewrite can break a query. In every dialect that gives \<open><>\<close> an
  associativity but no precedence, the rewrite of \<open>NOT (l = r)\<close> fails with
  \<open>ErrNoPrecedence\<close>, for all operands, although \<open>NOT (l = r)\<close> itself may
  print there. The spec presents the rewrite as a canonicalization before printing
  and does not require the dialect to define the negated operators.
\<close>

theorem rewrite_needs_negated_ops:
  assumes "precedence c OpNotEq = 0" and "associativity c OpNotEq \<noteq> 0"
  shows "stringify (transform (Not_op (Eq l r))) c = Inl ErrNoPrecedence"
  using assms by (simp add: Not_op_def Eq_def binop_def binary_stringify_def
      resolveOperatorPrecedence_def resolveOperatorAssociativity_def)

theorem rewrite_needs_negated_ops_witness:
  "precedence (qmark\<lparr>precedence := example_precedence(OpNotEq := 0)\<rparr>) OpNotEq = 0 \<and>
   associativity (qmark\<lparr>precedence := example_precedence(OpNotEq := 0)\<rparr>) OpNotEq \<noteq> 0 \<and>
   stringify (Not_op (Eq (Column [] ''a'') (Column [] ''b'')))
     (qmark\<lparr>precedence := example_precedence(OpNotEq := 0)\<rparr>) =
     Inr (qmark\<lparr>precedence := example_precedence(OpNotEq := 0), buffer := ''NOT a = b''\<rparr>) \<and>
   stringify (transform (Not_op (Eq (Column [] ''a'') (Column [] ''b''))))
     (qmark\<lparr>precedence := example_precedence(OpNotEq := 0)\<rparr>) = Inl ErrNoPrecedence"
  using rewrite_needs_negated_ops [of "qmark\<lparr>precedence := example_precedence(OpNotEq := 0)\<rparr>"
      "Column [] ''a''" "Column [] ''b''"]
  by (simp add: eval_simps)

end
