(* ===== verification/Spec2Isabelle.thy ===== *)
theory Spec2Isabelle
  imports Compiler Ast Resolve TransformMethods Transform Stringify Dialect Frame Paren Placeholders Printable
    Builders Typing Bounds Compose Findings
begin

text \<open>
  \<^bold>\<open>flexsql\<close> builds SQL text from a tree of nodes. Application code composes
  builder functions (\<^verbatim>\<open>src/operator.go\<close> lines 353--634,
  \<^verbatim>\<open>src/grammar.go\<close> \<^verbatim>\<open>Decimal\<close>, \<^verbatim>\<open>Cast\<close>, \<^verbatim>\<open>Func\<close>, \<^verbatim>\<open>Join\<close>,
  \<^verbatim>\<open>Case\<close>, \<^verbatim>\<open>GroupBy\<close>, \<^verbatim>\<open>OrderBy\<close>, ...) into a root node. The root is
  rewritten once by its \<^verbatim>\<open>Transform\<close> methods, which collapse a NOT over a
  negatable operator. It is then printed once by its \<^verbatim>\<open>Stringify\<close> methods into a
  \<^verbatim>\<open>Compiler\<close>. The \<^verbatim>\<open>Compiler\<close> holds the output buffer, the dialect's
  precedence and associativity tables, identifier quoting and the placeholder binder.
  At every operator, \<^verbatim>\<open>Stringify\<close> asks the resolver
  (\<^verbatim>\<open>resolveOperatorPrecedence\<close>/\<^verbatim>\<open>resolveOperatorAssociativity\<close>) whether
  a child needs parentheses.

  \<^bold>\<open>Theories and correspondence.\<close>
  \<^item> \<open>Prelude\<close>: the error values of grammar.go lines 10--18, plus the two panics
    the code can reach (\<open>PanicIndexOutOfRange\<close>, \<open>PanicIllegalFuncName\<close>). It
    also holds the error monad \<open>error + 'a\<close> (\<open>ebind\<close> is Go's
    \<^verbatim>\<open>if err != nil { return err }\<close>) and shared list and sum lemmas.
  \<^item> \<open>Compiler\<close>: the output context as a record (buffer, bindings, precedence,
    associativity, quote_identifier, render_placeholder). It is not under
    \<^verbatim>\<open>src/\<close> and is modelled from spec section 4.6. Its operations are
    \<open>WriteVerbatim\<close>, \<open>WriteIdentifier\<close>, \<open>insertPlaceholder\<close> and
    \<open>makePlaceholder\<close>. The theory also holds the abstract binder \<open>bind_abs\<close> that
    \<open>insertPlaceholder\<close> refines.
  \<^item> \<open>Ast\<close>: the datatype \<open>node\<close>, with one constructor per Go struct implementing
    \<^verbatim>\<open>Node\<close> and its fields in order. It also holds the \<^verbatim>\<open>operator\<close>
    interface methods, \<open>negatable\<close>/\<open>negate\<close> dispatching to the methods of
    each operator struct (\<open>unary_negate\<close>, \<open>binary_negate\<close>, ...), and the
    operator builders.
  \<^item> \<open>Resolve\<close>: operator.go lines 55--77, where the override wins, then the
    dialect table, else an error; zero is "unset".
  \<^item> \<open>Stringify\<close>: the print pass. \<open>stringify\<close> dispatches on the node to one
    definition per \<^verbatim>\<open>Stringify\<close> method (\<open>join_stringify\<close>,
    \<open>column_stringify\<close>, \<open>orderby_item_stringify\<close>, ...), each given the
    printers of its children. It is mutually recursive with
    \<open>stringifyCommaSeparated\<close> and the CASE and SELECT loops, and uses
    \<open>stringifyParen\<close>. The per-operator
    paren rules are \<open>unary_need_paren\<close>, \<open>binary_need_paren\<close> and
    \<open>ternary_need_paren\<close>.
  \<^item> \<open>TransformMethods\<close> and \<open>Transform\<close>: each \<^verbatim>\<open>Transform\<close> method that
    rewrites children is a definition taking the rewrite to apply to them
    (\<open>cast_transform\<close> \<dots> \<open>select_transform\<close>, \<open>binary_transform\<close>,
    \<open>ternary_transform\<close>); \<open>transform\<close> dispatches on the node to them and holds
    \<^verbatim>\<open>UnaryOperator.Transform\<close> with its NOT rule. In-place mutation is pure
    reconstruction, because nodes are single-owner.
  \<^item> \<open>Placeholders\<close>: \<^verbatim>\<open>generatePlaceholders\<close>,
    \<^verbatim>\<open>makePlaceholderTuple\<close>, \<^verbatim>\<open>PlaceholderTuple\<close> and \<^verbatim>\<open>MakeTuple\<close>.
    \<^verbatim>\<open>strconv.Itoa\<close> is modelled from its documentation (\<open>Itoa\<close>,
    \<open>string_of_nat\<close>), with its inverse \<open>Atoi\<close>.
  \<^item> \<open>Builders\<close>: the SQL type constants, \<^verbatim>\<open>Decimal\<close> and \<^verbatim>\<open>Cast\<close>;
    \<^verbatim>\<open>funcNameRegexp\<close>, \<^verbatim>\<open>checkFuncName\<close>, \<^verbatim>\<open>Func\<close> and
    \<^verbatim>\<open>Func0\<close>; the joins, \<^verbatim>\<open>Case\<close>/\<^verbatim>\<open>When\<close>/\<^verbatim>\<open>Else\<close>,
    \<^verbatim>\<open>GroupBy\<close>, \<^verbatim>\<open>Desc\<close>/\<^verbatim>\<open>Asc\<close>, the
    \<^verbatim>\<open>OrderByItem\<close> accessors, \<^verbatim>\<open>NullsFirst\<close>/\<^verbatim>\<open>NullsLast\<close>
    and \<^verbatim>\<open>OrderBy\<close>.
  \<^item> \<open>Dialect\<close>: an example \<open>?\<close>-style output context \<open>qmark\<close>, with the usual SQL
    precedence ordering. The end-to-end examples and all witnesses are evaluated on
    it by \<open>simp\<close> with \<open>eval_simps\<close>.

  \<^bold>\<open>What the lemmas show.\<close>
  \<^item> \<open>Paren\<close>: each operator wraps an operand exactly under the spec's formulas,
    including the tie-breaks (C1--C3). A NonAssociative unary operator is an error.
  \<^item> \<open>Transform\<close>:
    \<^item> the fixed points of the rewrite are exactly the canonical trees, and
      double negation cancels;
    \<^item> idempotence and canonical results;
    \<^item> the placeholder list is preserved;
    \<^item> termination on every input (\<open>transform_dom\<close>).
  \<^item> \<open>Frame\<close>: a print pass only appends to the buffer, keeps the binder
    well-formed, and a name always prints the same text. Printing a placeholder refines the abstract binder.
  \<^item> \<open>Printable\<close>:
    a print pass succeeds exactly when the tree is \<open>printable\<close> in the dialect,
    which depends on the dialect only.
  \<^item> \<open>Placeholders\<close>: the generated names are distinct, and the placeholder tuple prints and binds as specified.
  \<^item> \<open>Typing\<close>: Go's static field types are the predicate \<open>well_typed\<close>.
    \<^item> The rewrite preserves them, so no type assertion in \<^verbatim>\<open>Transform\<close> panics.
    \<^item> A CASE built with the builders never reaches its index panic.
    \<^item> An accepted function name cannot break out of the call.
    \<^item> The ORDER BY NULLS printing is stated.
    \<^item> \<^verbatim>\<open>Decimal\<close> round-trips.
  \<^item> \<open>Bounds\<close>: a print pass binds only the placeholder names of the tree
    (\<open>stringify_within\<close>, by induction over the mutually recursive pass). From a
    well-formed binder, the number of bindings and every position are therefore bounded
    by the old count plus the number of distinct placeholder names.
  \<^item> \<open>Compose\<close>: rewrite-then-print. In a \<open>complete_dialect\<close> (every operator type
    1--28 has a precedence and an associativity, no unary type is NonAssociative;
    \<open>qmark\<close> is one), the operator checks of \<open>printable\<close> pass for every
    \<open>resolvable\<close> tree (operators with the builders' types). The rewrite keeps such a
    tree printable.
  \<^item> \<open>Findings\<close>: general theorems for what the code does beyond or against the
    spec: an associativity outside the three named values drops a unary symbol;
    negation forgets \<^verbatim>\<open>SuppressSpace\<close>; equal precedences with opposite
    associativities make two trees print alike; a SELECT's columns are never
    rewritten; a dialect without a negated operator's precedence makes the rewrite fail.
  \<^item> This theory holds end-to-end examples of spec section 8, a whole composed
    query, and the empty-column-list panic of \<^verbatim>\<open>SelectStmt.Stringify\<close>.

  \<^bold>\<open>Bounds and fuel.\<close> None. Every recursion is structural or terminates by the size
  of the tree, including the NOT rule of \<open>transform\<close> (a negation is no larger than
  the operator) and the mutual recursion of \<open>stringify\<close>. So every function is
  total and no claim is conditional on fuel. Go \<^verbatim>\<open>uint\<close> precedences and
  associativities are only compared, so \<open>nat\<close> is exact.

  \<^bold>\<open>Not modelled.\<close>
  \<^item> The \<^verbatim>\<open>*Compiler\<close> argument of \<^verbatim>\<open>Transform\<close>, which is never read.
  \<^item> Aliasing of shared subtrees, which the spec rules out (nodes are single-owner).
  \<^item> Nil pointers in pointer fields other than the optional clauses, which Go would
    dereference and panic on.
  \<^item> The text of Go panic messages.
  \<^item> Go's regexp engine, beyond the one pattern \<^verbatim>\<open>funcNameRegexp\<close>, which is
    translated as a whole-string matcher.
  \<^item> The Compiler and \<^verbatim>\<open>strconv\<close>, which are not under \<^verbatim>\<open>src/\<close> and are
    modelled from the spec and the library documentation.
\<close>

section \<open>End-to-end examples\<close>

text \<open>
  End-to-end (spec section 8): \<open>EQ(column(a), placeholder(x))\<close> against a \<open>?\<close>-style dialect prints \<open>a = ?\<close> and binds \<open>x\<close> at position 1.
\<close>

theorem e2e_placeholder:
  "stringify (Eq (Column [] ''a'') (Placeholder ''x'')) qmark =
     Inr (qmark\<lparr>buffer := ''a = ?'', bindings := [(''x'', 1)]\<rparr>)"
  by (simp add: eval_simps)

text \<open>
  Example: a whole query composed with the builders, rewritten once and printed once:
  \<open>SELECT count(u.id) n FROM users u LEFT JOIN orders o ON u.id = o.uid WHERE NOT
  (o.total IS NULL) AND u.age > :age GROUP BY u.name ORDER BY n DESC NULLS LAST LIMIT 10\<close>
  prints with the NOT collapsed into \<open>IS NOT NULL\<close>, no parentheses, one space
  between clauses, and \<open>age\<close> bound at position 1.
\<close>

theorem e2e_query:
  "ebind (Func ''count'') (\<lambda>count.
     stringify (transform (SelectStmt [LabeledColumn (count [Column ''u'' ''id'']) ''n'']
       (Some (FromClause (FromClauseItem None None (Some (LeftJoin
          (FromClauseItem (Some (LabeledTable [] ''users'' ''u'')) None None)
          (FromClauseItem (Some (LabeledTable [] ''orders'' ''o'')) None None)
          (Eq (Column ''u'' ''id'') (Column ''o'' ''uid'')))))))
       (Some (WhereClause (And (Not_op (IsNull (Column ''o'' ''total'')))
                               (Gt (Column ''u'' ''age'') (Placeholder ''age'')))))
       (Some (GroupBy (Column ''u'' ''name'') [])) None
       (Some (OrderBy (NullsLast (Desc (Column [] ''n''))) []))
       (Some (LimitClause (SQLType ''10''))) None)) qmark) =
   Inr (qmark\<lparr>buffer := ''SELECT count(u.id) n FROM users u LEFT JOIN orders o ON u.id = o.uid WHERE o.total IS NOT NULL AND u.age > ? GROUP BY u.name ORDER BY n DESC NULLS LAST LIMIT 10'',
              bindings := [(''age'', 1)]\<rparr>)"
  by (simp add: eval_simps statement_builders func_name_simps)
text \<open>
  Example: \<^verbatim>\<open>Cast(x, Decimal(10, 2))\<close> prints \<open>CAST(x AS DECIMAL(10,2))\<close>, and a
  negative precision keeps its sign.
\<close>

theorem e2e_cast_decimal:
  "stringify (Cast (Column [] ''x'') (Decimal 10 2)) qmark =
     Inr (qmark\<lparr>buffer := ''CAST(x AS DECIMAL(10,2))''\<rparr>) \<and>
   Decimal (-1) 0 = ''DECIMAL(-1,0)''"
  by (simp add: eval_simps statement_builders Decimal_def Itoa_def string_of_nat.simps
      char_of_def bit_0)

text \<open>
  End-to-end (spec section 8): \<open>rewrite(NOT(IS_NULL(x)))\<close> prints like \<open>IS_NOT_NULL(x)\<close>, \<open>rewrite(NOT(NOT(EQ(a,b))))\<close> like \<open>rewrite(EQ(a,b))\<close>, and \<open>NOT (a = b)\<close> prints as \<open>a <> b\<close>.
\<close>

theorem e2e_rewrite_then_print:
  "stringify (transform (Not_op (IsNull (Column [] ''x'')))) qmark =
     stringify (IsNotNull (Column [] ''x'')) qmark \<and>
   stringify (transform (Not_op (Not_op (Eq (Column [] ''a'') (Column [] ''b''))))) qmark =
     stringify (transform (Eq (Column [] ''a'') (Column [] ''b''))) qmark \<and>
   stringify (transform (Not_op (Eq (Column [] ''a'') (Column [] ''b'')))) qmark =
     Inr (qmark\<lparr>buffer := ''a <> b''\<rparr>)"
  by (simp add: eval_simps)

text \<open>
  C26: a SELECT with an empty column list indexes \<^verbatim>\<open>s.Columns[0]\<close> and panics, after nothing but \<open>SELECT \<close> was written; the spec has no error kind for it.
\<close>

theorem select_without_columns_panics:
  "stringify (SelectStmt [] fr wh gb hv ob li off) c = Inl PanicIndexOutOfRange"
  by simp

end
